theory Spec2Isabelle
  imports Complex_Main "HOL-Library.Word" "HOL-Library.Signed_Division"
begin

section \<open>The zView presenter sample: data model\<close>

text \<open>
  The development embeds the zView part of \<^verbatim>\<open>BasicPresenterSample.cpp\<close>: the
  per-connection update (\<^verbatim>\<open>updateZviewConnection\<close>), mode set-up and tear-down, the
  frame pump (\<^verbatim>\<open>drawZview\<close>) and the keyboard commands.

  The program keeps its state in global variables and talks to three libraries (zView,
  the zSpace Core API and OpenGL) whose code is not part of the sources. The globals
  become one record, \<open>world\<close>, threaded through every function. A library call is
  modelled from the caller's side: the call is appended to the trace \<open>calls\<close> of the
  world, and what the library answers (error code, out-parameters) is read from an
  environment \<open>env\<close>, which holds the answers of the libraries for the duration of one
  invocation of an entry point. A bool-returning C++ function becomes a function to
  \<open>bool \<times> world\<close>.

  Opaque handles and pointers are natural numbers, \<open>NULL\<close> being 0. The matrices
  of the augmented reality camera and the pure rendering calls of OpenGL (bind, clear,
  draw), which return nothing and feed no decision, are left out.
\<close>

type_synonym ZVConnection = nat
type_synonym ZVMode = nat
type_synonym ZVFrame = nat
type_synonym ZVContext = nat
type_synonym ZCHandle = nat
type_synonym GLuint = "32 word"
type_synonym ZSUInt16 = "16 word"
type_synonym ZSUInt64 = "64 word"
type_synonym ZSInt32 = int

abbreviation NULL :: nat where "NULL \<equiv> 0"

subsection \<open>Single-precision numbers\<close>

text \<open>
  \<^verbatim>\<open>ZSFloat\<close> is the C type \<^verbatim>\<open>float\<close>: IEEE 754 binary32, with arithmetic in that
  format and rounding to nearest, ties to even. A value is a real number, an infinity or
  NaN. The two zeros are one value here: the operations the sample applies (addition,
  \<^verbatim>\<open><\<close>, \<^verbatim>\<open>>\<close>, negation, conversion from \<^verbatim>\<open>int\<close>) give equal results on them, up
  to the sign of a zero.

  \<open>round32\<close> rounds a real number to the format. \<open>binade x\<close> is the exponent \<open>e\<close> with
  \<open>2 powi e \<le> \<bar>x\<bar> < 2 powi (e + 1)\<close>, kept between \<open>-126\<close>, the exponent of the
  subnormal numbers, and 127, the largest of the format; the numbers of the format in
  that binade are the multiples of \<open>2 powi (binade x - 23)\<close>. \<open>x\<close> goes to the nearest
  multiple, and to the even one when it lies halfway between two; a result of magnitude
  \<open>2 ^ 128\<close> or more has overflowed and is an infinity.
\<close>

datatype ZSFloat = Finite real | PlusInfinity | MinusInfinity | NaN

definition round_half_even :: "real \<Rightarrow> int" where
  "round_half_even x =
     (let n = \<lfloor>x\<rfloor>; d = x - of_int n
      in if d < 1 / 2 then n else if 1 / 2 < d then n + 1 else if even n then n else n + 1)"

definition binade :: "real \<Rightarrow> int" where
  "binade x = Max (insert (- 126) {e \<in> {- 126 .. 127}. 2 powi e \<le> \<bar>x\<bar>})"

definition round32 :: "real \<Rightarrow> ZSFloat" where
  "round32 x =
     (let q = 2 powi (binade x - 23);
          r = of_int (round_half_even (x / q)) * q
      in if 2 ^ 128 \<le> r then PlusInfinity
         else if r \<le> - (2 ^ 128) then MinusInfinity
         else Finite r)"

text \<open>
  Addition \<^verbatim>\<open>+\<close>, the comparison \<^verbatim>\<open><\<close> (\<^verbatim>\<open>a > b\<close> is \<open>flt b a\<close>), unary minus and
  the conversion \<^verbatim>\<open>(float)\<close> of an \<^verbatim>\<open>int\<close>. A comparison with NaN is false.
\<close>

fun fadd :: "ZSFloat \<Rightarrow> ZSFloat \<Rightarrow> ZSFloat" where
  "fadd (Finite a) (Finite b) = round32 (a + b)"
| "fadd NaN y = NaN"
| "fadd x NaN = NaN"
| "fadd PlusInfinity MinusInfinity = NaN"
| "fadd MinusInfinity PlusInfinity = NaN"
| "fadd PlusInfinity y = PlusInfinity"
| "fadd x PlusInfinity = PlusInfinity"
| "fadd MinusInfinity y = MinusInfinity"
| "fadd x MinusInfinity = MinusInfinity"

fun flt :: "ZSFloat \<Rightarrow> ZSFloat \<Rightarrow> bool" where
  "flt (Finite a) (Finite b) = (a < b)"
| "flt (Finite a) PlusInfinity = True"
| "flt MinusInfinity (Finite b) = True"
| "flt MinusInfinity PlusInfinity = True"
| "flt x y = False"

fun fneg :: "ZSFloat \<Rightarrow> ZSFloat" where
  "fneg (Finite a) = Finite (- a)"
| "fneg PlusInfinity = MinusInfinity"
| "fneg MinusInfinity = PlusInfinity"
| "fneg NaN = NaN"

definition float_of_int :: "int \<Rightarrow> ZSFloat" where
  "float_of_int i = round32 (of_int i)"

text \<open>
  The enumerations below are declared in the headers of the libraries. Their enumerators
  are the ones the source names; an error code other than OK carries its number.
\<close>

datatype ZVError = ZV_ERROR_OK | ZV_ERROR_CODE nat

datatype ZCError = ZC_ERROR_OK | ZC_ERROR_CODE nat

datatype ZVConnectionState =
    ZV_CONNECTION_STATE_CONNECTION_INITIALIZATION
  | ZV_CONNECTION_STATE_AWAITING_CONNECTION_ACCEPTANCE
  | ZV_CONNECTION_STATE_SWITCHING_MODES
  | ZV_CONNECTION_STATE_NO_MODE
  | ZV_CONNECTION_STATE_MODE_SETUP
  | ZV_CONNECTION_STATE_MODE_ACTIVE
  | ZV_CONNECTION_STATE_MODE_PAUSED
  | ZV_CONNECTION_STATE_MODE_RESUMING
  | ZV_CONNECTION_STATE_PROCESSING_MODE_SETTINGS_CHANGE
  | ZV_CONNECTION_STATE_CLOSED
  | ZV_CONNECTION_STATE_ERROR

datatype ZVModeSetupPhase =
    ZV_MODE_SETUP_PHASE_INITIALIZATION
  | ZV_MODE_SETUP_PHASE_COMPLETION

datatype ZVVideoRecordingState =
    ZV_VIDEO_RECORDING_STATE_NOT_AVAILABLE
  | ZV_VIDEO_RECORDING_STATE_NOT_RECORDING
  | ZV_VIDEO_RECORDING_STATE_RECORDING
  | ZV_VIDEO_RECORDING_STATE_PAUSED
  | ZV_VIDEO_RECORDING_STATE_FINISHED
  | ZV_VIDEO_RECORDING_STATE_ERROR

datatype ZVSettingKey =
    ZV_SETTING_KEY_IMAGE_WIDTH
  | ZV_SETTING_KEY_IMAGE_HEIGHT
  | ZV_SETTING_KEY_OVERLAY_OFFSET_X
  | ZV_SETTING_KEY_OVERLAY_OFFSET_Y
  | ZV_SETTING_KEY_OVERLAY_SCALE_X
  | ZV_SETTING_KEY_OVERLAY_SCALE_Y

datatype ZVFrameDataKey =
    ZV_FRAME_DATA_KEY_FRAME_NUMBER
  | ZV_FRAME_DATA_KEY_CAMERA_POSE
  | ZV_FRAME_DATA_KEY_CAMERA_FOCAL_LENGTH
  | ZV_FRAME_DATA_KEY_CAMERA_PRINCIPAL_POINT_OFFSET_X
  | ZV_FRAME_DATA_KEY_CAMERA_PRINCIPAL_POINT_OFFSET_Y
  | ZV_FRAME_DATA_KEY_CAMERA_PIXEL_ASPECT_RATIO
  | ZV_FRAME_DATA_KEY_CAMERA_AXIS_SKEW

datatype ZVModeAvailability =
    ZV_MODE_AVAILABILITY_AVAILABLE
  | ZV_MODE_AVAILABILITY_OTHER nat

datatype ZVConnectionCloseAction =
    ZV_CONNECTION_CLOSE_ACTION_NONE
  | ZV_CONNECTION_CLOSE_ACTION_EXIT_APPLICATION

datatype ZVConnectionCloseReason =
    ZV_CONNECTION_CLOSE_REASON_CONNECTION_REJECTED
  | ZV_CONNECTION_CLOSE_REASON_USER_REQUESTED

record ZVSupportedMode =
  mode :: ZVMode
  availability :: ZVModeAvailability

text \<open>The OpenGL objects of the two modes, named after the global that holds their id.\<close>

datatype gl_object =
    StandardModeGlFramebuffer
  | StandardModeColorGlTexture
  | StandardModeDepthGlRenderbuffer
  | AugmentedRealityModeMaskVertexArray
  | AugmentedRealityModeMaskVertexArrayBuffer
  | AugmentedRealityModeBackgroundVertexArray
  | AugmentedRealityModeBackgroundVertexArrayBuffer
  | AugmentedRealityModeMaskGlFramebuffer
  | AugmentedRealityModeGlFramebuffer
  | AugmentedRealityModeColorGlTexture
  | AugmentedRealityModeDepthStencilGlRenderbuffer

text \<open>
  The messages given to \<^verbatim>\<open>printLog\<close>. A message that the source builds from values
  carries those values.
\<close>

datatype log_message =
    VideoRecordingStateTransition ZVVideoRecordingState ZVVideoRecordingState
  | VideoRecordingErrorOccurred ZVError
  | SwitchingZviewModes

text \<open>The library calls the modelled functions make, with the arguments they pass.\<close>

datatype api_call =
    ZvUpdateConnection ZVConnection
  | ZvGetConnectionState ZVConnection
  | ZvAcceptConnection ZVConnection
  | ZvCloseConnection ZVConnection ZVConnectionCloseAction ZVConnectionCloseReason string
  | ZvDestroyConnection ZVConnection
  | ZvSetNodeStatus ZVContext string
  | ZvGetConnectionMode ZVConnection
  | ZvSetConnectionMode ZVConnection ZVMode
  | ZvGetConnectionModeSetupPhase ZVConnection
  | ZvCompleteModeSetupPhase ZVConnection ZVModeSetupPhase
  | ZvGetNumConnectionSupportedModes ZVConnection
  | ZvGetConnectionSupportedMode ZVConnection ZSInt32
  | ZvBeginSettingsBatch ZVConnection
  | ZvEndSettingsBatch ZVConnection
  | ZvSetSettingU16 ZVConnection ZVSettingKey ZSUInt16
  | ZvGetSettingU16 ZVConnection ZVSettingKey
  | ZvSetSettingF32 ZVConnection ZVSettingKey ZSFloat
  | ZvGetSettingF32 ZVConnection ZVSettingKey
  | ZvGetVideoRecordingState ZVConnection
  | ZvGetVideoRecordingError ZVConnection
  | ZvClearVideoRecordingError ZVConnection
  | ZvGetNextFrameToSend ZVConnection
  | ZvReceiveFrame ZVConnection
  | ZvReleaseReceivedFrame ZVFrame
  | ZvSetFrameDataU64 ZVFrame ZVFrameDataKey ZSUInt64
  | ZvGetFrameDataU64 ZVFrame ZVFrameDataKey
  | ZvGetFrameDataM4 ZVFrame ZVFrameDataKey
  | ZvGetFrameDataF32 ZVFrame ZVFrameDataKey
  | ZvGetFrameBuffer ZVFrame
  | ZvSendFrame ZVFrame
  | ZcCreateViewport
  | ZcDestroyViewport ZCHandle
  | ZcGetFrustum ZCHandle
  | ZcSetViewportPosition ZCHandle
  | ZcSetViewportSize ZCHandle ZSUInt16 ZSUInt16
  | ZcGetFrustumViewMatrix ZCHandle
  | ZcGetFrustumProjectionMatrix ZCHandle
  | GlGen gl_object
  | GlDelete gl_object GLuint
  | GlGetTexImage GLuint ZVFrame
  | PrintLog log_message

text \<open>
  What the libraries answer. \<open>zvError\<close> and \<open>zcError\<close> give the error code a call
  returns; the \<open>out_\<close> fields give the values written to the out-parameters of a call
  that succeeds (a call that fails is taken to leave them alone);
  \<open>framebufferComplete\<close> says whether \<^verbatim>\<open>glCheckFramebufferStatus\<close> reports the
  framebuffer complete and \<open>isControlKeyPressed\<close> is the state of the control key.
\<close>

record env =
  zvError :: "api_call \<Rightarrow> ZVError"
  zcError :: "api_call \<Rightarrow> ZCError"
  out_connectionState :: "ZVConnection \<Rightarrow> ZVConnectionState"
  out_connectionMode :: "ZVConnection \<Rightarrow> ZVMode"
  out_modeSetupPhase :: "ZVConnection \<Rightarrow> ZVModeSetupPhase"
  out_isAwaitingCompletion :: "ZVConnection \<Rightarrow> bool"
  out_numSupportedModes :: "ZVConnection \<Rightarrow> ZSInt32"
  out_supportedMode :: "ZVConnection \<Rightarrow> ZSInt32 \<Rightarrow> ZVSupportedMode"
  out_settingU16 :: "ZVConnection \<Rightarrow> ZVSettingKey \<Rightarrow> ZSUInt16"
  out_settingF32 :: "ZVConnection \<Rightarrow> ZVSettingKey \<Rightarrow> ZSFloat"
  out_videoRecordingState :: "ZVConnection \<Rightarrow> ZVVideoRecordingState"
  out_videoRecordingError :: "ZVConnection \<Rightarrow> ZVError"
  out_nextFrameToSend :: "ZVConnection \<Rightarrow> ZVFrame"
  out_receivedFrame :: "ZVConnection \<Rightarrow> ZVFrame"
  out_frameDataU64 :: "ZVFrame \<Rightarrow> ZVFrameDataKey \<Rightarrow> ZSUInt64"
  out_viewportHandle :: ZCHandle
  out_frustumHandle :: "ZCHandle \<Rightarrow> ZCHandle"
  out_glGen :: "gl_object \<Rightarrow> GLuint"
  framebufferComplete :: "gl_object \<Rightarrow> bool"
  isControlKeyPressed :: bool

text \<open>The global variables of the sample that the zView code reads or writes.\<close>

record world =
  g_windowWidth :: int
  g_windowHeight :: int
  g_zViewContext :: ZVContext
  g_zViewActiveConnection :: ZVConnection
  g_zViewStandardMode :: ZVMode
  g_zViewAugmentedRealityMode :: ZVMode
  g_zViewLatestActiveConnectionMode :: ZVMode
  g_zViewCurrentConnectionModeIndex :: int
  g_zViewVideoRecordingLatestState :: ZVVideoRecordingState
  g_zViewStandardModeImageWidth :: ZSUInt16
  g_zViewStandardModeImageHeight :: ZSUInt16
  g_zViewStandardModeViewportHandle :: ZCHandle
  g_zViewStandardModeFrustumHandle :: ZCHandle
  g_zViewStandardModeFrameNumber :: ZSUInt64
  g_zViewStandardModeGlFramebufferId :: GLuint
  g_zViewStandardModeColorGlTextureId :: GLuint
  g_zViewStandardModeDepthGlRenderbufferId :: GLuint
  g_zViewAugmentedRealityModeImageWidth :: ZSUInt16
  g_zViewAugmentedRealityModeImageHeight :: ZSUInt16
  g_zViewAugmentedRealityModeMaskVertexArrayId :: GLuint
  g_zViewAugmentedRealityModeMaskVertexArrayBufferId :: GLuint
  g_zViewAugmentedRealityModeBackgroundVertexArrayId :: GLuint
  g_zViewAugmentedRealityModeBackgroundVertexArrayBufferId :: GLuint
  g_zViewAugmentedRealityModeMaskGlFramebufferId :: GLuint
  g_zViewAugmentedRealityModeGlFramebufferId :: GLuint
  g_zViewAugmentedRealityModeColorGlTextureId :: GLuint
  g_zViewAugmentedRealityModeDepthStencilGlRenderbufferId :: GLuint
  calls :: "api_call list"

definition ZVIEW_NODE_STATUS_NOT_CONNECTED :: string where
  "ZVIEW_NODE_STATUS_NOT_CONNECTED = ''Awaiting connection''"

definition ZVIEW_NODE_STATUS_CONNECTED :: string where
  "ZVIEW_NODE_STATUS_CONNECTED = ''Connected''"

subsection \<open>Calls and early returns\<close>

definition emit :: "api_call \<Rightarrow> world \<Rightarrow> world" where
  "emit c w = w\<lparr>calls := calls w @ [c]\<rparr>"

text \<open>
  \<open>zv env c w k\<close> makes the zView call \<open>c\<close> and applies the macro
  \<^verbatim>\<open>CHECK_ZV_ERROR\<close> to its result: an error other than OK returns false from the
  enclosing function, otherwise the function goes on with \<open>k\<close>. \<open>zc\<close> is the same
  for the zSpace Core API and \<^verbatim>\<open>CHECK_ZC_ERROR\<close>. \<open>gl\<close> is an OpenGL call, which
  returns no error. \<open>sub r k\<close> is \<^verbatim>\<open>if (!f(...)) return false;\<close> for a call whose
  outcome is \<open>r\<close>.
\<close>

definition zv :: "env \<Rightarrow> api_call \<Rightarrow> world \<Rightarrow> (world \<Rightarrow> bool \<times> world) \<Rightarrow> bool \<times> world" where
  "zv e c w k = (if zvError e c \<noteq> ZV_ERROR_OK then (False, emit c w) else k (emit c w))"

definition zc :: "env \<Rightarrow> api_call \<Rightarrow> world \<Rightarrow> (world \<Rightarrow> bool \<times> world) \<Rightarrow> bool \<times> world" where
  "zc e c w k = (if zcError e c \<noteq> ZC_ERROR_OK then (False, emit c w) else k (emit c w))"

definition sub :: "bool \<times> world \<Rightarrow> (world \<Rightarrow> bool \<times> world) \<Rightarrow> bool \<times> world" where
  "sub r k = (if fst r then k (snd r) else (False, snd r))"

section \<open>Settings\<close>

text \<open>\<^verbatim>\<open>incrementZviewSettingClampedF32\<close>\<close>

definition incrementZviewSettingClampedF32 ::
  "env \<Rightarrow> ZVConnection \<Rightarrow> ZVSettingKey \<Rightarrow> ZSFloat \<Rightarrow> ZSFloat \<Rightarrow> ZSFloat \<Rightarrow> world \<Rightarrow> bool \<times> world" where
  "incrementZviewSettingClampedF32 e connection settingKey increment minv maxv w =
     zv e (ZvGetSettingF32 connection settingKey) w (\<lambda>w.
       let settingValue = out_settingF32 e connection settingKey;
           settingValue = fadd settingValue increment;
           settingValue = (if flt settingValue minv then minv
                           else if flt maxv settingValue then maxv
                           else settingValue)
       in zv e (ZvSetSettingF32 connection settingKey settingValue) w (\<lambda>w. (True, w)))"

text \<open>
  \<^verbatim>\<open>processZviewAugmentedRealityModeOverlayControlKeyPress\<close>. The bounds of the offsets
  are \<^verbatim>\<open>(float)-g_zViewAugmentedRealityModeImageWidth\<close> and
  \<^verbatim>\<open>(float)g_zViewAugmentedRealityModeImageWidth\<close>: the 16-bit width is promoted to
  \<^verbatim>\<open>int\<close>, negated there, and converted. The literals \<^verbatim>\<open>1.0f\<close>, \<^verbatim>\<open>10.0f\<close> and
  \<^verbatim>\<open>0.0f\<close> are numbers of the format; \<^verbatim>\<open>0.01f\<close> is the number of the format nearest
  to 1/100.
\<close>

definition processZviewAugmentedRealityModeOverlayControlKeyPress ::
  "env \<Rightarrow> char \<Rightarrow> world \<Rightarrow> bool \<times> world" where
  "processZviewAugmentedRealityModeOverlayControlKeyPress e key w =
     (if g_zViewActiveConnection w = NULL then (True, w)
      else zv e (ZvGetConnectionState (g_zViewActiveConnection w)) w (\<lambda>w.
        if out_connectionState e (g_zViewActiveConnection w) \<noteq> ZV_CONNECTION_STATE_MODE_ACTIVE
        then (True, w)
        else zv e (ZvGetConnectionMode (g_zViewActiveConnection w)) w (\<lambda>w.
          if out_connectionMode e (g_zViewActiveConnection w) \<noteq> g_zViewAugmentedRealityMode w
          then (True, w)
          else if \<not> isControlKeyPressed e then (True, w)
          else if key = CHR ''A'' then
            sub (incrementZviewSettingClampedF32 e (g_zViewActiveConnection w)
                   ZV_SETTING_KEY_OVERLAY_OFFSET_X (fneg (Finite 1))
                   (float_of_int (- uint (g_zViewAugmentedRealityModeImageWidth w)))
                   (float_of_int (uint (g_zViewAugmentedRealityModeImageWidth w))) w)
                (\<lambda>w. (True, w))
          else if key = CHR ''D'' then
            sub (incrementZviewSettingClampedF32 e (g_zViewActiveConnection w)
                   ZV_SETTING_KEY_OVERLAY_OFFSET_X (Finite 1)
                   (float_of_int (- uint (g_zViewAugmentedRealityModeImageWidth w)))
                   (float_of_int (uint (g_zViewAugmentedRealityModeImageWidth w))) w)
                (\<lambda>w. (True, w))
          else if key = CHR ''S'' then
            sub (incrementZviewSettingClampedF32 e (g_zViewActiveConnection w)
                   ZV_SETTING_KEY_OVERLAY_OFFSET_Y (fneg (Finite 1))
                   (float_of_int (- uint (g_zViewAugmentedRealityModeImageWidth w)))
                   (float_of_int (uint (g_zViewAugmentedRealityModeImageWidth w))) w)
                (\<lambda>w. (True, w))
          else if key = CHR ''W'' then
            sub (incrementZviewSettingClampedF32 e (g_zViewActiveConnection w)
                   ZV_SETTING_KEY_OVERLAY_OFFSET_Y (Finite 1)
                   (float_of_int (- uint (g_zViewAugmentedRealityModeImageWidth w)))
                   (float_of_int (uint (g_zViewAugmentedRealityModeImageWidth w))) w)
                (\<lambda>w. (True, w))
          else if key = CHR ''Q'' then
            zv e (ZvSetSettingF32 (g_zViewActiveConnection w) ZV_SETTING_KEY_OVERLAY_OFFSET_X (Finite 0)) w
              (\<lambda>w. (True, w))
          else if key = CHR ''E'' then
            zv e (ZvSetSettingF32 (g_zViewActiveConnection w) ZV_SETTING_KEY_OVERLAY_OFFSET_Y (Finite 0)) w
              (\<lambda>w. (True, w))
          else if key = CHR ''F'' then
            sub (incrementZviewSettingClampedF32 e (g_zViewActiveConnection w)
                   ZV_SETTING_KEY_OVERLAY_SCALE_X (fneg (round32 (1 / 100))) (round32 (1 / 100)) (Finite 10) w)
                (\<lambda>w. (True, w))
          else if key = CHR ''H'' then
            sub (incrementZviewSettingClampedF32 e (g_zViewActiveConnection w)
                   ZV_SETTING_KEY_OVERLAY_SCALE_X (round32 (1 / 100)) (round32 (1 / 100)) (Finite 10) w)
                (\<lambda>w. (True, w))
          else if key = CHR ''G'' then
            sub (incrementZviewSettingClampedF32 e (g_zViewActiveConnection w)
                   ZV_SETTING_KEY_OVERLAY_SCALE_Y (fneg (round32 (1 / 100))) (round32 (1 / 100)) (Finite 10) w)
                (\<lambda>w. (True, w))
          else if key = CHR ''T'' then
            sub (incrementZviewSettingClampedF32 e (g_zViewActiveConnection w)
                   ZV_SETTING_KEY_OVERLAY_SCALE_Y (round32 (1 / 100)) (round32 (1 / 100)) (Finite 10) w)
                (\<lambda>w. (True, w))
          else if key = CHR ''R'' then
            zv e (ZvSetSettingF32 (g_zViewActiveConnection w) ZV_SETTING_KEY_OVERLAY_SCALE_X (Finite 1)) w
              (\<lambda>w. (True, w))
          else if key = CHR ''Y'' then
            zv e (ZvSetSettingF32 (g_zViewActiveConnection w) ZV_SETTING_KEY_OVERLAY_SCALE_Y (Finite 1)) w
              (\<lambda>w. (True, w))
          else (True, w))))"

text \<open>
  \<^verbatim>\<open>handleZviewStandardModeImageResolutionChange\<close>. The window size is an
  \<^verbatim>\<open>int\<close>; the comparison promotes the 16-bit image size to \<^verbatim>\<open>int\<close>, the calls and the
  assignments convert the window size to 16 bits.
\<close>

definition handleZviewStandardModeImageResolutionChange :: "env \<Rightarrow> world \<Rightarrow> bool \<times> world" where
  "handleZviewStandardModeImageResolutionChange e w =
     (if g_zViewActiveConnection w = NULL then (True, w)
      else if uint (g_zViewStandardModeImageWidth w) = g_windowWidth w \<and>
              uint (g_zViewStandardModeImageHeight w) = g_windowHeight w then (True, w)
      else
        zv e (ZvBeginSettingsBatch (g_zViewActiveConnection w)) w (\<lambda>w.
        zv e (ZvSetSettingU16 (g_zViewActiveConnection w) ZV_SETTING_KEY_IMAGE_WIDTH
                (word_of_int (g_windowWidth w))) w (\<lambda>w.
        zv e (ZvSetSettingU16 (g_zViewActiveConnection w) ZV_SETTING_KEY_IMAGE_HEIGHT
                (word_of_int (g_windowHeight w))) w (\<lambda>w.
        zv e (ZvEndSettingsBatch (g_zViewActiveConnection w)) w (\<lambda>w.
          (True, w\<lparr>g_zViewStandardModeImageWidth := word_of_int (g_windowWidth w),
                     g_zViewStandardModeImageHeight := word_of_int (g_windowHeight w)\<rparr>))))))"

section \<open>Mode tear-down and set-up\<close>

text \<open>\<^verbatim>\<open>tearDownZviewStandardMode\<close>\<close>

definition tearDownZviewStandardMode :: "env \<Rightarrow> world \<Rightarrow> bool \<times> world" where
  "tearDownZviewStandardMode e w =
     sub (if g_zViewStandardModeViewportHandle w \<noteq> NULL then
            zc e (ZcDestroyViewport (g_zViewStandardModeViewportHandle w)) w (\<lambda>w.
              (True, w\<lparr>g_zViewStandardModeViewportHandle := NULL,
                         g_zViewStandardModeFrustumHandle := NULL\<rparr>))
          else (True, w)) (\<lambda>w.
     let w = (if g_zViewStandardModeGlFramebufferId w \<noteq> 0 then
                (emit (GlDelete StandardModeGlFramebuffer (g_zViewStandardModeGlFramebufferId w)) w)
                  \<lparr>g_zViewStandardModeGlFramebufferId := 0\<rparr>
              else w);
         w = (if g_zViewStandardModeColorGlTextureId w \<noteq> 0 then
                (emit (GlDelete StandardModeColorGlTexture (g_zViewStandardModeColorGlTextureId w)) w)
                  \<lparr>g_zViewStandardModeColorGlTextureId := 0\<rparr>
              else w);
         w = (if g_zViewStandardModeDepthGlRenderbufferId w \<noteq> 0 then
                (emit (GlDelete StandardModeDepthGlRenderbuffer
                         (g_zViewStandardModeDepthGlRenderbufferId w)) w)
                  \<lparr>g_zViewStandardModeDepthGlRenderbufferId := 0\<rparr>
              else w)
     in (True, w))"

text \<open>\<^verbatim>\<open>tearDownZviewAugmentedRealityMode\<close>\<close>

definition tearDownZviewAugmentedRealityMode :: "world \<Rightarrow> bool \<times> world" where
  "tearDownZviewAugmentedRealityMode w =
     (let w = (if g_zViewAugmentedRealityModeMaskVertexArrayId w \<noteq> 0 then
                 (emit (GlDelete AugmentedRealityModeMaskVertexArray
                          (g_zViewAugmentedRealityModeMaskVertexArrayId w)) w)
                   \<lparr>g_zViewAugmentedRealityModeMaskVertexArrayId := 0\<rparr>
               else w);
          w = (if g_zViewAugmentedRealityModeMaskVertexArrayBufferId w \<noteq> 0 then
                 (emit (GlDelete AugmentedRealityModeMaskVertexArrayBuffer
                          (g_zViewAugmentedRealityModeMaskVertexArrayBufferId w)) w)
                   \<lparr>g_zViewAugmentedRealityModeMaskVertexArrayBufferId := 0\<rparr>
               else w);
          w = (if g_zViewAugmentedRealityModeBackgroundVertexArrayId w \<noteq> 0 then
                 (emit (GlDelete AugmentedRealityModeBackgroundVertexArray
                          (g_zViewAugmentedRealityModeBackgroundVertexArrayId w)) w)
                   \<lparr>g_zViewAugmentedRealityModeBackgroundVertexArrayId := 0\<rparr>
               else w);
          w = (if g_zViewAugmentedRealityModeBackgroundVertexArrayBufferId w \<noteq> 0 then
                 (emit (GlDelete AugmentedRealityModeBackgroundVertexArrayBuffer
                          (g_zViewAugmentedRealityModeBackgroundVertexArrayBufferId w)) w)
                   \<lparr>g_zViewAugmentedRealityModeBackgroundVertexArrayBufferId := 0\<rparr>
               else w);
          w = (if g_zViewAugmentedRealityModeMaskGlFramebufferId w \<noteq> 0 then
                 (emit (GlDelete AugmentedRealityModeMaskGlFramebuffer
                          (g_zViewAugmentedRealityModeMaskGlFramebufferId w)) w)
                   \<lparr>g_zViewAugmentedRealityModeMaskGlFramebufferId := 0\<rparr>
               else w);
          w = (if g_zViewAugmentedRealityModeGlFramebufferId w \<noteq> 0 then
                 (emit (GlDelete AugmentedRealityModeGlFramebuffer
                          (g_zViewAugmentedRealityModeGlFramebufferId w)) w)
                   \<lparr>g_zViewAugmentedRealityModeGlFramebufferId := 0\<rparr>
               else w);
          w = (if g_zViewAugmentedRealityModeColorGlTextureId w \<noteq> 0 then
                 (emit (GlDelete AugmentedRealityModeColorGlTexture
                          (g_zViewAugmentedRealityModeColorGlTextureId w)) w)
                   \<lparr>g_zViewAugmentedRealityModeColorGlTextureId := 0\<rparr>
               else w);
          w = (if g_zViewAugmentedRealityModeDepthStencilGlRenderbufferId w \<noteq> 0 then
                 (emit (GlDelete AugmentedRealityModeDepthStencilGlRenderbuffer
                          (g_zViewAugmentedRealityModeDepthStencilGlRenderbufferId w)) w)
                   \<lparr>g_zViewAugmentedRealityModeDepthStencilGlRenderbufferId := 0\<rparr>
               else w)
      in (True, w))"

text \<open>\<^verbatim>\<open>tearDownZviewMode\<close>\<close>

definition tearDownZviewMode :: "env \<Rightarrow> world \<Rightarrow> bool \<times> world" where
  "tearDownZviewMode e w =
     sub (if g_zViewLatestActiveConnectionMode w = g_zViewStandardMode w then
            sub (tearDownZviewStandardMode e w) (\<lambda>w. (True, w))
          else if g_zViewLatestActiveConnectionMode w = g_zViewAugmentedRealityMode w then
            sub (tearDownZviewAugmentedRealityMode w) (\<lambda>w. (True, w))
          else (True, w)) (\<lambda>w.
     (True, w\<lparr>g_zViewLatestActiveConnectionMode := NULL\<rparr>))"

text \<open>\<^verbatim>\<open>setUpZviewStandardMode\<close>\<close>

definition setUpZviewStandardMode :: "env \<Rightarrow> ZVConnection \<Rightarrow> world \<Rightarrow> bool \<times> world" where
  "setUpZviewStandardMode e connection w =
     sub (tearDownZviewStandardMode e w) (\<lambda>w.
     zc e ZcCreateViewport w (\<lambda>w.
     let w = w\<lparr>g_zViewStandardModeViewportHandle := out_viewportHandle e\<rparr> in
     zc e (ZcGetFrustum (g_zViewStandardModeViewportHandle w)) w (\<lambda>w.
     let w = w\<lparr>g_zViewStandardModeFrustumHandle :=
                  out_frustumHandle e (g_zViewStandardModeViewportHandle w)\<rparr> in
     zc e (ZcSetViewportPosition (g_zViewStandardModeViewportHandle w)) w (\<lambda>w.
     zc e (ZcSetViewportSize (g_zViewStandardModeViewportHandle w)
             (g_zViewStandardModeImageWidth w) (g_zViewStandardModeImageHeight w)) w (\<lambda>w.
     let w = (emit (GlGen StandardModeColorGlTexture) w)
               \<lparr>g_zViewStandardModeColorGlTextureId := out_glGen e StandardModeColorGlTexture\<rparr>;
         w = (emit (GlGen StandardModeDepthGlRenderbuffer) w)
               \<lparr>g_zViewStandardModeDepthGlRenderbufferId :=
                  out_glGen e StandardModeDepthGlRenderbuffer\<rparr>;
         w = (emit (GlGen StandardModeGlFramebuffer) w)
               \<lparr>g_zViewStandardModeGlFramebufferId := out_glGen e StandardModeGlFramebuffer\<rparr>
     in if \<not> framebufferComplete e StandardModeGlFramebuffer then (False, w)
        else (True, w\<lparr>g_zViewStandardModeFrameNumber := 0\<rparr>))))))"

text \<open>\<^verbatim>\<open>setUpZviewAugmentedRealityMode\<close>\<close>

definition setUpZviewAugmentedRealityMode :: "env \<Rightarrow> ZVConnection \<Rightarrow> world \<Rightarrow> bool \<times> world" where
  "setUpZviewAugmentedRealityMode e connection w =
     sub (tearDownZviewAugmentedRealityMode w) (\<lambda>w.
     zv e (ZvGetSettingU16 connection ZV_SETTING_KEY_IMAGE_WIDTH) w (\<lambda>w.
     let w = w\<lparr>g_zViewAugmentedRealityModeImageWidth :=
                  out_settingU16 e connection ZV_SETTING_KEY_IMAGE_WIDTH\<rparr> in
     zv e (ZvGetSettingU16 connection ZV_SETTING_KEY_IMAGE_HEIGHT) w (\<lambda>w.
     let w = w\<lparr>g_zViewAugmentedRealityModeImageHeight :=
                  out_settingU16 e connection ZV_SETTING_KEY_IMAGE_HEIGHT\<rparr>;
         w = (emit (GlGen AugmentedRealityModeMaskVertexArray) w)
               \<lparr>g_zViewAugmentedRealityModeMaskVertexArrayId :=
                  out_glGen e AugmentedRealityModeMaskVertexArray\<rparr>;
         w = (emit (GlGen AugmentedRealityModeMaskVertexArrayBuffer) w)
               \<lparr>g_zViewAugmentedRealityModeMaskVertexArrayBufferId :=
                  out_glGen e AugmentedRealityModeMaskVertexArrayBuffer\<rparr>;
         w = (emit (GlGen AugmentedRealityModeBackgroundVertexArray) w)
               \<lparr>g_zViewAugmentedRealityModeBackgroundVertexArrayId :=
                  out_glGen e AugmentedRealityModeBackgroundVertexArray\<rparr>;
         w = (emit (GlGen AugmentedRealityModeBackgroundVertexArrayBuffer) w)
               \<lparr>g_zViewAugmentedRealityModeBackgroundVertexArrayBufferId :=
                  out_glGen e AugmentedRealityModeBackgroundVertexArrayBuffer\<rparr>;
         w = (emit (GlGen AugmentedRealityModeColorGlTexture) w)
               \<lparr>g_zViewAugmentedRealityModeColorGlTextureId :=
                  out_glGen e AugmentedRealityModeColorGlTexture\<rparr>;
         w = (emit (GlGen AugmentedRealityModeDepthStencilGlRenderbuffer) w)
               \<lparr>g_zViewAugmentedRealityModeDepthStencilGlRenderbufferId :=
                  out_glGen e AugmentedRealityModeDepthStencilGlRenderbuffer\<rparr>;
         w = (emit (GlGen AugmentedRealityModeMaskGlFramebuffer) w)
               \<lparr>g_zViewAugmentedRealityModeMaskGlFramebufferId :=
                  out_glGen e AugmentedRealityModeMaskGlFramebuffer\<rparr>
     in if \<not> framebufferComplete e AugmentedRealityModeMaskGlFramebuffer then (False, w)
        else
          let w = (emit (GlGen AugmentedRealityModeGlFramebuffer) w)
                    \<lparr>g_zViewAugmentedRealityModeGlFramebufferId :=
                       out_glGen e AugmentedRealityModeGlFramebuffer\<rparr>
          in if \<not> framebufferComplete e AugmentedRealityModeGlFramebuffer then (False, w)
             else (True, w))))"

text \<open>
  \<^verbatim>\<open>setUpZviewMode\<close>. The source discards the result of its call of
  \<^verbatim>\<open>tearDownZviewMode\<close>, so the model takes the world that call leaves and goes on.
\<close>

definition setUpZviewMode :: "env \<Rightarrow> ZVConnection \<Rightarrow> world \<Rightarrow> bool \<times> world" where
  "setUpZviewMode e connection w =
     zv e (ZvGetConnectionMode connection) w (\<lambda>w.
     let mode = out_connectionMode e connection;
         w = (if mode \<noteq> g_zViewLatestActiveConnectionMode w then
                (snd (tearDownZviewMode e w))\<lparr>g_zViewLatestActiveConnectionMode := mode\<rparr>
              else w)
     in
     zv e (ZvGetConnectionModeSetupPhase connection) w (\<lambda>w.
     if out_isAwaitingCompletion e connection then (True, w)
     else
       (case out_modeSetupPhase e connection of
          ZV_MODE_SETUP_PHASE_INITIALIZATION \<Rightarrow>
            if mode = g_zViewStandardMode w then
              zv e (ZvBeginSettingsBatch connection) w (\<lambda>w.
              zv e (ZvSetSettingU16 connection ZV_SETTING_KEY_IMAGE_WIDTH
                      (word_of_int (g_windowWidth w))) w (\<lambda>w.
              zv e (ZvSetSettingU16 connection ZV_SETTING_KEY_IMAGE_HEIGHT
                      (word_of_int (g_windowHeight w))) w (\<lambda>w.
              zv e (ZvEndSettingsBatch connection) w (\<lambda>w.
              let w = w\<lparr>g_zViewStandardModeImageWidth := word_of_int (g_windowWidth w),
                         g_zViewStandardModeImageHeight := word_of_int (g_windowHeight w)\<rparr> in
              zv e (ZvCompleteModeSetupPhase connection ZV_MODE_SETUP_PHASE_INITIALIZATION) w
                (\<lambda>w. (True, w))))))
            else if mode = g_zViewAugmentedRealityMode w then
              zv e (ZvCompleteModeSetupPhase connection ZV_MODE_SETUP_PHASE_INITIALIZATION) w
                (\<lambda>w. (True, w))
            else (True, w)
        | ZV_MODE_SETUP_PHASE_COMPLETION \<Rightarrow>
            if mode = g_zViewStandardMode w then
              sub (setUpZviewStandardMode e connection w) (\<lambda>w.
              zv e (ZvCompleteModeSetupPhase connection ZV_MODE_SETUP_PHASE_COMPLETION) w
                (\<lambda>w. (True, w)))
            else if mode = g_zViewAugmentedRealityMode w then
              sub (setUpZviewAugmentedRealityMode e connection w) (\<lambda>w.
              zv e (ZvCompleteModeSetupPhase connection ZV_MODE_SETUP_PHASE_COMPLETION) w
                (\<lambda>w. (True, w)))
            else (True, w))))"

section \<open>The connection state machine\<close>

text \<open>\<^verbatim>\<open>processNewZviewConnection\<close>\<close>

definition processNewZviewConnection :: "env \<Rightarrow> ZVConnection \<Rightarrow> world \<Rightarrow> bool \<times> world" where
  "processNewZviewConnection e connection w =
     (if connection = g_zViewActiveConnection w then (True, w)
      else if g_zViewActiveConnection w = NULL then
        zv e (ZvAcceptConnection connection) w (\<lambda>w.
        let w = w\<lparr>g_zViewActiveConnection := connection\<rparr> in
        zv e (ZvSetNodeStatus (g_zViewContext w) ZVIEW_NODE_STATUS_CONNECTED) w (\<lambda>w.
          (True, w)))
      else
        zv e (ZvCloseConnection connection ZV_CONNECTION_CLOSE_ACTION_NONE
                ZV_CONNECTION_CLOSE_REASON_CONNECTION_REJECTED
                ''Maximum number of active zView connections exceeded'') w (\<lambda>w.
          (True, w)))"

text \<open>\<^verbatim>\<open>processZviewVideoRecording\<close>\<close>

definition processZviewVideoRecording :: "env \<Rightarrow> ZVConnection \<Rightarrow> world \<Rightarrow> bool \<times> world" where
  "processZviewVideoRecording e connection w =
     zv e (ZvGetVideoRecordingState connection) w (\<lambda>w.
     let videoRecordingState = out_videoRecordingState e connection;
         w = (if videoRecordingState \<noteq> g_zViewVideoRecordingLatestState w then
                emit (PrintLog (VideoRecordingStateTransition
                        (g_zViewVideoRecordingLatestState w) videoRecordingState)) w
              else w)
     in
     sub (if videoRecordingState = ZV_VIDEO_RECORDING_STATE_ERROR then
            zv e (ZvGetVideoRecordingError connection) w (\<lambda>w.
            let w = emit (PrintLog (VideoRecordingErrorOccurred
                            (out_videoRecordingError e connection))) w in
            zv e (ZvClearVideoRecordingError connection) w (\<lambda>w. (True, w)))
          else (True, w)) (\<lambda>w.
     (True, w\<lparr>g_zViewVideoRecordingLatestState := videoRecordingState\<rparr>)))"

text \<open>
  \<^verbatim>\<open>updateZviewConnection\<close>. The cases of the closed and of the error state are the
  same text in the source and are written out twice here as well.
\<close>

definition updateZviewConnection :: "env \<Rightarrow> ZVConnection \<Rightarrow> world \<Rightarrow> bool \<times> world" where
  "updateZviewConnection e connection w =
     zv e (ZvUpdateConnection connection) w (\<lambda>w.
     zv e (ZvGetConnectionState connection) w (\<lambda>w.
     sub (case out_connectionState e connection of
            ZV_CONNECTION_STATE_CONNECTION_INITIALIZATION \<Rightarrow> (True, w)
          | ZV_CONNECTION_STATE_AWAITING_CONNECTION_ACCEPTANCE \<Rightarrow>
              sub (processNewZviewConnection e connection w) (\<lambda>w. (True, w))
          | ZV_CONNECTION_STATE_SWITCHING_MODES \<Rightarrow> (True, w)
          | ZV_CONNECTION_STATE_NO_MODE \<Rightarrow>
              sub (tearDownZviewMode e w) (\<lambda>w. (True, w))
          | ZV_CONNECTION_STATE_MODE_SETUP \<Rightarrow>
              sub (setUpZviewMode e connection w) (\<lambda>w. (True, w))
          | ZV_CONNECTION_STATE_MODE_ACTIVE \<Rightarrow> (True, w)
          | ZV_CONNECTION_STATE_MODE_PAUSED \<Rightarrow> (True, w)
          | ZV_CONNECTION_STATE_MODE_RESUMING \<Rightarrow> (True, w)
          | ZV_CONNECTION_STATE_PROCESSING_MODE_SETTINGS_CHANGE \<Rightarrow> (True, w)
          | ZV_CONNECTION_STATE_CLOSED \<Rightarrow>
              sub (if connection = g_zViewActiveConnection w then
                     let w = w\<lparr>g_zViewActiveConnection := NULL\<rparr> in
                     sub (tearDownZviewMode e w) (\<lambda>w.
                     zv e (ZvSetNodeStatus (g_zViewContext w) ZVIEW_NODE_STATUS_NOT_CONNECTED) w
                       (\<lambda>w. (True, w)))
                   else (True, w)) (\<lambda>w.
              zv e (ZvDestroyConnection connection) w (\<lambda>w. (True, w)))
          | ZV_CONNECTION_STATE_ERROR \<Rightarrow>
              sub (if connection = g_zViewActiveConnection w then
                     let w = w\<lparr>g_zViewActiveConnection := NULL\<rparr> in
                     sub (tearDownZviewMode e w) (\<lambda>w.
                     zv e (ZvSetNodeStatus (g_zViewContext w) ZVIEW_NODE_STATUS_NOT_CONNECTED) w
                       (\<lambda>w. (True, w)))
                   else (True, w)) (\<lambda>w.
              zv e (ZvDestroyConnection connection) w (\<lambda>w. (True, w)))) (\<lambda>w.
     sub (processZviewVideoRecording e connection w) (\<lambda>w.
     (True, w)))))"

text \<open>
  \<^verbatim>\<open>updateZview\<close> calls \<^verbatim>\<open>updateZviewConnection\<close> for the connections of the
  connection list in turn and stops at the first call that returns false; the main loop
  discards what \<^verbatim>\<open>updateZview\<close> returns and carries on with the next iteration. A run
  of the state machine is therefore a sequence of calls of \<^verbatim>\<open>updateZviewConnection\<close>,
  each with the answers the libraries give during that call, whatever the calls return.
\<close>

type_synonym report = "env \<times> ZVConnection"

fun updateZviewConnections :: "report list \<Rightarrow> world \<Rightarrow> world" where
  "updateZviewConnections [] w = w"
| "updateZviewConnections (r # rs) w =
     updateZviewConnections rs (snd (updateZviewConnection (fst r) (snd r) w))"

section \<open>The frame pump\<close>

text \<open>\<^verbatim>\<open>drawZviewStandardMode\<close>\<close>

definition drawZviewStandardMode :: "env \<Rightarrow> world \<Rightarrow> bool \<times> world" where
  "drawZviewStandardMode e w =
     zc e (ZcSetViewportPosition (g_zViewStandardModeViewportHandle w)) w (\<lambda>w.
     zc e (ZcGetFrustumViewMatrix (g_zViewStandardModeFrustumHandle w)) w (\<lambda>w.
     zc e (ZcGetFrustumProjectionMatrix (g_zViewStandardModeFrustumHandle w)) w (\<lambda>w.
     (True, w))))"

text \<open>
  \<^verbatim>\<open>drawZviewAugmentedRealityMode\<close> makes rendering calls only; the two functions it
  calls return true always, and so does it.
\<close>

definition drawZviewAugmentedRealityMode :: "world \<Rightarrow> bool \<times> world" where
  "drawZviewAugmentedRealityMode w = (True, w)"

text \<open>
  \<^verbatim>\<open>drawZview\<close>. In the augmented reality branch the projection matrix and
  \<^verbatim>\<open>updateZviewAugmentedRealityMode\<close> (whose result the source discards) compute the
  geometry of the frame and touch nothing of the world modelled here.
\<close>

definition drawZview :: "env \<Rightarrow> world \<Rightarrow> bool \<times> world" where
  "drawZview e w =
     (if g_zViewContext w = NULL then (True, w)
      else if g_zViewActiveConnection w = NULL then (True, w)
      else
        zv e (ZvGetConnectionState (g_zViewActiveConnection w)) w (\<lambda>w.
        if out_connectionState e (g_zViewActiveConnection w) \<noteq> ZV_CONNECTION_STATE_MODE_ACTIVE
        then (True, w)
        else
          zv e (ZvGetConnectionMode (g_zViewActiveConnection w)) w (\<lambda>w.
          let mode = out_connectionMode e (g_zViewActiveConnection w) in
          if mode = g_zViewStandardMode w then
            zv e (ZvGetNextFrameToSend (g_zViewActiveConnection w)) w (\<lambda>w.
            let frame = out_nextFrameToSend e (g_zViewActiveConnection w) in
            if frame = NULL then (True, w)
            else
              zv e (ZvSetFrameDataU64 frame ZV_FRAME_DATA_KEY_FRAME_NUMBER
                      (g_zViewStandardModeFrameNumber w)) w (\<lambda>w.
              sub (drawZviewStandardMode e w) (\<lambda>w.
              zv e (ZvGetFrameBuffer frame) w (\<lambda>w.
              let w = emit (GlGetTexImage (g_zViewStandardModeColorGlTextureId w) frame) w in
              zv e (ZvSendFrame frame) w (\<lambda>w.
              let w = w\<lparr>g_zViewStandardModeFrameNumber := g_zViewStandardModeFrameNumber w + 1\<rparr> in
              sub (handleZviewStandardModeImageResolutionChange e w) (\<lambda>w.
              (True, w)))))))
          else if mode = g_zViewAugmentedRealityMode w then
            zv e (ZvReceiveFrame (g_zViewActiveConnection w)) w (\<lambda>w.
            let receivedFrame = out_receivedFrame e (g_zViewActiveConnection w) in
            if receivedFrame = NULL then (True, w)
            else
              zv e (ZvGetFrameDataU64 receivedFrame ZV_FRAME_DATA_KEY_FRAME_NUMBER) w (\<lambda>w.
              let receivedFrameNumber =
                    out_frameDataU64 e receivedFrame ZV_FRAME_DATA_KEY_FRAME_NUMBER in
              zv e (ZvGetFrameDataM4 receivedFrame ZV_FRAME_DATA_KEY_CAMERA_POSE) w (\<lambda>w.
              zv e (ZvGetFrameDataF32 receivedFrame ZV_FRAME_DATA_KEY_CAMERA_FOCAL_LENGTH) w (\<lambda>w.
              zv e (ZvGetFrameDataF32 receivedFrame
                      ZV_FRAME_DATA_KEY_CAMERA_PRINCIPAL_POINT_OFFSET_X) w (\<lambda>w.
              zv e (ZvGetFrameDataF32 receivedFrame
                      ZV_FRAME_DATA_KEY_CAMERA_PRINCIPAL_POINT_OFFSET_Y) w (\<lambda>w.
              zv e (ZvGetFrameDataF32 receivedFrame
                      ZV_FRAME_DATA_KEY_CAMERA_PIXEL_ASPECT_RATIO) w (\<lambda>w.
              zv e (ZvGetFrameDataF32 receivedFrame ZV_FRAME_DATA_KEY_CAMERA_AXIS_SKEW) w (\<lambda>w.
              zv e (ZvReleaseReceivedFrame receivedFrame) w (\<lambda>w.
              zv e (ZvGetNextFrameToSend (g_zViewActiveConnection w)) w (\<lambda>w.
              let frame = out_nextFrameToSend e (g_zViewActiveConnection w) in
              if frame = NULL then (True, w)
              else
                zv e (ZvSetFrameDataU64 frame ZV_FRAME_DATA_KEY_FRAME_NUMBER
                        receivedFrameNumber) w (\<lambda>w.
                sub (drawZviewAugmentedRealityMode w) (\<lambda>w.
                zv e (ZvGetFrameBuffer frame) w (\<lambda>w.
                let w = emit (GlGetTexImage
                                (g_zViewAugmentedRealityModeColorGlTextureId w) frame) w in
                zv e (ZvSendFrame frame) w (\<lambda>w.
                (True, w)))))))))))))))
          else (True, w))))"

section \<open>Switching modes\<close>

text \<open>
  \<^verbatim>\<open>switchZviewMode\<close>. The loop of the source is the recursive function
  \<open>switchZviewMode_loop\<close>, whose argument \<open>numModesTried\<close> is the loop counter; the
  \<^verbatim>\<open>break\<close> leaves the loop for the final \<^verbatim>\<open>return true\<close>. The index is an
  \<^verbatim>\<open>int\<close> and \<^verbatim>\<open>%\<close> is the remainder of the truncating division. The index starts
  at 0 and is only ever assigned a remainder by a positive 32-bit number, so the
  increment cannot overflow.
\<close>

function switchZviewMode_loop ::
  "env \<Rightarrow> ZSInt32 \<Rightarrow> ZSInt32 \<Rightarrow> world \<Rightarrow> bool \<times> world" where
  "switchZviewMode_loop e numSupportedModes numModesTried w =
     (if numModesTried < numSupportedModes then
        let w = w\<lparr>g_zViewCurrentConnectionModeIndex := g_zViewCurrentConnectionModeIndex w + 1\<rparr>;
            w = w\<lparr>g_zViewCurrentConnectionModeIndex :=
                     g_zViewCurrentConnectionModeIndex w smod numSupportedModes\<rparr>
        in
        zv e (ZvGetConnectionSupportedMode (g_zViewActiveConnection w)
                (g_zViewCurrentConnectionModeIndex w)) w (\<lambda>w.
        let curSupportedMode =
              out_supportedMode e (g_zViewActiveConnection w) (g_zViewCurrentConnectionModeIndex w)
        in
        if availability curSupportedMode = ZV_MODE_AVAILABILITY_AVAILABLE then
          let w = emit (PrintLog SwitchingZviewModes) w in
          zv e (ZvSetConnectionMode (g_zViewActiveConnection w) (mode curSupportedMode)) w (\<lambda>w.
          (True, w))
        else switchZviewMode_loop e numSupportedModes (numModesTried + 1) w)
      else (True, w))"
  by pat_completeness auto
termination
  by (relation "measure (\<lambda>(e, numSupportedModes, numModesTried, w).
                   nat (numSupportedModes - numModesTried))")
     (auto simp: emit_def)

definition switchZviewMode :: "env \<Rightarrow> world \<Rightarrow> bool \<times> world" where
  "switchZviewMode e w =
     (if g_zViewActiveConnection w = NULL then (True, w)
      else
        zv e (ZvGetConnectionState (g_zViewActiveConnection w)) w (\<lambda>w.
        let state = out_connectionState e (g_zViewActiveConnection w) in
        if state \<noteq> ZV_CONNECTION_STATE_NO_MODE \<and> state \<noteq> ZV_CONNECTION_STATE_MODE_ACTIVE
        then (True, w)
        else
          zv e (ZvGetNumConnectionSupportedModes (g_zViewActiveConnection w)) w (\<lambda>w.
          switchZviewMode_loop e (out_numSupportedModes e (g_zViewActiveConnection w)) 0 w)))"

section \<open>Traces\<close>

text \<open>
  The calls a function adds to the trace of the world it is started in.
\<close>

definition issued :: "(world \<Rightarrow> bool \<times> world) \<Rightarrow> world \<Rightarrow> api_call list" where
  "issued f w = drop (length (calls w)) (calls (snd (f w)))"

text \<open>
  The state of the globals without the trace: two worlds with the same
  \<open>resource_state\<close> hold the same handles, identifiers and counters.
\<close>

definition resource_state :: "world \<Rightarrow> world" where
  "resource_state w = w\<lparr>calls := []\<rparr>"

text \<open>
  The block \<^verbatim>\<open>if (id != 0) { glDelete...(1, &id); id = 0; }\<close> occurs eleven times in
  the two tear-down functions. \<open>glDelete_if\<close> is that block for the identifier read by
  \<open>ident\<close> and reset by \<open>clear\<close>; \<open>deleted\<close> is the call it makes. The lists
  \<open>std_deleted\<close> and \<open>ar_deleted\<close> are the calls of a tear-down that succeeds.
\<close>

definition glDelete_if :: "gl_object \<Rightarrow> (world \<Rightarrow> GLuint) \<Rightarrow> (world \<Rightarrow> world) \<Rightarrow> world \<Rightarrow> world" where
  "glDelete_if obj ident clear w =
     (if ident w \<noteq> 0 then clear (emit (GlDelete obj (ident w)) w) else w)"

definition deleted :: "gl_object \<Rightarrow> GLuint \<Rightarrow> api_call list" where
  "deleted obj i = (if i \<noteq> 0 then [GlDelete obj i] else [])"

definition ar_deleted :: "world \<Rightarrow> api_call list" where
  "ar_deleted w =
     deleted AugmentedRealityModeMaskVertexArray (g_zViewAugmentedRealityModeMaskVertexArrayId w) @
     deleted AugmentedRealityModeMaskVertexArrayBuffer (g_zViewAugmentedRealityModeMaskVertexArrayBufferId w) @
     deleted AugmentedRealityModeBackgroundVertexArray (g_zViewAugmentedRealityModeBackgroundVertexArrayId w) @
     deleted AugmentedRealityModeBackgroundVertexArrayBuffer (g_zViewAugmentedRealityModeBackgroundVertexArrayBufferId w) @
     deleted AugmentedRealityModeMaskGlFramebuffer (g_zViewAugmentedRealityModeMaskGlFramebufferId w) @
     deleted AugmentedRealityModeGlFramebuffer (g_zViewAugmentedRealityModeGlFramebufferId w) @
     deleted AugmentedRealityModeColorGlTexture (g_zViewAugmentedRealityModeColorGlTextureId w) @
     deleted AugmentedRealityModeDepthStencilGlRenderbuffer (g_zViewAugmentedRealityModeDepthStencilGlRenderbufferId w)"

definition std_deleted :: "world \<Rightarrow> api_call list" where
  "std_deleted w =
     (if g_zViewStandardModeViewportHandle w \<noteq> NULL
      then [ZcDestroyViewport (g_zViewStandardModeViewportHandle w)] else []) @
     deleted StandardModeGlFramebuffer (g_zViewStandardModeGlFramebufferId w) @
     deleted StandardModeColorGlTexture (g_zViewStandardModeColorGlTextureId w) @
     deleted StandardModeDepthGlRenderbuffer (g_zViewStandardModeDepthGlRenderbufferId w)"

text \<open>
  Concrete inputs, used to run the model: \<open>world0\<close> holds the initial values the
  source gives its globals, \<open>initialized\<close> is \<open>world0\<close> after a start-up that
  obtained a context and the two mode handles, \<open>standard_active\<close> is a world in which
  the standard mode has been set up, and in \<open>env_ok\<close> every library call succeeds.
\<close>

definition world0 :: world where
  "world0 =
     \<lparr>g_windowWidth = 1024, g_windowHeight = 768,
      g_zViewContext = NULL, g_zViewActiveConnection = NULL,
      g_zViewStandardMode = NULL, g_zViewAugmentedRealityMode = NULL,
      g_zViewLatestActiveConnectionMode = NULL,
      g_zViewCurrentConnectionModeIndex = 0,
      g_zViewVideoRecordingLatestState = ZV_VIDEO_RECORDING_STATE_NOT_AVAILABLE,
      g_zViewStandardModeImageWidth = 0, g_zViewStandardModeImageHeight = 0,
      g_zViewStandardModeViewportHandle = NULL, g_zViewStandardModeFrustumHandle = NULL,
      g_zViewStandardModeFrameNumber = 0,
      g_zViewStandardModeGlFramebufferId = 0, g_zViewStandardModeColorGlTextureId = 0,
      g_zViewStandardModeDepthGlRenderbufferId = 0,
      g_zViewAugmentedRealityModeImageWidth = 0, g_zViewAugmentedRealityModeImageHeight = 0,
      g_zViewAugmentedRealityModeMaskVertexArrayId = 0,
      g_zViewAugmentedRealityModeMaskVertexArrayBufferId = 0,
      g_zViewAugmentedRealityModeBackgroundVertexArrayId = 0,
      g_zViewAugmentedRealityModeBackgroundVertexArrayBufferId = 0,
      g_zViewAugmentedRealityModeMaskGlFramebufferId = 0,
      g_zViewAugmentedRealityModeGlFramebufferId = 0,
      g_zViewAugmentedRealityModeColorGlTextureId = 0,
      g_zViewAugmentedRealityModeDepthStencilGlRenderbufferId = 0,
      calls = []\<rparr>"

definition initialized :: world where
  "initialized = world0\<lparr>g_zViewContext := 1, g_zViewStandardMode := 1,
                          g_zViewAugmentedRealityMode := 2\<rparr>"

definition env_ok :: env where
  "env_ok =
     \<lparr>zvError = (\<lambda>_. ZV_ERROR_OK), zcError = (\<lambda>_. ZC_ERROR_OK),
      out_connectionState = (\<lambda>_. ZV_CONNECTION_STATE_MODE_ACTIVE),
      out_connectionMode = (\<lambda>_. 1),
      out_modeSetupPhase = (\<lambda>_. ZV_MODE_SETUP_PHASE_INITIALIZATION),
      out_isAwaitingCompletion = (\<lambda>_. False),
      out_numSupportedModes = (\<lambda>_. 2),
      out_supportedMode = (\<lambda>_ i. \<lparr>mode = (if i = 0 then 1 else 2),
                                    availability = ZV_MODE_AVAILABILITY_AVAILABLE\<rparr>),
      out_settingU16 = (\<lambda>_ _. 640), out_settingF32 = (\<lambda>_ _. Finite 0),
      out_videoRecordingState = (\<lambda>_. ZV_VIDEO_RECORDING_STATE_NOT_RECORDING),
      out_videoRecordingError = (\<lambda>_. ZV_ERROR_CODE 7),
      out_nextFrameToSend = (\<lambda>_. 11), out_receivedFrame = (\<lambda>_. 12),
      out_frameDataU64 = (\<lambda>_ _. 42),
      out_viewportHandle = 21, out_frustumHandle = (\<lambda>_. 22),
      out_glGen = (\<lambda>_. 31), framebufferComplete = (\<lambda>_. True),
      isControlKeyPressed = True\<rparr>"

definition standard_active :: world where
  "standard_active =
     initialized\<lparr>g_zViewLatestActiveConnectionMode := 1,
                  g_zViewStandardModeViewportHandle := 21,
                  g_zViewStandardModeFrustumHandle := 22,
                  g_zViewStandardModeGlFramebufferId := 31,
                  g_zViewStandardModeColorGlTextureId := 32,
                  g_zViewStandardModeDepthGlRenderbufferId := 33\<rparr>"





definition ar_active :: world where
  "ar_active = initialized\<lparr>g_zViewActiveConnection := 5,
                            g_zViewLatestActiveConnectionMode := 2,
                            g_zViewAugmentedRealityModeImageWidth := 640,
                            g_zViewAugmentedRealityModeImageHeight := 480\<rparr>"

definition env_ar :: env where
  "env_ar = env_ok\<lparr>out_connectionMode := (\<lambda>_. 2)\<rparr>"

text \<open>
  The frames a list of calls transmits, each with the frame-number tag it carries: the
  tag is the one last set on the frame before it was sent. Calls the library refuses
  neither tag nor transmit.
\<close>

fun transmitted ::
  "env \<Rightarrow> (ZVFrame \<Rightarrow> ZSUInt64 option) \<Rightarrow> api_call list \<Rightarrow> (ZVFrame \<times> ZSUInt64 option) list" where
  "transmitted e tag [] = []"
| "transmitted e tag (c # cs) =
     (case c of
        ZvSetFrameDataU64 f k n \<Rightarrow>
          transmitted e
            (if k = ZV_FRAME_DATA_KEY_FRAME_NUMBER \<and> zvError e c = ZV_ERROR_OK
             then tag(f := Some n) else tag) cs
      | ZvSendFrame f \<Rightarrow>
          (if zvError e c = ZV_ERROR_OK then [(f, tag f)] else []) @ transmitted e tag cs
      | _ \<Rightarrow> transmitted e tag cs)"

text \<open>
  A sequence of ticks of the frame pump, each with the answers the libraries give during
  that tick: \<open>drawZviews\<close> lists the frames transmitted over the whole sequence, with
  their tags, and \<open>drawZview_run\<close> is the world the sequence leaves.
\<close>

fun drawZviews :: "env list \<Rightarrow> world \<Rightarrow> (ZVFrame \<times> ZSUInt64 option) list" where
  "drawZviews [] w = []"
| "drawZviews (e # es) w =
     transmitted e Map.empty (issued (drawZview e) w) @ drawZviews es (snd (drawZview e w))"

fun drawZview_run :: "env list \<Rightarrow> world \<Rightarrow> world" where
  "drawZview_run [] w = w"
| "drawZview_run (e # es) w = drawZview_run es (snd (drawZview e w))"

definition standard_streaming :: world where
  "standard_streaming =
     standard_active\<lparr>g_zViewActiveConnection := 5,
                      g_zViewStandardModeImageWidth := 1024,
                      g_zViewStandardModeImageHeight := 768,
                      g_zViewStandardModeFrameNumber := 7\<rparr>"

definition env_noslot :: env where
  "env_noslot = env_ok\<lparr>out_nextFrameToSend := (\<lambda>_. NULL)\<rparr>"







text \<open>The mode changes a list of calls requests, as pairs of connection and mode.\<close>

definition mode_changes :: "api_call list \<Rightarrow> (ZVConnection \<times> ZVMode) list" where
  "mode_changes cs =
     concat (map (\<lambda>c. case c of ZvSetConnectionMode c m \<Rightarrow> [(c, m)] | _ \<Rightarrow> []) cs)"

section \<open>Switching modes\<close>

text \<open>
  A session with three supported modes of which only the first is available, and one
  with two supported modes of which none is.
\<close>

definition env_one_available :: env where
  "env_one_available =
     env_ok\<lparr>out_numSupportedModes := (\<lambda>_. 3),
            out_supportedMode := (\<lambda>_ i.
              \<lparr>mode = (if i = 0 then 1 else 2),
               availability = (if i = 0 then ZV_MODE_AVAILABILITY_AVAILABLE
                               else ZV_MODE_AVAILABILITY_OTHER 1)\<rparr>)\<rparr>"

definition env_none_available :: env where
  "env_none_available =
     env_ok\<lparr>out_supportedMode := (\<lambda>_ i.
              \<lparr>mode = (if i = 0 then 1 else 2),
               availability = ZV_MODE_AVAILABILITY_OTHER 1\<rparr>)\<rparr>"

text \<open>
  The calls that accept or close a session, write its settings or change its mode; all
  other calls are \<open>quiet\<close>.
\<close>

definition quiet :: "api_call \<Rightarrow> bool" where
  "quiet c =
     (case c of
        ZvAcceptConnection _ \<Rightarrow> False
      | ZvCloseConnection _ _ _ _ \<Rightarrow> False
      | ZvBeginSettingsBatch _ \<Rightarrow> False
      | ZvEndSettingsBatch _ \<Rightarrow> False
      | ZvSetSettingU16 _ _ _ \<Rightarrow> False
      | ZvSetSettingF32 _ _ _ \<Rightarrow> False
      | ZvSetConnectionMode _ _ \<Rightarrow> False
      | _ \<Rightarrow> True)"

text \<open>
  The three stages of \<^verbatim>\<open>setUpZviewMode\<close>: the tear-down of the previous mode when the
  mode of the connection has changed, and the operations of the two set-up phases.
\<close>

definition mode_switch_teardown :: "env \<Rightarrow> ZVMode \<Rightarrow> world \<Rightarrow> world" where
  "mode_switch_teardown e connectionMode w =
     (if connectionMode \<noteq> g_zViewLatestActiveConnectionMode w then
        (snd (tearDownZviewMode e w))\<lparr>g_zViewLatestActiveConnectionMode := connectionMode\<rparr>
      else w)"

definition setUp_initialization :: "env \<Rightarrow> ZVConnection \<Rightarrow> ZVMode \<Rightarrow> world \<Rightarrow> bool \<times> world" where
  "setUp_initialization e connection connectionMode w =
     (if connectionMode = g_zViewStandardMode w then
        zv e (ZvBeginSettingsBatch connection) w (\<lambda>w.
        zv e (ZvSetSettingU16 connection ZV_SETTING_KEY_IMAGE_WIDTH
                (word_of_int (g_windowWidth w))) w (\<lambda>w.
        zv e (ZvSetSettingU16 connection ZV_SETTING_KEY_IMAGE_HEIGHT
                (word_of_int (g_windowHeight w))) w (\<lambda>w.
        zv e (ZvEndSettingsBatch connection) w (\<lambda>w.
        zv e (ZvCompleteModeSetupPhase connection ZV_MODE_SETUP_PHASE_INITIALIZATION)
          (w\<lparr>g_zViewStandardModeImageWidth := word_of_int (g_windowWidth w),
             g_zViewStandardModeImageHeight := word_of_int (g_windowHeight w)\<rparr>)
          (\<lambda>w. (True, w))))))
      else if connectionMode = g_zViewAugmentedRealityMode w then
        zv e (ZvCompleteModeSetupPhase connection ZV_MODE_SETUP_PHASE_INITIALIZATION) w
          (\<lambda>w. (True, w))
      else (True, w))"

definition setUp_completion :: "env \<Rightarrow> ZVConnection \<Rightarrow> ZVMode \<Rightarrow> world \<Rightarrow> bool \<times> world" where
  "setUp_completion e connection connectionMode w =
     (if connectionMode = g_zViewStandardMode w then
        sub (setUpZviewStandardMode e connection w) (\<lambda>w.
        zv e (ZvCompleteModeSetupPhase connection ZV_MODE_SETUP_PHASE_COMPLETION) w
          (\<lambda>w. (True, w)))
      else if connectionMode = g_zViewAugmentedRealityMode w then
        sub (setUpZviewAugmentedRealityMode e connection w) (\<lambda>w.
        zv e (ZvCompleteModeSetupPhase connection ZV_MODE_SETUP_PHASE_COMPLETION) w
          (\<lambda>w. (True, w)))
      else (True, w))"

text \<open>A session whose mode set-up is in its completion phase.\<close>

definition env_completion :: env where
  "env_completion = env_ok\<lparr>out_modeSetupPhase := (\<lambda>_. ZV_MODE_SETUP_PHASE_COMPLETION)\<rparr>"

text \<open>
  Modelled from the spec: the batches of the settings store of the transport, which is
  not part of the sources. The remote side sees the values \<open>visible\<close>. A write that
  the library accepts while a batch of the connection is open is held back; the end of
  the batch makes the writes held back for the connection visible, all at once and in
  the order they were made; a write outside a batch is visible at once; a call that the
  library refuses changes nothing. \<open>views\<close> lists the image size the remote side sees
  after each call of a sequence of calls.
\<close>

record remote_settings =
  visible :: "ZVConnection \<Rightarrow> ZVSettingKey \<Rightarrow> ZSUInt16"
  held :: "(ZVConnection \<times> ZVSettingKey \<times> ZSUInt16) list"
  batch_open :: "ZVConnection \<Rightarrow> bool"

definition commit ::
  "ZVConnection \<Rightarrow> ZVConnection \<times> ZVSettingKey \<times> ZSUInt16 \<Rightarrow>
   (ZVConnection \<Rightarrow> ZVSettingKey \<Rightarrow> ZSUInt16) \<Rightarrow> ZVConnection \<Rightarrow> ZVSettingKey \<Rightarrow> ZSUInt16" where
  "commit c x vis = (if fst x = c then vis(c := (vis c)(fst (snd x) := snd (snd x))) else vis)"

definition applied :: "env \<Rightarrow> api_call \<Rightarrow> remote_settings \<Rightarrow> remote_settings" where
  "applied e call s =
     (if zvError e call \<noteq> ZV_ERROR_OK then s
      else case call of
        ZvBeginSettingsBatch c \<Rightarrow> s\<lparr>batch_open := (batch_open s)(c := True)\<rparr>
      | ZvSetSettingU16 c k v \<Rightarrow>
          if batch_open s c then s\<lparr>held := held s @ [(c, k, v)]\<rparr>
          else s\<lparr>visible := (visible s)(c := (visible s c)(k := v))\<rparr>
      | ZvEndSettingsBatch c \<Rightarrow>
          s\<lparr>visible := fold (commit c) (held s) (visible s),
            held := filter (\<lambda>x. fst x \<noteq> c) (held s),
            batch_open := (batch_open s)(c := False)\<rparr>
      | _ \<Rightarrow> s)"

definition image_size :: "remote_settings \<Rightarrow> ZVConnection \<Rightarrow> ZSUInt16 \<times> ZSUInt16" where
  "image_size s c = (visible s c ZV_SETTING_KEY_IMAGE_WIDTH, visible s c ZV_SETTING_KEY_IMAGE_HEIGHT)"

fun views :: "env \<Rightarrow> ZVConnection \<Rightarrow> api_call list \<Rightarrow> remote_settings \<Rightarrow> (ZSUInt16 \<times> ZSUInt16) list" where
  "views e c [] s = []"
| "views e c (x # xs) s = image_size (applied e x s) c # views e c xs (applied e x s)"

text \<open>
  The batch that sets the image size of a connection, and the calls made of a sequence of
  checked calls: those up to and including the first call the library refuses.
\<close>

definition image_size_batch :: "ZVConnection \<Rightarrow> ZSUInt16 \<Rightarrow> ZSUInt16 \<Rightarrow> api_call list" where
  "image_size_batch c width height =
     [ZvBeginSettingsBatch c,
      ZvSetSettingU16 c ZV_SETTING_KEY_IMAGE_WIDTH width,
      ZvSetSettingU16 c ZV_SETTING_KEY_IMAGE_HEIGHT height,
      ZvEndSettingsBatch c]"

fun attempted :: "env \<Rightarrow> api_call list \<Rightarrow> api_call list" where
  "attempted e [] = []"
| "attempted e (x # xs) = (if zvError e x \<noteq> ZV_ERROR_OK then [x] else x # attempted e xs)"

text \<open>A window that has been resized since the image size was last sent.\<close>

definition resized :: world where
  "resized = standard_streaming\<lparr>g_windowWidth := 800, g_windowHeight := 600\<rparr>"

definition remote0 :: remote_settings where
  "remote0 = \<lparr>visible = (\<lambda>c k. 0), held = [], batch_open = (\<lambda>c. False)\<rparr>"

text \<open>
  The state-specific operations of \<^verbatim>\<open>updateZviewConnection\<close>: the \<^verbatim>\<open>switch\<close> on the
  state of the connection.
\<close>

definition connection_dispatch ::
  "env \<Rightarrow> ZVConnection \<Rightarrow> ZVConnectionState \<Rightarrow> world \<Rightarrow> bool \<times> world" where
  "connection_dispatch e connection connectionState w =
     (case connectionState of
            ZV_CONNECTION_STATE_CONNECTION_INITIALIZATION \<Rightarrow> (True, w)
          | ZV_CONNECTION_STATE_AWAITING_CONNECTION_ACCEPTANCE \<Rightarrow>
              sub (processNewZviewConnection e connection w) (\<lambda>w. (True, w))
          | ZV_CONNECTION_STATE_SWITCHING_MODES \<Rightarrow> (True, w)
          | ZV_CONNECTION_STATE_NO_MODE \<Rightarrow>
              sub (tearDownZviewMode e w) (\<lambda>w. (True, w))
          | ZV_CONNECTION_STATE_MODE_SETUP \<Rightarrow>
              sub (setUpZviewMode e connection w) (\<lambda>w. (True, w))
          | ZV_CONNECTION_STATE_MODE_ACTIVE \<Rightarrow> (True, w)
          | ZV_CONNECTION_STATE_MODE_PAUSED \<Rightarrow> (True, w)
          | ZV_CONNECTION_STATE_MODE_RESUMING \<Rightarrow> (True, w)
          | ZV_CONNECTION_STATE_PROCESSING_MODE_SETTINGS_CHANGE \<Rightarrow> (True, w)
          | ZV_CONNECTION_STATE_CLOSED \<Rightarrow>
              sub (if connection = g_zViewActiveConnection w then
                     let w = w\<lparr>g_zViewActiveConnection := NULL\<rparr> in
                     sub (tearDownZviewMode e w) (\<lambda>w.
                     zv e (ZvSetNodeStatus (g_zViewContext w) ZVIEW_NODE_STATUS_NOT_CONNECTED) w
                       (\<lambda>w. (True, w)))
                   else (True, w)) (\<lambda>w.
              zv e (ZvDestroyConnection connection) w (\<lambda>w. (True, w)))
          | ZV_CONNECTION_STATE_ERROR \<Rightarrow>
              sub (if connection = g_zViewActiveConnection w then
                     let w = w\<lparr>g_zViewActiveConnection := NULL\<rparr> in
                     sub (tearDownZviewMode e w) (\<lambda>w.
                     zv e (ZvSetNodeStatus (g_zViewContext w) ZVIEW_NODE_STATUS_NOT_CONNECTED) w
                       (\<lambda>w. (True, w)))
                   else (True, w)) (\<lambda>w.
              zv e (ZvDestroyConnection connection) w (\<lambda>w. (True, w))))"

text \<open>
  The sessions in accepted status. A session is accepted by a call of
  \<^verbatim>\<open>zvAcceptConnection\<close> that succeeds (\<open>accepted\<close> lists the sessions a list of calls
  accepts) and stays accepted until an update observes it closed or in error
  (\<open>observed_end\<close>). \<open>active_sessions\<close> follows the accepted sessions over a sequence
  of reports, and \<open>live\<close> is what the active-connection pointer says of them.
\<close>

definition accepted :: "env \<Rightarrow> api_call list \<Rightarrow> ZVConnection list" where
  "accepted e cs =
     concat (map (\<lambda>x. case x of
                         ZvAcceptConnection c \<Rightarrow> if zvError e x = ZV_ERROR_OK then [c] else []
                       | _ \<Rightarrow> []) cs)"

definition observed_end :: "env \<Rightarrow> ZVConnection \<Rightarrow> bool" where
  "observed_end e c =
     (zvError e (ZvUpdateConnection c) = ZV_ERROR_OK \<and>
      zvError e (ZvGetConnectionState c) = ZV_ERROR_OK \<and>
      (out_connectionState e c = ZV_CONNECTION_STATE_CLOSED \<or>
       out_connectionState e c = ZV_CONNECTION_STATE_ERROR))"

fun active_sessions :: "report list \<Rightarrow> world \<Rightarrow> ZVConnection list \<Rightarrow> ZVConnection list" where
  "active_sessions [] w acc = acc"
| "active_sessions (r # rs) w acc =
     active_sessions rs (snd (updateZviewConnection (fst r) (snd r) w))
       ((if observed_end (fst r) (snd r) then removeAll (snd r) acc else acc) @
        accepted (fst r) (issued (updateZviewConnection (fst r) (snd r)) w))"

definition live :: "world \<Rightarrow> ZVConnection list" where
  "live w = (if g_zViewActiveConnection w = NULL then [] else [g_zViewActiveConnection w])"

text \<open>A transport that reports every connection as awaiting acceptance.\<close>

definition env_awaiting :: env where
  "env_awaiting =
     env_ok\<lparr>out_connectionState := (\<lambda>_. ZV_CONNECTION_STATE_AWAITING_CONNECTION_ACCEPTANCE)\<rparr>"

definition env_closed :: env where
  "env_closed = env_ok\<lparr>out_connectionState := (\<lambda>_. ZV_CONNECTION_STATE_CLOSED)\<rparr>"

text \<open>
  The handling of a connection that awaits acceptance, in the words of the claim: the
  update accepts the connection when there is no active connection and closes it with
  the rejection reason otherwise.
\<close>

definition accepted_or_rejected :: "env \<Rightarrow> ZVConnection \<Rightarrow> world \<Rightarrow> bool" where
  "accepted_or_rejected e c w =
     (if g_zViewActiveConnection w = NULL
      then ZvAcceptConnection c \<in> set (issued (updateZviewConnection e c) w)
      else ZvCloseConnection c ZV_CONNECTION_CLOSE_ACTION_NONE
             ZV_CONNECTION_CLOSE_REASON_CONNECTION_REJECTED
             ''Maximum number of active zView connections exceeded''
           \<in> set (issued (updateZviewConnection e c) w))"


text \<open>
  The value \<open>round32\<close> gives before the check for overflow, the numbers of the format,
  the order of the values (false when either side is NaN), and the clamp of
  \<^verbatim>\<open>incrementZviewSettingClampedF32\<close>.
\<close>

definition nearest32 :: "real \<Rightarrow> real" where
  "nearest32 x =
     of_int (round_half_even (x / 2 powi (binade x - 23))) * 2 powi (binade x - 23)"

definition is_float32 :: "real \<Rightarrow> bool" where
  "is_float32 x = (round32 x = Finite x)"

fun fle :: "ZSFloat \<Rightarrow> ZSFloat \<Rightarrow> bool" where
  "fle (Finite a) (Finite b) = (a \<le> b)"
| "fle (Finite a) PlusInfinity = True"
| "fle MinusInfinity (Finite b) = True"
| "fle MinusInfinity PlusInfinity = True"
| "fle PlusInfinity PlusInfinity = True"
| "fle MinusInfinity MinusInfinity = True"
| "fle x y = False"

definition clamp32 :: "ZSFloat \<Rightarrow> ZSFloat \<Rightarrow> ZSFloat \<Rightarrow> ZSFloat" where
  "clamp32 v minv maxv = (if flt v minv then minv else if flt maxv v then maxv else v)"



text \<open>
  The values a list of calls writes to 32-bit float settings, and the bounds of the
  overlay offsets as the claim words them: every offset the command writes lies between
  minus the image width and the image width.
\<close>

definition setting_writes :: "api_call list \<Rightarrow> ZSFloat list" where
  "setting_writes cs =
     concat (map (\<lambda>x. case x of ZvSetSettingF32 c k v \<Rightarrow> [v] | _ \<Rightarrow> []) cs)"

definition offset_within_width :: "env \<Rightarrow> char \<Rightarrow> world \<Rightarrow> bool" where
  "offset_within_width e key w =
     list_all (\<lambda>v. fle (Finite (- of_int (uint (g_zViewAugmentedRealityModeImageWidth w)))) v \<and>
                   fle v (Finite (of_int (uint (g_zViewAugmentedRealityModeImageWidth w)))))
       (setting_writes (issued (processZviewAugmentedRealityModeOverlayControlKeyPress e key) w))"

section \<open>Tear-down in closed form\<close>

lemma tearDownAR_steps:
  "tearDownZviewAugmentedRealityMode w =
     (let w = glDelete_if AugmentedRealityModeMaskVertexArray g_zViewAugmentedRealityModeMaskVertexArrayId
                (g_zViewAugmentedRealityModeMaskVertexArrayId_update (\<lambda>_. 0)) w;
          w = glDelete_if AugmentedRealityModeMaskVertexArrayBuffer g_zViewAugmentedRealityModeMaskVertexArrayBufferId
                (g_zViewAugmentedRealityModeMaskVertexArrayBufferId_update (\<lambda>_. 0)) w;
          w = glDelete_if AugmentedRealityModeBackgroundVertexArray g_zViewAugmentedRealityModeBackgroundVertexArrayId
                (g_zViewAugmentedRealityModeBackgroundVertexArrayId_update (\<lambda>_. 0)) w;
          w = glDelete_if AugmentedRealityModeBackgroundVertexArrayBuffer g_zViewAugmentedRealityModeBackgroundVertexArrayBufferId
                (g_zViewAugmentedRealityModeBackgroundVertexArrayBufferId_update (\<lambda>_. 0)) w;
          w = glDelete_if AugmentedRealityModeMaskGlFramebuffer g_zViewAugmentedRealityModeMaskGlFramebufferId
                (g_zViewAugmentedRealityModeMaskGlFramebufferId_update (\<lambda>_. 0)) w;
          w = glDelete_if AugmentedRealityModeGlFramebuffer g_zViewAugmentedRealityModeGlFramebufferId
                (g_zViewAugmentedRealityModeGlFramebufferId_update (\<lambda>_. 0)) w;
          w = glDelete_if AugmentedRealityModeColorGlTexture g_zViewAugmentedRealityModeColorGlTextureId
                (g_zViewAugmentedRealityModeColorGlTextureId_update (\<lambda>_. 0)) w;
          w = glDelete_if AugmentedRealityModeDepthStencilGlRenderbuffer g_zViewAugmentedRealityModeDepthStencilGlRenderbufferId
                (g_zViewAugmentedRealityModeDepthStencilGlRenderbufferId_update (\<lambda>_. 0)) w
      in (True, w))"
  by (simp only: tearDownZviewAugmentedRealityMode_def glDelete_if_def)

lemma tearDownStd_steps:
  "tearDownZviewStandardMode e w =
     sub (if g_zViewStandardModeViewportHandle w \<noteq> NULL then
            zc e (ZcDestroyViewport (g_zViewStandardModeViewportHandle w)) w (\<lambda>w.
              (True, w\<lparr>g_zViewStandardModeViewportHandle := NULL,
                         g_zViewStandardModeFrustumHandle := NULL\<rparr>))
          else (True, w)) (\<lambda>w.
     let w = glDelete_if StandardModeGlFramebuffer g_zViewStandardModeGlFramebufferId
               (g_zViewStandardModeGlFramebufferId_update (\<lambda>_. 0)) w;
         w = glDelete_if StandardModeColorGlTexture g_zViewStandardModeColorGlTextureId
               (g_zViewStandardModeColorGlTextureId_update (\<lambda>_. 0)) w;
         w = glDelete_if StandardModeDepthGlRenderbuffer g_zViewStandardModeDepthGlRenderbufferId
               (g_zViewStandardModeDepthGlRenderbufferId_update (\<lambda>_. 0)) w
     in (True, w))"
  by (simp only: tearDownZviewStandardMode_def glDelete_if_def)

lemma glDelete_if_simps:
  "glDelete_if AugmentedRealityModeMaskVertexArray g_zViewAugmentedRealityModeMaskVertexArrayId
     (g_zViewAugmentedRealityModeMaskVertexArrayId_update (\<lambda>_. 0)) w =
   w\<lparr>g_zViewAugmentedRealityModeMaskVertexArrayId := 0,
      calls := calls w @ deleted AugmentedRealityModeMaskVertexArray (g_zViewAugmentedRealityModeMaskVertexArrayId w)\<rparr>"
  "glDelete_if AugmentedRealityModeMaskVertexArrayBuffer g_zViewAugmentedRealityModeMaskVertexArrayBufferId
     (g_zViewAugmentedRealityModeMaskVertexArrayBufferId_update (\<lambda>_. 0)) w =
   w\<lparr>g_zViewAugmentedRealityModeMaskVertexArrayBufferId := 0,
      calls := calls w @ deleted AugmentedRealityModeMaskVertexArrayBuffer (g_zViewAugmentedRealityModeMaskVertexArrayBufferId w)\<rparr>"
  "glDelete_if AugmentedRealityModeBackgroundVertexArray g_zViewAugmentedRealityModeBackgroundVertexArrayId
     (g_zViewAugmentedRealityModeBackgroundVertexArrayId_update (\<lambda>_. 0)) w =
   w\<lparr>g_zViewAugmentedRealityModeBackgroundVertexArrayId := 0,
      calls := calls w @ deleted AugmentedRealityModeBackgroundVertexArray (g_zViewAugmentedRealityModeBackgroundVertexArrayId w)\<rparr>"
  "glDelete_if AugmentedRealityModeBackgroundVertexArrayBuffer g_zViewAugmentedRealityModeBackgroundVertexArrayBufferId
     (g_zViewAugmentedRealityModeBackgroundVertexArrayBufferId_update (\<lambda>_. 0)) w =
   w\<lparr>g_zViewAugmentedRealityModeBackgroundVertexArrayBufferId := 0,
      calls := calls w @ deleted AugmentedRealityModeBackgroundVertexArrayBuffer (g_zViewAugmentedRealityModeBackgroundVertexArrayBufferId w)\<rparr>"
  "glDelete_if AugmentedRealityModeMaskGlFramebuffer g_zViewAugmentedRealityModeMaskGlFramebufferId
     (g_zViewAugmentedRealityModeMaskGlFramebufferId_update (\<lambda>_. 0)) w =
   w\<lparr>g_zViewAugmentedRealityModeMaskGlFramebufferId := 0,
      calls := calls w @ deleted AugmentedRealityModeMaskGlFramebuffer (g_zViewAugmentedRealityModeMaskGlFramebufferId w)\<rparr>"
  "glDelete_if AugmentedRealityModeGlFramebuffer g_zViewAugmentedRealityModeGlFramebufferId
     (g_zViewAugmentedRealityModeGlFramebufferId_update (\<lambda>_. 0)) w =
   w\<lparr>g_zViewAugmentedRealityModeGlFramebufferId := 0,
      calls := calls w @ deleted AugmentedRealityModeGlFramebuffer (g_zViewAugmentedRealityModeGlFramebufferId w)\<rparr>"
  "glDelete_if AugmentedRealityModeColorGlTexture g_zViewAugmentedRealityModeColorGlTextureId
     (g_zViewAugmentedRealityModeColorGlTextureId_update (\<lambda>_. 0)) w =
   w\<lparr>g_zViewAugmentedRealityModeColorGlTextureId := 0,
      calls := calls w @ deleted AugmentedRealityModeColorGlTexture (g_zViewAugmentedRealityModeColorGlTextureId w)\<rparr>"
  "glDelete_if AugmentedRealityModeDepthStencilGlRenderbuffer g_zViewAugmentedRealityModeDepthStencilGlRenderbufferId
     (g_zViewAugmentedRealityModeDepthStencilGlRenderbufferId_update (\<lambda>_. 0)) w =
   w\<lparr>g_zViewAugmentedRealityModeDepthStencilGlRenderbufferId := 0,
      calls := calls w @ deleted AugmentedRealityModeDepthStencilGlRenderbuffer (g_zViewAugmentedRealityModeDepthStencilGlRenderbufferId w)\<rparr>"
  "glDelete_if StandardModeGlFramebuffer g_zViewStandardModeGlFramebufferId
     (g_zViewStandardModeGlFramebufferId_update (\<lambda>_. 0)) w =
   w\<lparr>g_zViewStandardModeGlFramebufferId := 0,
      calls := calls w @ deleted StandardModeGlFramebuffer (g_zViewStandardModeGlFramebufferId w)\<rparr>"
  "glDelete_if StandardModeColorGlTexture g_zViewStandardModeColorGlTextureId
     (g_zViewStandardModeColorGlTextureId_update (\<lambda>_. 0)) w =
   w\<lparr>g_zViewStandardModeColorGlTextureId := 0,
      calls := calls w @ deleted StandardModeColorGlTexture (g_zViewStandardModeColorGlTextureId w)\<rparr>"
  "glDelete_if StandardModeDepthGlRenderbuffer g_zViewStandardModeDepthGlRenderbufferId
     (g_zViewStandardModeDepthGlRenderbufferId_update (\<lambda>_. 0)) w =
   w\<lparr>g_zViewStandardModeDepthGlRenderbufferId := 0,
      calls := calls w @ deleted StandardModeDepthGlRenderbuffer (g_zViewStandardModeDepthGlRenderbufferId w)\<rparr>"
  by (simp_all add: glDelete_if_def emit_def deleted_def)

lemma tearDownAR_eq:
  "tearDownZviewAugmentedRealityMode w =
     (True, w\<lparr>g_zViewAugmentedRealityModeMaskVertexArrayId := 0,
               g_zViewAugmentedRealityModeMaskVertexArrayBufferId := 0,
               g_zViewAugmentedRealityModeBackgroundVertexArrayId := 0,
               g_zViewAugmentedRealityModeBackgroundVertexArrayBufferId := 0,
               g_zViewAugmentedRealityModeMaskGlFramebufferId := 0,
               g_zViewAugmentedRealityModeGlFramebufferId := 0,
               g_zViewAugmentedRealityModeColorGlTextureId := 0,
               g_zViewAugmentedRealityModeDepthStencilGlRenderbufferId := 0,
               calls := calls w @ ar_deleted w\<rparr>)"
  by (simp add: tearDownAR_steps Let_def glDelete_if_simps ar_deleted_def)

lemma tearDownStd_eq:
  "tearDownZviewStandardMode e w =
     (if g_zViewStandardModeViewportHandle w \<noteq> NULL \<and>
         zcError e (ZcDestroyViewport (g_zViewStandardModeViewportHandle w)) \<noteq> ZC_ERROR_OK
      then (False, emit (ZcDestroyViewport (g_zViewStandardModeViewportHandle w)) w)
      else (True, w\<lparr>g_zViewStandardModeViewportHandle := NULL,
                     g_zViewStandardModeFrustumHandle :=
                       (if g_zViewStandardModeViewportHandle w \<noteq> NULL then NULL
                        else g_zViewStandardModeFrustumHandle w),
                     g_zViewStandardModeGlFramebufferId := 0,
                     g_zViewStandardModeColorGlTextureId := 0,
                     g_zViewStandardModeDepthGlRenderbufferId := 0,
                     calls := calls w @ std_deleted w\<rparr>))"
  by (simp add: tearDownStd_steps Let_def glDelete_if_simps std_deleted_def sub_def zc_def emit_def)


lemma tearDownMode_eq:
  "tearDownZviewMode e w =
     (if g_zViewLatestActiveConnectionMode w = g_zViewStandardMode w then
        (if fst (tearDownZviewStandardMode e w)
         then (True, (snd (tearDownZviewStandardMode e w))\<lparr>g_zViewLatestActiveConnectionMode := NULL\<rparr>)
         else (False, snd (tearDownZviewStandardMode e w)))
      else if g_zViewLatestActiveConnectionMode w = g_zViewAugmentedRealityMode w then
        (True, (snd (tearDownZviewAugmentedRealityMode w))\<lparr>g_zViewLatestActiveConnectionMode := NULL\<rparr>)
      else (True, w\<lparr>g_zViewLatestActiveConnectionMode := NULL\<rparr>))"
  by (simp add: tearDownZviewMode_def sub_def tearDownAR_eq)

lemma tearDownStd_ok:
  assumes "fst (tearDownZviewStandardMode e w)"
  shows "g_zViewStandardModeViewportHandle (snd (tearDownZviewStandardMode e w)) = NULL"
    and "g_zViewStandardModeGlFramebufferId (snd (tearDownZviewStandardMode e w)) = 0"
    and "g_zViewStandardModeColorGlTextureId (snd (tearDownZviewStandardMode e w)) = 0"
    and "g_zViewStandardModeDepthGlRenderbufferId (snd (tearDownZviewStandardMode e w)) = 0"
  using assms by (auto simp add: tearDownStd_eq split: if_splits)

lemma tearDownStd_idle:
  assumes "g_zViewStandardModeViewportHandle w = NULL"
    and "g_zViewStandardModeGlFramebufferId w = 0"
    and "g_zViewStandardModeColorGlTextureId w = 0"
    and "g_zViewStandardModeDepthGlRenderbufferId w = 0"
  shows "tearDownZviewStandardMode e w = (True, w)"
  using assms by (simp add: tearDownStd_eq std_deleted_def deleted_def)

lemma tearDownStd_twice:
  assumes "fst (tearDownZviewStandardMode e w)"
  shows "tearDownZviewStandardMode e' (snd (tearDownZviewStandardMode e w)) =
           (True, snd (tearDownZviewStandardMode e w))"
  by (rule tearDownStd_idle) (rule tearDownStd_ok [OF assms])+

lemma tearDownAR_idle:
  assumes "g_zViewAugmentedRealityModeMaskVertexArrayId w = 0"
    and "g_zViewAugmentedRealityModeMaskVertexArrayBufferId w = 0"
    and "g_zViewAugmentedRealityModeBackgroundVertexArrayId w = 0"
    and "g_zViewAugmentedRealityModeBackgroundVertexArrayBufferId w = 0"
    and "g_zViewAugmentedRealityModeMaskGlFramebufferId w = 0"
    and "g_zViewAugmentedRealityModeGlFramebufferId w = 0"
    and "g_zViewAugmentedRealityModeColorGlTextureId w = 0"
    and "g_zViewAugmentedRealityModeDepthStencilGlRenderbufferId w = 0"
  shows "tearDownZviewAugmentedRealityMode w = (True, w)"
  using assms by (simp add: tearDownAR_eq ar_deleted_def deleted_def)

lemma tearDownAR_twice:
  "tearDownZviewAugmentedRealityMode (snd (tearDownZviewAugmentedRealityMode w)) =
     (True, snd (tearDownZviewAugmentedRealityMode w))"
  by (rule tearDownAR_idle) (simp_all add: tearDownAR_eq)

lemma tearDownMode_ok:
  assumes "fst (tearDownZviewMode e w)"
  shows "g_zViewLatestActiveConnectionMode (snd (tearDownZviewMode e w)) = NULL"
    and "g_zViewStandardMode (snd (tearDownZviewMode e w)) = g_zViewStandardMode w"
    and "g_zViewAugmentedRealityMode (snd (tearDownZviewMode e w)) = g_zViewAugmentedRealityMode w"
  using assms by (auto simp add: tearDownMode_eq tearDownStd_eq tearDownAR_eq emit_def split: if_splits)

lemma tearDownMode_idle:
  assumes "g_zViewLatestActiveConnectionMode w = NULL"
    and "g_zViewStandardMode w \<noteq> NULL" and "g_zViewAugmentedRealityMode w \<noteq> NULL"
  shows "tearDownZviewMode e w = (True, w)"
  using assms by (simp add: tearDownMode_eq)

lemma tearDownMode_twice:
  assumes "g_zViewStandardMode w \<noteq> NULL" and "g_zViewAugmentedRealityMode w \<noteq> NULL"
    and "fst (tearDownZviewMode e w)"
  shows "tearDownZviewMode e' (snd (tearDownZviewMode e w)) = (True, snd (tearDownZviewMode e w))"
  using assms by (intro tearDownMode_idle) (simp_all add: tearDownMode_ok)

lemma tearDownMode_failed:
  assumes "\<not> fst (tearDownZviewMode e w)"
  shows "tearDownZviewMode e w =
           (False, emit (ZcDestroyViewport (g_zViewStandardModeViewportHandle w)) w)"
    and "g_zViewLatestActiveConnectionMode w = g_zViewStandardMode w"
    and "g_zViewStandardModeViewportHandle w \<noteq> NULL"
    and "zcError e (ZcDestroyViewport (g_zViewStandardModeViewportHandle w)) \<noteq> ZC_ERROR_OK"
  using assms by (auto simp add: tearDownMode_eq tearDownStd_eq tearDownAR_eq emit_def split: if_splits)

lemma tearDownMode_twice_same:
  assumes "g_zViewStandardMode w \<noteq> NULL" and "g_zViewAugmentedRealityMode w \<noteq> NULL"
  shows "resource_state (snd (tearDownZviewMode e (snd (tearDownZviewMode e w)))) =
           resource_state (snd (tearDownZviewMode e w))"
proof (cases "fst (tearDownZviewMode e w)")
  case True
  with assms show ?thesis by (simp add: tearDownMode_twice)
next
  case False
  note f = tearDownMode_failed [OF False]
  have "tearDownZviewMode e (emit (ZcDestroyViewport (g_zViewStandardModeViewportHandle w)) w) =
          (False, emit (ZcDestroyViewport (g_zViewStandardModeViewportHandle w))
                    (emit (ZcDestroyViewport (g_zViewStandardModeViewportHandle w)) w))"
    using f(2-4) by (simp add: tearDownMode_eq tearDownStd_eq emit_def)
  then show ?thesis
    by (simp add: f(1) resource_state_def emit_def)
qed

section \<open>Mode tear-down is idempotent\<close>

text \<open>
  C5. Calling \<^verbatim>\<open>tearDownZviewMode\<close> twice in a row, with no set-up in between, leaves
  the globals (latest active mode, viewport and frustum handles, OpenGL identifiers) as a
  single call leaves them. The two mode handles obtained at start-up are not \<open>NULL\<close>.
  When the first call returns true, the second call, whatever the libraries would answer,
  makes no library call at all and returns true; the same holds for the tear-down of
  each of the two modes on its own.
\<close>

theorem teardown_idempotent:
  assumes "g_zViewStandardMode w \<noteq> NULL" and "g_zViewAugmentedRealityMode w \<noteq> NULL"
  shows "resource_state (snd (tearDownZviewMode e (snd (tearDownZviewMode e w)))) =
           resource_state (snd (tearDownZviewMode e w))
       \<and> (fst (tearDownZviewMode e w) \<longrightarrow>
            tearDownZviewMode e' (snd (tearDownZviewMode e w)) =
              (True, snd (tearDownZviewMode e w)))
       \<and> (fst (tearDownZviewStandardMode e w) \<longrightarrow>
            tearDownZviewStandardMode e' (snd (tearDownZviewStandardMode e w)) =
              (True, snd (tearDownZviewStandardMode e w)))
       \<and> tearDownZviewAugmentedRealityMode (snd (tearDownZviewAugmentedRealityMode w)) =
            (True, snd (tearDownZviewAugmentedRealityMode w))"
  using assms
  by (simp add: tearDownMode_twice_same tearDownMode_twice tearDownStd_twice tearDownAR_twice)

theorem teardown_idempotent_witness:
  "g_zViewStandardMode standard_active \<noteq> NULL
   \<and> g_zViewAugmentedRealityMode standard_active \<noteq> NULL
   \<and> fst (tearDownZviewMode env_ok standard_active)
   \<and> fst (tearDownZviewStandardMode env_ok standard_active)
   \<and> issued (tearDownZviewMode env_ok) standard_active =
        [ZcDestroyViewport 21, GlDelete StandardModeGlFramebuffer 31,
         GlDelete StandardModeColorGlTexture 32, GlDelete StandardModeDepthGlRenderbuffer 33]
   \<and> tearDownZviewMode env_ok (snd (tearDownZviewMode env_ok standard_active)) =
        (True, snd (tearDownZviewMode env_ok standard_active))
   \<and> tearDownZviewStandardMode env_ok (snd (tearDownZviewStandardMode env_ok standard_active)) =
        (True, snd (tearDownZviewStandardMode env_ok standard_active))"
proof -
  have a: "g_zViewStandardMode standard_active \<noteq> NULL"
    and b: "g_zViewAugmentedRealityMode standard_active \<noteq> NULL"
    by (simp_all add: standard_active_def initialized_def world0_def)
  have c: "fst (tearDownZviewStandardMode env_ok standard_active)"
    by (simp add: tearDownStd_eq standard_active_def initialized_def world0_def env_ok_def)
  have d: "fst (tearDownZviewMode env_ok standard_active)"
    using c by (simp add: tearDownMode_eq standard_active_def initialized_def world0_def)
  have i: "issued (tearDownZviewMode env_ok) standard_active =
        [ZcDestroyViewport 21, GlDelete StandardModeGlFramebuffer 31,
         GlDelete StandardModeColorGlTexture 32, GlDelete StandardModeDepthGlRenderbuffer 33]"
    by (simp add: issued_def tearDownMode_eq tearDownStd_eq std_deleted_def deleted_def
          standard_active_def initialized_def world0_def env_ok_def)
  show ?thesis
    using teardown_idempotent [OF a b, of env_ok env_ok] a b c d i by simp
qed

section \<open>The trace grows, the globals stay\<close>

lemma emit_simps [simp]:
  "calls (emit c w) = calls w @ [c]"
  "g_windowWidth (emit c w) = g_windowWidth w"
  "g_windowHeight (emit c w) = g_windowHeight w"
  "g_zViewContext (emit c w) = g_zViewContext w"
  "g_zViewActiveConnection (emit c w) = g_zViewActiveConnection w"
  "g_zViewStandardMode (emit c w) = g_zViewStandardMode w"
  "g_zViewAugmentedRealityMode (emit c w) = g_zViewAugmentedRealityMode w"
  "g_zViewLatestActiveConnectionMode (emit c w) = g_zViewLatestActiveConnectionMode w"
  "g_zViewCurrentConnectionModeIndex (emit c w) = g_zViewCurrentConnectionModeIndex w"
  "g_zViewVideoRecordingLatestState (emit c w) = g_zViewVideoRecordingLatestState w"
  "g_zViewStandardModeImageWidth (emit c w) = g_zViewStandardModeImageWidth w"
  "g_zViewStandardModeImageHeight (emit c w) = g_zViewStandardModeImageHeight w"
  "g_zViewStandardModeViewportHandle (emit c w) = g_zViewStandardModeViewportHandle w"
  "g_zViewStandardModeFrustumHandle (emit c w) = g_zViewStandardModeFrustumHandle w"
  "g_zViewStandardModeFrameNumber (emit c w) = g_zViewStandardModeFrameNumber w"
  "g_zViewStandardModeGlFramebufferId (emit c w) = g_zViewStandardModeGlFramebufferId w"
  "g_zViewStandardModeColorGlTextureId (emit c w) = g_zViewStandardModeColorGlTextureId w"
  "g_zViewStandardModeDepthGlRenderbufferId (emit c w) = g_zViewStandardModeDepthGlRenderbufferId w"
  "g_zViewAugmentedRealityModeImageWidth (emit c w) = g_zViewAugmentedRealityModeImageWidth w"
  "g_zViewAugmentedRealityModeImageHeight (emit c w) = g_zViewAugmentedRealityModeImageHeight w"
  "g_zViewAugmentedRealityModeMaskVertexArrayId (emit c w) = g_zViewAugmentedRealityModeMaskVertexArrayId w"
  "g_zViewAugmentedRealityModeMaskVertexArrayBufferId (emit c w) = g_zViewAugmentedRealityModeMaskVertexArrayBufferId w"
  "g_zViewAugmentedRealityModeBackgroundVertexArrayId (emit c w) = g_zViewAugmentedRealityModeBackgroundVertexArrayId w"
  "g_zViewAugmentedRealityModeBackgroundVertexArrayBufferId (emit c w) = g_zViewAugmentedRealityModeBackgroundVertexArrayBufferId w"
  "g_zViewAugmentedRealityModeMaskGlFramebufferId (emit c w) = g_zViewAugmentedRealityModeMaskGlFramebufferId w"
  "g_zViewAugmentedRealityModeGlFramebufferId (emit c w) = g_zViewAugmentedRealityModeGlFramebufferId w"
  "g_zViewAugmentedRealityModeColorGlTextureId (emit c w) = g_zViewAugmentedRealityModeColorGlTextureId w"
  "g_zViewAugmentedRealityModeDepthStencilGlRenderbufferId (emit c w) = g_zViewAugmentedRealityModeDepthStencilGlRenderbufferId w"
  by (simp_all add: emit_def)

lemma issued_append:
  "calls (snd (f w)) = calls w @ xs \<Longrightarrow> issued f w = xs"
  by (simp add: issued_def)

section \<open>The frame pump, step by step\<close>

lemma sub_return [simp]: "sub r (\<lambda>w. (True, w)) = r"
  by (cases r) (simp add: sub_def)

lemma if_pair_same: "(if b then (True, x) else (False, x)) = (b, x)"
  by simp

lemma handleRes_calls:
  "calls (snd (handleZviewStandardModeImageResolutionChange e w)) =
     calls w @ issued (handleZviewStandardModeImageResolutionChange e) w"
  by (simp add: issued_def handleZviewStandardModeImageResolutionChange_def zv_def)

lemma handleRes_transmitted:
  "transmitted e' tag (issued (handleZviewStandardModeImageResolutionChange e) w) = []"
  by (simp add: issued_def handleZviewStandardModeImageResolutionChange_def zv_def)

lemma handleRes_fields [simp]:
  "g_zViewStandardModeFrameNumber (snd (handleZviewStandardModeImageResolutionChange e w)) =
     g_zViewStandardModeFrameNumber w"
  "g_zViewActiveConnection (snd (handleZviewStandardModeImageResolutionChange e w)) =
     g_zViewActiveConnection w"
  "g_zViewContext (snd (handleZviewStandardModeImageResolutionChange e w)) = g_zViewContext w"
  "g_zViewStandardMode (snd (handleZviewStandardModeImageResolutionChange e w)) =
     g_zViewStandardMode w"
  "g_zViewAugmentedRealityMode (snd (handleZviewStandardModeImageResolutionChange e w)) =
     g_zViewAugmentedRealityMode w"
  by (simp_all add: handleZviewStandardModeImageResolutionChange_def zv_def)

lemmas drawZview_steps = if_pair_same drawZview_def zv_def zc_def sub_def drawZviewStandardMode_def
  drawZviewAugmentedRealityMode_def Let_def handleRes_calls handleRes_transmitted

lemma drawZview_summary:
  "g_zViewActiveConnection (snd (drawZview e w)) = g_zViewActiveConnection w
   \<and> g_zViewContext (snd (drawZview e w)) = g_zViewContext w
   \<and> g_zViewStandardMode (snd (drawZview e w)) = g_zViewStandardMode w
   \<and> g_zViewAugmentedRealityMode (snd (drawZview e w)) = g_zViewAugmentedRealityMode w
   \<and> (out_connectionMode e (g_zViewActiveConnection w) = g_zViewStandardMode w \<longrightarrow>
         (transmitted e tag (issued (drawZview e) w) = [] \<and>
          g_zViewStandardModeFrameNumber (snd (drawZview e w)) =
            g_zViewStandardModeFrameNumber w)
         \<or> (transmitted e tag (issued (drawZview e) w) =
              [(out_nextFrameToSend e (g_zViewActiveConnection w),
                Some (g_zViewStandardModeFrameNumber w))] \<and>
             g_zViewStandardModeFrameNumber (snd (drawZview e w)) =
               g_zViewStandardModeFrameNumber w + 1))
   \<and> (out_connectionMode e (g_zViewActiveConnection w) \<noteq> g_zViewStandardMode w \<longrightarrow>
         g_zViewStandardModeFrameNumber (snd (drawZview e w)) =
           g_zViewStandardModeFrameNumber w \<and>
         (transmitted e tag (issued (drawZview e) w) = []
          \<or> transmitted e tag (issued (drawZview e) w) =
              [(out_nextFrameToSend e (g_zViewActiveConnection w),
                Some (out_frameDataU64 e (out_receivedFrame e (g_zViewActiveConnection w))
                        ZV_FRAME_DATA_KEY_FRAME_NUMBER))]))"
  unfolding issued_def
  apply (cases "g_zViewContext w = NULL";
         simp add: drawZview_steps split del: if_split cong: if_weak_cong)
  apply (cases "g_zViewActiveConnection w = NULL";
         simp add: drawZview_steps split del: if_split cong: if_weak_cong)
  apply (cases "zvError e (ZvGetConnectionState (g_zViewActiveConnection w)) = ZV_ERROR_OK";
         simp add: drawZview_steps split del: if_split cong: if_weak_cong)
  apply (cases "out_connectionState e (g_zViewActiveConnection w) = ZV_CONNECTION_STATE_MODE_ACTIVE";
         simp add: drawZview_steps split del: if_split cong: if_weak_cong)
  apply (cases "zvError e (ZvGetConnectionMode (g_zViewActiveConnection w)) = ZV_ERROR_OK";
         simp add: drawZview_steps split del: if_split cong: if_weak_cong)
  apply (cases "out_connectionMode e (g_zViewActiveConnection w) = g_zViewStandardMode w")
   apply (simp add: drawZview_steps split del: if_split cong: if_weak_cong)
   apply (cases "zvError e (ZvGetNextFrameToSend (g_zViewActiveConnection w)) = ZV_ERROR_OK";
          simp add: drawZview_steps split del: if_split cong: if_weak_cong)
   apply (cases "out_nextFrameToSend e (g_zViewActiveConnection w) = NULL";
          simp add: drawZview_steps split del: if_split cong: if_weak_cong)
   apply (cases "zvError e (ZvSetFrameDataU64 (out_nextFrameToSend e (g_zViewActiveConnection w)) ZV_FRAME_DATA_KEY_FRAME_NUMBER (g_zViewStandardModeFrameNumber w)) = ZV_ERROR_OK";
          simp add: drawZview_steps split del: if_split cong: if_weak_cong)
   apply (cases "zcError e (ZcSetViewportPosition (g_zViewStandardModeViewportHandle w)) = ZC_ERROR_OK";
          simp add: drawZview_steps split del: if_split cong: if_weak_cong)
   apply (cases "zcError e (ZcGetFrustumViewMatrix (g_zViewStandardModeFrustumHandle w)) = ZC_ERROR_OK";
          simp add: drawZview_steps split del: if_split cong: if_weak_cong)
   apply (cases "zcError e (ZcGetFrustumProjectionMatrix (g_zViewStandardModeFrustumHandle w)) = ZC_ERROR_OK";
          simp add: drawZview_steps split del: if_split cong: if_weak_cong)
   apply (cases "zvError e (ZvGetFrameBuffer (out_nextFrameToSend e (g_zViewActiveConnection w))) = ZV_ERROR_OK";
          simp add: drawZview_steps split del: if_split cong: if_weak_cong)
   apply (cases "zvError e (ZvSendFrame (out_nextFrameToSend e (g_zViewActiveConnection w))) = ZV_ERROR_OK";
          simp add: drawZview_steps split del: if_split cong: if_weak_cong)
  apply (cases "out_connectionMode e (g_zViewActiveConnection w) = g_zViewAugmentedRealityMode w";
         simp add: drawZview_steps split del: if_split cong: if_weak_cong)
  apply (cases "zvError e (ZvReceiveFrame (g_zViewActiveConnection w)) = ZV_ERROR_OK";
         simp add: drawZview_steps split del: if_split cong: if_weak_cong)
  apply (cases "out_receivedFrame e (g_zViewActiveConnection w) = NULL";
         simp add: drawZview_steps split del: if_split cong: if_weak_cong)
  apply (cases "zvError e (ZvGetFrameDataU64 (out_receivedFrame e (g_zViewActiveConnection w)) ZV_FRAME_DATA_KEY_FRAME_NUMBER) = ZV_ERROR_OK";
         simp add: drawZview_steps split del: if_split cong: if_weak_cong)
  apply (cases "zvError e (ZvGetFrameDataM4 (out_receivedFrame e (g_zViewActiveConnection w)) ZV_FRAME_DATA_KEY_CAMERA_POSE) = ZV_ERROR_OK";
         simp add: drawZview_steps split del: if_split cong: if_weak_cong)
  apply (cases "zvError e (ZvGetFrameDataF32 (out_receivedFrame e (g_zViewActiveConnection w)) ZV_FRAME_DATA_KEY_CAMERA_FOCAL_LENGTH) = ZV_ERROR_OK";
         simp add: drawZview_steps split del: if_split cong: if_weak_cong)
  apply (cases "zvError e (ZvGetFrameDataF32 (out_receivedFrame e (g_zViewActiveConnection w)) ZV_FRAME_DATA_KEY_CAMERA_PRINCIPAL_POINT_OFFSET_X) = ZV_ERROR_OK";
         simp add: drawZview_steps split del: if_split cong: if_weak_cong)
  apply (cases "zvError e (ZvGetFrameDataF32 (out_receivedFrame e (g_zViewActiveConnection w)) ZV_FRAME_DATA_KEY_CAMERA_PRINCIPAL_POINT_OFFSET_Y) = ZV_ERROR_OK";
         simp add: drawZview_steps split del: if_split cong: if_weak_cong)
  apply (cases "zvError e (ZvGetFrameDataF32 (out_receivedFrame e (g_zViewActiveConnection w)) ZV_FRAME_DATA_KEY_CAMERA_PIXEL_ASPECT_RATIO) = ZV_ERROR_OK";
         simp add: drawZview_steps split del: if_split cong: if_weak_cong)
  apply (cases "zvError e (ZvGetFrameDataF32 (out_receivedFrame e (g_zViewActiveConnection w)) ZV_FRAME_DATA_KEY_CAMERA_AXIS_SKEW) = ZV_ERROR_OK";
         simp add: drawZview_steps split del: if_split cong: if_weak_cong)
  apply (cases "zvError e (ZvReleaseReceivedFrame (out_receivedFrame e (g_zViewActiveConnection w))) = ZV_ERROR_OK";
         simp add: drawZview_steps split del: if_split cong: if_weak_cong)
  apply (cases "zvError e (ZvGetNextFrameToSend (g_zViewActiveConnection w)) = ZV_ERROR_OK";
         simp add: drawZview_steps split del: if_split cong: if_weak_cong)
  apply (cases "out_nextFrameToSend e (g_zViewActiveConnection w) = NULL";
         simp add: drawZview_steps split del: if_split cong: if_weak_cong)
  apply (cases "zvError e (ZvSetFrameDataU64 (out_nextFrameToSend e (g_zViewActiveConnection w)) ZV_FRAME_DATA_KEY_FRAME_NUMBER (out_frameDataU64 e (out_receivedFrame e (g_zViewActiveConnection w)) ZV_FRAME_DATA_KEY_FRAME_NUMBER)) = ZV_ERROR_OK";
         simp add: drawZview_steps split del: if_split cong: if_weak_cong)
  apply (cases "zvError e (ZvGetFrameBuffer (out_nextFrameToSend e (g_zViewActiveConnection w))) = ZV_ERROR_OK";
         simp add: drawZview_steps split del: if_split cong: if_weak_cong)
  apply (cases "zvError e (ZvSendFrame (out_nextFrameToSend e (g_zViewActiveConnection w))) = ZV_ERROR_OK";
         simp add: drawZview_steps split del: if_split cong: if_weak_cong)
  done

lemma drawZview_skip:
  assumes "g_zViewContext w \<noteq> NULL" and "g_zViewActiveConnection w \<noteq> NULL"
    and "zvError e (ZvGetConnectionState (g_zViewActiveConnection w)) = ZV_ERROR_OK"
    and "out_connectionState e (g_zViewActiveConnection w) = ZV_CONNECTION_STATE_MODE_ACTIVE"
    and "zvError e (ZvGetConnectionMode (g_zViewActiveConnection w)) = ZV_ERROR_OK"
    and "out_connectionMode e (g_zViewActiveConnection w) = g_zViewStandardMode w"
    and "zvError e (ZvGetNextFrameToSend (g_zViewActiveConnection w)) = ZV_ERROR_OK"
    and "out_nextFrameToSend e (g_zViewActiveConnection w) = NULL"
  shows "drawZview e w =
           (True, w\<lparr>calls := calls w @
                      [ZvGetConnectionState (g_zViewActiveConnection w),
                       ZvGetConnectionMode (g_zViewActiveConnection w),
                       ZvGetNextFrameToSend (g_zViewActiveConnection w)]\<rparr>)"
  using assms by (simp add: drawZview_def zv_def emit_def)

lemma drawZview_standard_sent:
  assumes "g_zViewContext w \<noteq> NULL" and "g_zViewActiveConnection w \<noteq> NULL"
    and "zvError e = (\<lambda>_. ZV_ERROR_OK)" and "zcError e = (\<lambda>_. ZC_ERROR_OK)"
    and "out_connectionState e (g_zViewActiveConnection w) = ZV_CONNECTION_STATE_MODE_ACTIVE"
    and "out_connectionMode e (g_zViewActiveConnection w) = g_zViewStandardMode w"
    and "out_nextFrameToSend e (g_zViewActiveConnection w) \<noteq> NULL"
  shows "transmitted e tag (issued (drawZview e) w) =
           [(out_nextFrameToSend e (g_zViewActiveConnection w),
             Some (g_zViewStandardModeFrameNumber w))]"
  unfolding issued_def using assms
  by (simp add: drawZview_steps split del: if_split cong: if_weak_cong)

lemma drawZview_ar_sent:
  assumes "g_zViewContext w \<noteq> NULL" and "g_zViewActiveConnection w \<noteq> NULL"
    and "zvError e = (\<lambda>_. ZV_ERROR_OK)"
    and "out_connectionState e (g_zViewActiveConnection w) = ZV_CONNECTION_STATE_MODE_ACTIVE"
    and "out_connectionMode e (g_zViewActiveConnection w) = g_zViewAugmentedRealityMode w"
    and "g_zViewAugmentedRealityMode w \<noteq> g_zViewStandardMode w"
    and "out_receivedFrame e (g_zViewActiveConnection w) \<noteq> NULL"
    and "out_nextFrameToSend e (g_zViewActiveConnection w) \<noteq> NULL"
  shows "transmitted e tag (issued (drawZview e) w) =
           [(out_nextFrameToSend e (g_zViewActiveConnection w),
             Some (out_frameDataU64 e (out_receivedFrame e (g_zViewActiveConnection w))
                     ZV_FRAME_DATA_KEY_FRAME_NUMBER))]"
  unfolding issued_def using assms
  by (simp add: drawZview_steps split del: if_split cong: if_weak_cong)

lemma drawZviews_standard:
  assumes "\<forall>e \<in> set es. out_connectionMode e (g_zViewActiveConnection w) = g_zViewStandardMode w"
  shows "(\<forall>i < length (drawZviews es w).
            snd (drawZviews es w ! i) = Some (g_zViewStandardModeFrameNumber w + of_nat i))
       \<and> g_zViewStandardModeFrameNumber (drawZview_run es w) =
           g_zViewStandardModeFrameNumber w + of_nat (length (drawZviews es w))"
  using assms
proof (induction es arbitrary: w)
  case Nil
  then show ?case by simp
next
  case (Cons e es)
  let ?t = "transmitted e Map.empty (issued (drawZview e) w)"
  let ?w = "snd (drawZview e w)"
  note s = drawZview_summary [of e w Map.empty]
  have m: "out_connectionMode e (g_zViewActiveConnection w) = g_zViewStandardMode w"
    using Cons.prems by simp
  have "\<forall>e \<in> set es. out_connectionMode e (g_zViewActiveConnection ?w) = g_zViewStandardMode ?w"
    using Cons.prems s by simp
  then have ih: "(\<forall>i < length (drawZviews es ?w).
            snd (drawZviews es ?w ! i) = Some (g_zViewStandardModeFrameNumber ?w + of_nat i))
       \<and> g_zViewStandardModeFrameNumber (drawZview_run es ?w) =
           g_zViewStandardModeFrameNumber ?w + of_nat (length (drawZviews es ?w))"
    by (rule Cons.IH)
  from s m consider
      (skip) "?t = []" "g_zViewStandardModeFrameNumber ?w = g_zViewStandardModeFrameNumber w"
    | (sent) "?t = [(out_nextFrameToSend e (g_zViewActiveConnection w),
                     Some (g_zViewStandardModeFrameNumber w))]"
             "g_zViewStandardModeFrameNumber ?w = g_zViewStandardModeFrameNumber w + 1"
    by blast
  then show ?case
  proof cases
    case skip
    with ih show ?thesis by simp
  next
    case sent
    with ih show ?thesis
      by (auto simp add: nth_Cons algebra_simps split: nat.splits)
  qed
qed

section \<open>The frame counter of the standard mode\<close>

text \<open>
  C8. In standard mode, a tick that finds no outgoing frame slot makes the three
  queries and nothing else: no global changes, so the frame counter keeps its value.
  A tick in standard mode transmits at most one frame; a frame it transmits carries the
  value the counter had before the tick, and the counter grows by one for each frame
  transmitted (the addition is that of 64-bit unsigned integers) and by nothing
  otherwise. Hence over every sequence of ticks in standard mode the frames transmitted
  carry consecutive tags starting at the initial value of the counter, however many
  ticks were skipped in between.
\<close>

theorem standard_frame_counter:
  "(g_zViewContext w \<noteq> NULL \<and> g_zViewActiveConnection w \<noteq> NULL \<and>
    zvError e (ZvGetConnectionState (g_zViewActiveConnection w)) = ZV_ERROR_OK \<and>
    out_connectionState e (g_zViewActiveConnection w) = ZV_CONNECTION_STATE_MODE_ACTIVE \<and>
    zvError e (ZvGetConnectionMode (g_zViewActiveConnection w)) = ZV_ERROR_OK \<and>
    out_connectionMode e (g_zViewActiveConnection w) = g_zViewStandardMode w \<and>
    zvError e (ZvGetNextFrameToSend (g_zViewActiveConnection w)) = ZV_ERROR_OK \<and>
    out_nextFrameToSend e (g_zViewActiveConnection w) = NULL \<longrightarrow>
      drawZview e w =
        (True, w\<lparr>calls := calls w @
                   [ZvGetConnectionState (g_zViewActiveConnection w),
                    ZvGetConnectionMode (g_zViewActiveConnection w),
                    ZvGetNextFrameToSend (g_zViewActiveConnection w)]\<rparr>))
   \<and> (out_connectionMode e (g_zViewActiveConnection w) = g_zViewStandardMode w \<longrightarrow>
        length (transmitted e Map.empty (issued (drawZview e) w)) \<le> 1 \<and>
        (\<forall>ft \<in> set (transmitted e Map.empty (issued (drawZview e) w)).
           snd ft = Some (g_zViewStandardModeFrameNumber w)) \<and>
        g_zViewStandardModeFrameNumber (snd (drawZview e w)) =
          g_zViewStandardModeFrameNumber w +
          of_nat (length (transmitted e Map.empty (issued (drawZview e) w))))
   \<and> ((\<forall>e \<in> set es. out_connectionMode e (g_zViewActiveConnection w) = g_zViewStandardMode w) \<longrightarrow>
        (\<forall>i < length (drawZviews es w).
           snd (drawZviews es w ! i) = Some (g_zViewStandardModeFrameNumber w + of_nat i)) \<and>
        g_zViewStandardModeFrameNumber (drawZview_run es w) =
          g_zViewStandardModeFrameNumber w + of_nat (length (drawZviews es w)))"
proof -
  have A: "g_zViewContext w \<noteq> NULL \<and> g_zViewActiveConnection w \<noteq> NULL \<and>
    zvError e (ZvGetConnectionState (g_zViewActiveConnection w)) = ZV_ERROR_OK \<and>
    out_connectionState e (g_zViewActiveConnection w) = ZV_CONNECTION_STATE_MODE_ACTIVE \<and>
    zvError e (ZvGetConnectionMode (g_zViewActiveConnection w)) = ZV_ERROR_OK \<and>
    out_connectionMode e (g_zViewActiveConnection w) = g_zViewStandardMode w \<and>
    zvError e (ZvGetNextFrameToSend (g_zViewActiveConnection w)) = ZV_ERROR_OK \<and>
    out_nextFrameToSend e (g_zViewActiveConnection w) = NULL \<longrightarrow>
      drawZview e w =
        (True, w\<lparr>calls := calls w @
                   [ZvGetConnectionState (g_zViewActiveConnection w),
                    ZvGetConnectionMode (g_zViewActiveConnection w),
                    ZvGetNextFrameToSend (g_zViewActiveConnection w)]\<rparr>)"
    by (intro impI, elim conjE, rule drawZview_skip)
  have B: "out_connectionMode e (g_zViewActiveConnection w) = g_zViewStandardMode w \<longrightarrow>
        length (transmitted e Map.empty (issued (drawZview e) w)) \<le> 1 \<and>
        (\<forall>ft \<in> set (transmitted e Map.empty (issued (drawZview e) w)).
           snd ft = Some (g_zViewStandardModeFrameNumber w)) \<and>
        g_zViewStandardModeFrameNumber (snd (drawZview e w)) =
          g_zViewStandardModeFrameNumber w +
          of_nat (length (transmitted e Map.empty (issued (drawZview e) w)))"
  proof
    assume m: "out_connectionMode e (g_zViewActiveConnection w) = g_zViewStandardMode w"
    let ?t = "transmitted e Map.empty (issued (drawZview e) w)"
    from drawZview_summary [of e w Map.empty] m consider
        (skip) "?t = []"
          "g_zViewStandardModeFrameNumber (snd (drawZview e w)) = g_zViewStandardModeFrameNumber w"
      | (sent) "?t = [(out_nextFrameToSend e (g_zViewActiveConnection w),
                       Some (g_zViewStandardModeFrameNumber w))]"
          "g_zViewStandardModeFrameNumber (snd (drawZview e w)) =
             g_zViewStandardModeFrameNumber w + 1"
      by blast
    then show "length ?t \<le> 1 \<and>
        (\<forall>ft \<in> set ?t. snd ft = Some (g_zViewStandardModeFrameNumber w)) \<and>
        g_zViewStandardModeFrameNumber (snd (drawZview e w)) =
          g_zViewStandardModeFrameNumber w + of_nat (length ?t)"
      by cases simp_all
  qed
  have C: "(\<forall>e \<in> set es. out_connectionMode e (g_zViewActiveConnection w) = g_zViewStandardMode w) \<longrightarrow>
        (\<forall>i < length (drawZviews es w).
           snd (drawZviews es w ! i) = Some (g_zViewStandardModeFrameNumber w + of_nat i)) \<and>
        g_zViewStandardModeFrameNumber (drawZview_run es w) =
          g_zViewStandardModeFrameNumber w + of_nat (length (drawZviews es w))"
    by (intro impI, rule drawZviews_standard)
  show ?thesis by (rule conjI [OF A conjI [OF B C]])
qed

theorem standard_frame_counter_witness:
  "drawZview env_noslot standard_streaming =
     (True, standard_streaming\<lparr>calls := [ZvGetConnectionState 5, ZvGetConnectionMode 5,
                                            ZvGetNextFrameToSend 5]\<rparr>)
   \<and> drawZviews [env_noslot, env_noslot, env_ok] standard_streaming = [(11, Some 7)]
   \<and> g_zViewStandardModeFrameNumber
       (drawZview_run [env_noslot, env_noslot, env_ok] standard_streaming) = 8"
proof -
  have f: "g_zViewContext standard_streaming = 1" "g_zViewActiveConnection standard_streaming = 5"
    "g_zViewStandardMode standard_streaming = 1" "calls standard_streaming = []"
    "g_zViewStandardModeFrameNumber standard_streaming = 7"
    by (simp_all add: standard_streaming_def standard_active_def initialized_def world0_def)
  have n: "zvError env_noslot = (\<lambda>_. ZV_ERROR_OK)" "out_connectionMode env_noslot = (\<lambda>_. 1)"
    "out_connectionState env_noslot = (\<lambda>_. ZV_CONNECTION_STATE_MODE_ACTIVE)"
    "out_nextFrameToSend env_noslot = (\<lambda>_. NULL)"
    and k: "zvError env_ok = (\<lambda>_. ZV_ERROR_OK)" "zcError env_ok = (\<lambda>_. ZC_ERROR_OK)"
    "out_connectionMode env_ok = (\<lambda>_. 1)"
    "out_connectionState env_ok = (\<lambda>_. ZV_CONNECTION_STATE_MODE_ACTIVE)"
    "out_nextFrameToSend env_ok = (\<lambda>_. 11)"
    by (simp_all add: env_noslot_def env_ok_def)
  let ?es = "[env_noslot, env_noslot, env_ok]"
  let ?q = "[ZvGetConnectionState 5, ZvGetConnectionMode 5, ZvGetNextFrameToSend 5]"
  let ?w1 = "standard_streaming\<lparr>calls := ?q\<rparr>"
  let ?w2 = "standard_streaming\<lparr>calls := [ZvGetConnectionState 5, ZvGetConnectionMode 5,
      ZvGetNextFrameToSend 5, ZvGetConnectionState 5, ZvGetConnectionMode 5,
      ZvGetNextFrameToSend 5]\<rparr>"
  note t = standard_frame_counter [of standard_streaming env_noslot ?es]
  have "drawZview env_noslot standard_streaming =
          (True, standard_streaming\<lparr>calls := calls standard_streaming @
             [ZvGetConnectionState (g_zViewActiveConnection standard_streaming),
              ZvGetConnectionMode (g_zViewActiveConnection standard_streaming),
              ZvGetNextFrameToSend (g_zViewActiveConnection standard_streaming)]\<rparr>)"
    by (rule t [THEN conjunct1, THEN mp]) (simp add: f n)
  then have a: "drawZview env_noslot standard_streaming = (True, ?w1)"
    by (simp add: f)
  have "drawZview env_noslot ?w1 =
          (True, ?w1\<lparr>calls := calls ?w1 @
             [ZvGetConnectionState (g_zViewActiveConnection ?w1),
              ZvGetConnectionMode (g_zViewActiveConnection ?w1),
              ZvGetNextFrameToSend (g_zViewActiveConnection ?w1)]\<rparr>)"
    by (rule drawZview_skip) (simp_all add: f n)
  then have d1: "drawZview env_noslot ?w1 = (True, ?w2)"
    by (simp add: f)
  have i1: "issued (drawZview env_noslot) standard_streaming = ?q"
    by (simp add: issued_def a f)
  have i2: "issued (drawZview env_noslot) ?w1 = ?q"
    by (simp add: issued_def d1)
  have "transmitted env_ok Map.empty (issued (drawZview env_ok) ?w2) =
          [(out_nextFrameToSend env_ok (g_zViewActiveConnection ?w2),
            Some (g_zViewStandardModeFrameNumber ?w2))]"
    by (rule drawZview_standard_sent) (simp_all add: f k)
  then have i3: "transmitted env_ok Map.empty (issued (drawZview env_ok) ?w2) = [(11, Some 7)]"
    by (simp add: f k)
  have c: "drawZviews ?es standard_streaming = [(11, Some 7)]"
    by (simp add: a d1 i1 i2 i3)
  have "g_zViewStandardModeFrameNumber (drawZview_run ?es standard_streaming) =
          g_zViewStandardModeFrameNumber standard_streaming +
          of_nat (length (drawZviews ?es standard_streaming))"
    by (rule t [THEN conjunct2, THEN conjunct2, THEN mp, THEN conjunct2]) (simp add: f n k)
  then have "g_zViewStandardModeFrameNumber (drawZview_run ?es standard_streaming) = 8"
    unfolding c f by simp
  with a c show ?thesis by simp
qed

section \<open>The frame tag of the augmented reality mode\<close>

text \<open>
  C3. In augmented reality mode (whose handle differs from that of the standard mode), a
  tick transmits at most one frame, and a frame it transmits carries the frame number
  read from the frame received in that same tick. Tags set before the tick (\<open>tag\<close>)
  play no part, and the frame counter of the standard mode is neither used nor changed.
  When the frame is received, an outgoing frame is available and every call succeeds,
  the frame is transmitted.
\<close>

theorem ar_frame_tag_echo:
  assumes "out_connectionMode e (g_zViewActiveConnection w) = g_zViewAugmentedRealityMode w"
    and "g_zViewAugmentedRealityMode w \<noteq> g_zViewStandardMode w"
  shows "length (transmitted e tag (issued (drawZview e) w)) \<le> 1
       \<and> (\<forall>ft \<in> set (transmitted e tag (issued (drawZview e) w)).
            ft = (out_nextFrameToSend e (g_zViewActiveConnection w),
                  Some (out_frameDataU64 e (out_receivedFrame e (g_zViewActiveConnection w))
                          ZV_FRAME_DATA_KEY_FRAME_NUMBER)))
       \<and> g_zViewStandardModeFrameNumber (snd (drawZview e w)) = g_zViewStandardModeFrameNumber w
       \<and> (g_zViewContext w \<noteq> NULL \<and> g_zViewActiveConnection w \<noteq> NULL \<and>
          zvError e = (\<lambda>_. ZV_ERROR_OK) \<and>
          out_connectionState e (g_zViewActiveConnection w) = ZV_CONNECTION_STATE_MODE_ACTIVE \<and>
          out_receivedFrame e (g_zViewActiveConnection w) \<noteq> NULL \<and>
          out_nextFrameToSend e (g_zViewActiveConnection w) \<noteq> NULL \<longrightarrow>
            transmitted e tag (issued (drawZview e) w) =
              [(out_nextFrameToSend e (g_zViewActiveConnection w),
                Some (out_frameDataU64 e (out_receivedFrame e (g_zViewActiveConnection w))
                        ZV_FRAME_DATA_KEY_FRAME_NUMBER))])"
proof -
  let ?t = "transmitted e tag (issued (drawZview e) w)"
  let ?x = "(out_nextFrameToSend e (g_zViewActiveConnection w),
             Some (out_frameDataU64 e (out_receivedFrame e (g_zViewActiveConnection w))
                     ZV_FRAME_DATA_KEY_FRAME_NUMBER))"
  have n: "out_connectionMode e (g_zViewActiveConnection w) \<noteq> g_zViewStandardMode w"
    using assms by simp
  from drawZview_summary [of e w tag] n
  have c: "g_zViewStandardModeFrameNumber (snd (drawZview e w)) = g_zViewStandardModeFrameNumber w"
    and "?t = [] \<or> ?t = [?x]"
    by blast+
  then have A: "length ?t \<le> 1" and B: "\<forall>ft \<in> set ?t. ft = ?x"
    by auto
  have D: "g_zViewContext w \<noteq> NULL \<and> g_zViewActiveConnection w \<noteq> NULL \<and>
          zvError e = (\<lambda>_. ZV_ERROR_OK) \<and>
          out_connectionState e (g_zViewActiveConnection w) = ZV_CONNECTION_STATE_MODE_ACTIVE \<and>
          out_receivedFrame e (g_zViewActiveConnection w) \<noteq> NULL \<and>
          out_nextFrameToSend e (g_zViewActiveConnection w) \<noteq> NULL \<longrightarrow> ?t = [?x]"
    by (intro impI, elim conjE, rule drawZview_ar_sent) (simp_all add: assms)
  show ?thesis by (rule conjI [OF A conjI [OF B conjI [OF c D]]])
qed

theorem ar_frame_tag_echo_witness:
  "out_connectionMode env_ar (g_zViewActiveConnection ar_active) =
     g_zViewAugmentedRealityMode ar_active
   \<and> g_zViewAugmentedRealityMode ar_active \<noteq> g_zViewStandardMode ar_active
   \<and> out_frameDataU64 env_ar 12 ZV_FRAME_DATA_KEY_FRAME_NUMBER = 42
   \<and> transmitted env_ar Map.empty (issued (drawZview env_ar) ar_active) = [(11, Some 42)]"
proof -
  have f: "g_zViewContext ar_active = 1" "g_zViewActiveConnection ar_active = 5"
    "g_zViewStandardMode ar_active = 1" "g_zViewAugmentedRealityMode ar_active = 2"
    by (simp_all add: ar_active_def initialized_def world0_def)
  have k: "zvError env_ar = (\<lambda>_. ZV_ERROR_OK)" "out_connectionMode env_ar = (\<lambda>_. 2)"
    "out_connectionState env_ar = (\<lambda>_. ZV_CONNECTION_STATE_MODE_ACTIVE)"
    "out_nextFrameToSend env_ar = (\<lambda>_. 11)" "out_receivedFrame env_ar = (\<lambda>_. 12)"
    "out_frameDataU64 env_ar = (\<lambda>_ _. 42)"
    by (simp_all add: env_ar_def env_ok_def)
  have m: "out_connectionMode env_ar (g_zViewActiveConnection ar_active) =
             g_zViewAugmentedRealityMode ar_active"
    and d: "g_zViewAugmentedRealityMode ar_active \<noteq> g_zViewStandardMode ar_active"
    by (simp_all add: f k)
  have "transmitted env_ar Map.empty (issued (drawZview env_ar) ar_active) =
          [(out_nextFrameToSend env_ar (g_zViewActiveConnection ar_active),
            Some (out_frameDataU64 env_ar (out_receivedFrame env_ar (g_zViewActiveConnection ar_active))
                    ZV_FRAME_DATA_KEY_FRAME_NUMBER))]"
    by (rule ar_frame_tag_echo [OF m d, THEN conjunct2, THEN conjunct2, THEN conjunct2, THEN mp])
       (simp add: f k)
  then show ?thesis
    using m d by (simp add: f k)
qed

section \<open>The video recording poll\<close>






lemma mode_changes_simps [simp]:
  "mode_changes [] = []"
  "mode_changes (xs @ ys) = mode_changes xs @ mode_changes ys"
  "mode_changes (ZvSetConnectionMode c m # cs) = (c, m) # mode_changes cs"
  "mode_changes (ZvGetConnectionSupportedMode c i # cs) = mode_changes cs"
  "mode_changes (ZvGetConnectionState c # cs) = mode_changes cs"
  "mode_changes (ZvGetNumConnectionSupportedModes c # cs) = mode_changes cs"
  "mode_changes (PrintLog l # cs) = mode_changes cs"
  by (simp_all add: mode_changes_def)

lemma smod_nonneg: "0 \<le> a \<Longrightarrow> 0 < b \<Longrightarrow> a smod b = a mod (b :: int)"
  by (simp add: smod_int_alt_def sgn_if)

declare switchZviewMode_loop.simps [simp del]

lemma switch_loop_step:
  assumes "t < n" and "0 \<le> g_zViewCurrentConnectionModeIndex w" and "0 \<le> t"
    and "zvError e (ZvGetConnectionSupportedMode (g_zViewActiveConnection w)
           ((g_zViewCurrentConnectionModeIndex w + 1) mod n)) = ZV_ERROR_OK"
  shows "switchZviewMode_loop e n t w =
     (let i = (g_zViewCurrentConnectionModeIndex w + 1) mod n;
          w1 = emit (ZvGetConnectionSupportedMode (g_zViewActiveConnection w) i)
                 (w\<lparr>g_zViewCurrentConnectionModeIndex := i\<rparr>)
      in if availability (out_supportedMode e (g_zViewActiveConnection w) i) =
              ZV_MODE_AVAILABILITY_AVAILABLE
         then zv e (ZvSetConnectionMode (g_zViewActiveConnection w)
                      (mode (out_supportedMode e (g_zViewActiveConnection w) i)))
                (emit (PrintLog SwitchingZviewModes) w1) (\<lambda>w. (True, w))
         else switchZviewMode_loop e n (t + 1) w1)"
proof -
  have n: "0 < n" using assms(1,3) by simp
  have s: "(g_zViewCurrentConnectionModeIndex w + 1) smod n =
           (g_zViewCurrentConnectionModeIndex w + 1) mod n"
    using assms(2) n by (simp add: smod_nonneg)
  show ?thesis
    by (subst switchZviewMode_loop.simps) (simp add: assms s zv_def Let_def)
qed

lemma switch_loop_found:
  assumes "g_zViewActiveConnection w = a"
    and "0 \<le> g_zViewCurrentConnectionModeIndex w" and "0 \<le> t"
    and "1 \<le> j" and "j \<le> n - t"
    and "availability (out_supportedMode e a ((g_zViewCurrentConnectionModeIndex w + j) mod n)) =
           ZV_MODE_AVAILABILITY_AVAILABLE"
    and "\<forall>j'. 1 \<le> j' \<and> j' < j \<longrightarrow>
           availability (out_supportedMode e a ((g_zViewCurrentConnectionModeIndex w + j') mod n)) \<noteq>
             ZV_MODE_AVAILABILITY_AVAILABLE"
    and "\<forall>i. 0 \<le> i \<and> i < n \<longrightarrow> zvError e (ZvGetConnectionSupportedMode a i) = ZV_ERROR_OK"
  shows "fst (switchZviewMode_loop e n t w) =
           (zvError e (ZvSetConnectionMode a
              (mode (out_supportedMode e a ((g_zViewCurrentConnectionModeIndex w + j) mod n)))) =
            ZV_ERROR_OK)
       \<and> g_zViewCurrentConnectionModeIndex (snd (switchZviewMode_loop e n t w)) =
           (g_zViewCurrentConnectionModeIndex w + j) mod n
       \<and> (\<exists>xs. calls (snd (switchZviewMode_loop e n t w)) = calls w @ xs \<and>
                mode_changes xs =
                  [(a, mode (out_supportedMode e a
                               ((g_zViewCurrentConnectionModeIndex w + j) mod n)))])"
  using assms(1-7)
proof (induction "nat (j - 1)" arbitrary: j w t)
  case 0
  then have j: "j = 1" by simp
  let ?i = "(g_zViewCurrentConnectionModeIndex w + 1) mod n"
  have n: "0 < n" and tn: "t < n" using 0 by simp_all
  have ok: "zvError e (ZvGetConnectionSupportedMode (g_zViewActiveConnection w) ?i) = ZV_ERROR_OK"
    using assms(8) n by (simp add: "0.prems"(1))
  have av: "availability (out_supportedMode e a ?i) = ZV_MODE_AVAILABILITY_AVAILABLE"
    using "0.prems"(6) j by simp
  show ?case
    by (simp add: switch_loop_step [OF tn "0.prems"(2,3) ok] "0.prems"(1) av j zv_def Let_def)
next
  case (Suc k)
  let ?i = "(g_zViewCurrentConnectionModeIndex w + 1) mod n"
  let ?w1 = "emit (ZvGetConnectionSupportedMode (g_zViewActiveConnection w) ?i)
               (w\<lparr>g_zViewCurrentConnectionModeIndex := ?i\<rparr>)"
  have j2: "2 \<le> j" using Suc.hyps(2) by simp
  have n: "0 < n" and tn: "t < n" using Suc.prems by simp_all
  have ok: "zvError e (ZvGetConnectionSupportedMode (g_zViewActiveConnection w) ?i) = ZV_ERROR_OK"
    using assms(8) n by (simp add: Suc.prems(1))
  have nav: "availability (out_supportedMode e a ?i) \<noteq> ZV_MODE_AVAILABILITY_AVAILABLE"
    using Suc.prems(7) j2 by simp
  have step: "switchZviewMode_loop e n t w = switchZviewMode_loop e n (t + 1) ?w1"
    by (simp add: switch_loop_step [OF tn Suc.prems(2,3) ok] Suc.prems(1) nav Let_def)
  have sh: "(g_zViewCurrentConnectionModeIndex ?w1 + x) mod n =
            (g_zViewCurrentConnectionModeIndex w + (x + 1)) mod n" for x
    using mod_add_left_eq [of "g_zViewCurrentConnectionModeIndex w + 1" n x]
    by (simp add: add.assoc add.commute [of 1 x])
  have ih: "fst (switchZviewMode_loop e n (t + 1) ?w1) =
           (zvError e (ZvSetConnectionMode a
              (mode (out_supportedMode e a
                       ((g_zViewCurrentConnectionModeIndex ?w1 + (j - 1)) mod n)))) =
            ZV_ERROR_OK)
       \<and> g_zViewCurrentConnectionModeIndex (snd (switchZviewMode_loop e n (t + 1) ?w1)) =
           (g_zViewCurrentConnectionModeIndex ?w1 + (j - 1)) mod n
       \<and> (\<exists>xs. calls (snd (switchZviewMode_loop e n (t + 1) ?w1)) = calls ?w1 @ xs \<and>
                mode_changes xs =
                  [(a, mode (out_supportedMode e a
                               ((g_zViewCurrentConnectionModeIndex ?w1 + (j - 1)) mod n)))])"
  proof (rule Suc.hyps(1))
    show "k = nat (j - 1 - 1)" using Suc.hyps(2) by simp
    show "g_zViewActiveConnection ?w1 = a" using Suc.prems(1) by simp
    show "0 \<le> g_zViewCurrentConnectionModeIndex ?w1" using n by simp
    show "0 \<le> t + 1" using Suc.prems(3) by simp
    show "1 \<le> j - 1" using j2 by simp
    show "j - 1 \<le> n - (t + 1)" using Suc.prems(5) by simp
    show "availability (out_supportedMode e a
            ((g_zViewCurrentConnectionModeIndex ?w1 + (j - 1)) mod n)) =
          ZV_MODE_AVAILABILITY_AVAILABLE"
      using Suc.prems(6) by (simp only: sh) simp
    show "\<forall>j'. 1 \<le> j' \<and> j' < j - 1 \<longrightarrow>
           availability (out_supportedMode e a
             ((g_zViewCurrentConnectionModeIndex ?w1 + j') mod n)) \<noteq>
           ZV_MODE_AVAILABILITY_AVAILABLE"
    proof (intro allI impI)
      fix j' :: int
      assume "1 \<le> j' \<and> j' < j - 1"
      then have "1 \<le> j' + 1 \<and> j' + 1 < j" by simp
      with Suc.prems(7) show "availability (out_supportedMode e a
             ((g_zViewCurrentConnectionModeIndex ?w1 + j') mod n)) \<noteq>
           ZV_MODE_AVAILABILITY_AVAILABLE"
        unfolding sh by blast
    qed
  qed
  have e1: "(g_zViewCurrentConnectionModeIndex ?w1 + (j - 1)) mod n =
            (g_zViewCurrentConnectionModeIndex w + j) mod n"
    unfolding sh by simp
  note ih' = ih [unfolded e1]
  obtain xs where xs: "calls (snd (switchZviewMode_loop e n (t + 1) ?w1)) = calls ?w1 @ xs"
      "mode_changes xs =
         [(a, mode (out_supportedMode e a ((g_zViewCurrentConnectionModeIndex w + j) mod n)))]"
    using ih' [THEN conjunct2, THEN conjunct2] by blast
  have c: "\<exists>xs. calls (snd (switchZviewMode_loop e n t w)) = calls w @ xs \<and>
                mode_changes xs =
                  [(a, mode (out_supportedMode e a
                               ((g_zViewCurrentConnectionModeIndex w + j) mod n)))]"
    unfolding step
    by (rule exI [of _ "ZvGetConnectionSupportedMode (g_zViewActiveConnection w) ?i # xs"])
       (simp add: xs)
  show ?case
    using ih' [THEN conjunct1] ih' [THEN conjunct2, THEN conjunct1] c
    unfolding step by (intro conjI)
qed

lemma switch_loop_none:
  assumes "g_zViewActiveConnection w = a"
    and "0 \<le> g_zViewCurrentConnectionModeIndex w" and "0 \<le> t"
    and "\<forall>j. 1 \<le> j \<and> j \<le> n - t \<longrightarrow>
           availability (out_supportedMode e a ((g_zViewCurrentConnectionModeIndex w + j) mod n)) \<noteq>
             ZV_MODE_AVAILABILITY_AVAILABLE"
    and "\<forall>i. 0 \<le> i \<and> i < n \<longrightarrow> zvError e (ZvGetConnectionSupportedMode a i) = ZV_ERROR_OK"
  shows "fst (switchZviewMode_loop e n t w)
       \<and> g_zViewCurrentConnectionModeIndex (snd (switchZviewMode_loop e n t w)) =
           (if t < n then (g_zViewCurrentConnectionModeIndex w + (n - t)) mod n
            else g_zViewCurrentConnectionModeIndex w)
       \<and> (\<exists>xs. calls (snd (switchZviewMode_loop e n t w)) = calls w @ xs \<and>
                mode_changes xs = [])"
  using assms(1-4)
proof (induction "nat (n - t)" arbitrary: w t)
  case 0
  then have "\<not> t < n" by simp
  then have "switchZviewMode_loop e n t w = (True, w)"
    by (subst switchZviewMode_loop.simps) simp
  with \<open>\<not> t < n\<close> show ?case by simp
next
  case (Suc k)
  let ?i = "(g_zViewCurrentConnectionModeIndex w + 1) mod n"
  let ?w1 = "emit (ZvGetConnectionSupportedMode (g_zViewActiveConnection w) ?i)
               (w\<lparr>g_zViewCurrentConnectionModeIndex := ?i\<rparr>)"
  have tn: "t < n" using Suc.hyps(2) by simp
  then have n: "0 < n" using Suc.prems(3) by simp
  have ok: "zvError e (ZvGetConnectionSupportedMode (g_zViewActiveConnection w) ?i) = ZV_ERROR_OK"
    using assms(5) n by (simp add: Suc.prems(1))
  have nav: "availability (out_supportedMode e a ?i) \<noteq> ZV_MODE_AVAILABILITY_AVAILABLE"
    using Suc.prems(4) tn by simp
  have step: "switchZviewMode_loop e n t w = switchZviewMode_loop e n (t + 1) ?w1"
    by (simp add: switch_loop_step [OF tn Suc.prems(2,3) ok] Suc.prems(1) nav Let_def)
  have sh: "(g_zViewCurrentConnectionModeIndex ?w1 + x) mod n =
            (g_zViewCurrentConnectionModeIndex w + (x + 1)) mod n" for x
    using mod_add_left_eq [of "g_zViewCurrentConnectionModeIndex w + 1" n x]
    by (simp add: add.assoc add.commute [of 1 x])
  have ih: "fst (switchZviewMode_loop e n (t + 1) ?w1)
       \<and> g_zViewCurrentConnectionModeIndex (snd (switchZviewMode_loop e n (t + 1) ?w1)) =
           (if t + 1 < n then (g_zViewCurrentConnectionModeIndex ?w1 + (n - (t + 1))) mod n
            else g_zViewCurrentConnectionModeIndex ?w1)
       \<and> (\<exists>xs. calls (snd (switchZviewMode_loop e n (t + 1) ?w1)) = calls ?w1 @ xs \<and>
                mode_changes xs = [])"
  proof (rule Suc.hyps(1))
    show "k = nat (n - (t + 1))" using Suc.hyps(2) by simp
    show "g_zViewActiveConnection ?w1 = a" using Suc.prems(1) by simp
    show "0 \<le> g_zViewCurrentConnectionModeIndex ?w1" using n by simp
    show "0 \<le> t + 1" using Suc.prems(3) by simp
    show "\<forall>j. 1 \<le> j \<and> j \<le> n - (t + 1) \<longrightarrow>
           availability (out_supportedMode e a
             ((g_zViewCurrentConnectionModeIndex ?w1 + j) mod n)) \<noteq>
           ZV_MODE_AVAILABILITY_AVAILABLE"
    proof (intro allI impI)
      fix j :: int
      assume "1 \<le> j \<and> j \<le> n - (t + 1)"
      then have "1 \<le> j + 1 \<and> j + 1 \<le> n - t" by simp
      with Suc.prems(4) show "availability (out_supportedMode e a
             ((g_zViewCurrentConnectionModeIndex ?w1 + j) mod n)) \<noteq>
           ZV_MODE_AVAILABILITY_AVAILABLE"
        unfolding sh by blast
    qed
  qed
  have e1: "(if t + 1 < n then (g_zViewCurrentConnectionModeIndex ?w1 + (n - (t + 1))) mod n
             else g_zViewCurrentConnectionModeIndex ?w1) =
            (g_zViewCurrentConnectionModeIndex w + (n - t)) mod n"
  proof (cases "t + 1 < n")
    case True
    then show ?thesis unfolding sh by simp
  next
    case False
    with tn have "n - t = 1" by simp
    with False show ?thesis by simp
  qed
  note ih' = ih [unfolded e1]
  obtain xs where xs: "calls (snd (switchZviewMode_loop e n (t + 1) ?w1)) = calls ?w1 @ xs"
      "mode_changes xs = []"
    using ih' [THEN conjunct2, THEN conjunct2] by blast
  have c: "\<exists>xs. calls (snd (switchZviewMode_loop e n t w)) = calls w @ xs \<and>
                mode_changes xs = []"
    unfolding step
    by (rule exI [of _ "ZvGetConnectionSupportedMode (g_zViewActiveConnection w) ?i # xs"])
       (simp add: xs)
  have i: "g_zViewCurrentConnectionModeIndex (snd (switchZviewMode_loop e n t w)) =
           (if t < n then (g_zViewCurrentConnectionModeIndex w + (n - t)) mod n
            else g_zViewCurrentConnectionModeIndex w)"
    unfolding step using ih' [THEN conjunct2, THEN conjunct1] tn by simp
  show ?case
    using ih' [THEN conjunct1] i c
    unfolding step by (intro conjI)
qed

lemma switchZviewMode_eq:
  assumes "g_zViewActiveConnection w = a" and "a \<noteq> NULL"
    and "zvError e (ZvGetConnectionState a) = ZV_ERROR_OK"
    and "out_connectionState e a = ZV_CONNECTION_STATE_NO_MODE \<or>
         out_connectionState e a = ZV_CONNECTION_STATE_MODE_ACTIVE"
    and "zvError e (ZvGetNumConnectionSupportedModes a) = ZV_ERROR_OK"
  shows "switchZviewMode e w =
           switchZviewMode_loop e (out_numSupportedModes e a) 0
             (emit (ZvGetNumConnectionSupportedModes a) (emit (ZvGetConnectionState a) w))"
  using assms by (auto simp add: switchZviewMode_def zv_def Let_def)

section \<open>The switch-mode command\<close>

text \<open>
  C6. The switch-mode command, run with an active connection whose state is no-mode or
  mode-active, with \<open>n\<close> supported modes and the mode index at \<open>i\<close>: when
  \<open>(i + j) mod n\<close> is the first index after \<open>i\<close>, going round the list of supported
  modes, whose mode is available, the mode index becomes \<open>(i + j) mod n\<close> and the one
  mode change the command issues is to the mode at that index; the indices before it
  are skipped. When no supported mode is available, or there is none, the command
  issues no mode change and returns true.
\<close>

theorem switch_mode_next_available:
  assumes "g_zViewActiveConnection w = a" and "a \<noteq> NULL"
    and "zvError e (ZvGetConnectionState a) = ZV_ERROR_OK"
    and "out_connectionState e a = ZV_CONNECTION_STATE_NO_MODE \<or>
         out_connectionState e a = ZV_CONNECTION_STATE_MODE_ACTIVE"
    and "zvError e (ZvGetNumConnectionSupportedModes a) = ZV_ERROR_OK"
    and "out_numSupportedModes e a = n"
    and "0 \<le> g_zViewCurrentConnectionModeIndex w"
    and "\<forall>i. 0 \<le> i \<and> i < n \<longrightarrow> zvError e (ZvGetConnectionSupportedMode a i) = ZV_ERROR_OK"
  shows "(\<forall>j. 1 \<le> j \<and> j \<le> n \<and>
              availability (out_supportedMode e a
                ((g_zViewCurrentConnectionModeIndex w + j) mod n)) =
                ZV_MODE_AVAILABILITY_AVAILABLE \<and>
              (\<forall>j'. 1 \<le> j' \<and> j' < j \<longrightarrow>
                 availability (out_supportedMode e a
                   ((g_zViewCurrentConnectionModeIndex w + j') mod n)) \<noteq>
                   ZV_MODE_AVAILABILITY_AVAILABLE) \<longrightarrow>
            g_zViewCurrentConnectionModeIndex (snd (switchZviewMode e w)) =
              (g_zViewCurrentConnectionModeIndex w + j) mod n
          \<and> mode_changes (issued (switchZviewMode e) w) =
              [(a, mode (out_supportedMode e a
                           ((g_zViewCurrentConnectionModeIndex w + j) mod n)))]
          \<and> fst (switchZviewMode e w) =
              (zvError e (ZvSetConnectionMode a
                 (mode (out_supportedMode e a
                          ((g_zViewCurrentConnectionModeIndex w + j) mod n)))) =
               ZV_ERROR_OK))
       \<and> ((\<forall>i. 0 \<le> i \<and> i < n \<longrightarrow>
              availability (out_supportedMode e a i) \<noteq> ZV_MODE_AVAILABILITY_AVAILABLE) \<longrightarrow>
            mode_changes (issued (switchZviewMode e) w) = []
          \<and> fst (switchZviewMode e w))"
proof -
  let ?w2 = "emit (ZvGetNumConnectionSupportedModes a) (emit (ZvGetConnectionState a) w)"
  have eq: "switchZviewMode e w = switchZviewMode_loop e n 0 ?w2"
    using switchZviewMode_eq [OF assms(1-5)] assms(6) by simp
  have w2: "g_zViewActiveConnection ?w2 = a"
      "g_zViewCurrentConnectionModeIndex ?w2 = g_zViewCurrentConnectionModeIndex w"
      "calls ?w2 = calls w @ [ZvGetConnectionState a, ZvGetNumConnectionSupportedModes a]"
    using assms(1) by simp_all
  have i2: "0 \<le> g_zViewCurrentConnectionModeIndex ?w2"
    using assms(7) by simp
  have found: "g_zViewCurrentConnectionModeIndex (snd (switchZviewMode e w)) =
              (g_zViewCurrentConnectionModeIndex w + j) mod n
          \<and> mode_changes (issued (switchZviewMode e) w) =
              [(a, mode (out_supportedMode e a
                           ((g_zViewCurrentConnectionModeIndex w + j) mod n)))]
          \<and> fst (switchZviewMode e w) =
              (zvError e (ZvSetConnectionMode a
                 (mode (out_supportedMode e a
                          ((g_zViewCurrentConnectionModeIndex w + j) mod n)))) =
               ZV_ERROR_OK)"
    if h: "1 \<le> j \<and> j \<le> n \<and>
              availability (out_supportedMode e a
                ((g_zViewCurrentConnectionModeIndex w + j) mod n)) =
                ZV_MODE_AVAILABILITY_AVAILABLE \<and>
              (\<forall>j'. 1 \<le> j' \<and> j' < j \<longrightarrow>
                 availability (out_supportedMode e a
                   ((g_zViewCurrentConnectionModeIndex w + j') mod n)) \<noteq>
                   ZV_MODE_AVAILABILITY_AVAILABLE)" for j
  proof -
    have l: "fst (switchZviewMode_loop e n 0 ?w2) =
           (zvError e (ZvSetConnectionMode a
              (mode (out_supportedMode e a ((g_zViewCurrentConnectionModeIndex ?w2 + j) mod n)))) =
            ZV_ERROR_OK)
       \<and> g_zViewCurrentConnectionModeIndex (snd (switchZviewMode_loop e n 0 ?w2)) =
           (g_zViewCurrentConnectionModeIndex ?w2 + j) mod n
       \<and> (\<exists>xs. calls (snd (switchZviewMode_loop e n 0 ?w2)) = calls ?w2 @ xs \<and>
                mode_changes xs =
                  [(a, mode (out_supportedMode e a
                               ((g_zViewCurrentConnectionModeIndex ?w2 + j) mod n)))])"
    proof (rule switch_loop_found [OF w2(1) i2 _ _ _ _ _ assms(8)])
      show "(0::int) \<le> 0" by simp
      show "1 \<le> j" using h by simp
      show "j \<le> n - 0" using h by simp
      show "availability (out_supportedMode e a
              ((g_zViewCurrentConnectionModeIndex ?w2 + j) mod n)) =
            ZV_MODE_AVAILABILITY_AVAILABLE"
        unfolding w2(2) using h by blast
      show "\<forall>j'. 1 \<le> j' \<and> j' < j \<longrightarrow>
              availability (out_supportedMode e a
                ((g_zViewCurrentConnectionModeIndex ?w2 + j') mod n)) \<noteq>
              ZV_MODE_AVAILABILITY_AVAILABLE"
        unfolding w2(2) using h by blast
    qed
    note l' = l [unfolded w2(2), folded eq]
    obtain xs where xs: "calls (snd (switchZviewMode e w)) = calls ?w2 @ xs"
        "mode_changes xs =
           [(a, mode (out_supportedMode e a ((g_zViewCurrentConnectionModeIndex w + j) mod n)))]"
      using l' [THEN conjunct2, THEN conjunct2] by blast
    have m: "mode_changes (issued (switchZviewMode e) w) =
              [(a, mode (out_supportedMode e a
                           ((g_zViewCurrentConnectionModeIndex w + j) mod n)))]"
      by (simp add: issued_def xs w2(3))
    show ?thesis
      by (rule conjI [OF l' [THEN conjunct2, THEN conjunct1] conjI [OF m l' [THEN conjunct1]]])
  qed
  have none: "mode_changes (issued (switchZviewMode e) w) = [] \<and> fst (switchZviewMode e w)"
    if h: "\<forall>i. 0 \<le> i \<and> i < n \<longrightarrow>
              availability (out_supportedMode e a i) \<noteq> ZV_MODE_AVAILABILITY_AVAILABLE"
  proof -
    have l: "fst (switchZviewMode_loop e n 0 ?w2)
       \<and> g_zViewCurrentConnectionModeIndex (snd (switchZviewMode_loop e n 0 ?w2)) =
           (if 0 < n then (g_zViewCurrentConnectionModeIndex ?w2 + (n - 0)) mod n
            else g_zViewCurrentConnectionModeIndex ?w2)
       \<and> (\<exists>xs. calls (snd (switchZviewMode_loop e n 0 ?w2)) = calls ?w2 @ xs \<and>
                mode_changes xs = [])"
    proof (rule switch_loop_none [OF w2(1) i2 _ _ assms(8)])
      show "(0::int) \<le> 0" by simp
      show "\<forall>j. 1 \<le> j \<and> j \<le> n - 0 \<longrightarrow>
              availability (out_supportedMode e a
                ((g_zViewCurrentConnectionModeIndex ?w2 + j) mod n)) \<noteq>
              ZV_MODE_AVAILABILITY_AVAILABLE"
      proof (intro allI impI)
        fix j :: int
        assume "1 \<le> j \<and> j \<le> n - 0"
        then have "0 < n" by simp
        then have "0 \<le> (g_zViewCurrentConnectionModeIndex ?w2 + j) mod n \<and>
                   (g_zViewCurrentConnectionModeIndex ?w2 + j) mod n < n"
          by simp
        with h show "availability (out_supportedMode e a
                ((g_zViewCurrentConnectionModeIndex ?w2 + j) mod n)) \<noteq>
              ZV_MODE_AVAILABILITY_AVAILABLE"
          by blast
      qed
    qed
    note l' = l [folded eq]
    obtain xs where xs: "calls (snd (switchZviewMode e w)) = calls ?w2 @ xs"
        "mode_changes xs = []"
      using l' [THEN conjunct2, THEN conjunct2] by blast
    have m: "mode_changes (issued (switchZviewMode e) w) = []"
      by (simp add: issued_def xs w2(3))
    show ?thesis
      by (rule conjI [OF m l' [THEN conjunct1]])
  qed
  show ?thesis
    by (intro conjI allI impI) (rule found [THEN conjunct1] found [THEN conjunct2, THEN conjunct1]
        found [THEN conjunct2, THEN conjunct2] none [THEN conjunct1] none [THEN conjunct2];
        assumption)+
qed

theorem switch_mode_next_available_witness:
  "g_zViewActiveConnection standard_streaming = 5
   \<and> out_connectionState env_one_available 5 = ZV_CONNECTION_STATE_MODE_ACTIVE
   \<and> out_numSupportedModes env_one_available 5 = 3
   \<and> g_zViewCurrentConnectionModeIndex standard_streaming = 0
   \<and> g_zViewCurrentConnectionModeIndex
       (snd (switchZviewMode env_one_available standard_streaming)) = 0
   \<and> mode_changes (issued (switchZviewMode env_one_available) standard_streaming) = [(5, 1)]
   \<and> fst (switchZviewMode env_one_available standard_streaming)
   \<and> g_zViewCurrentConnectionModeIndex (snd (switchZviewMode env_ok standard_streaming)) = 1
   \<and> mode_changes (issued (switchZviewMode env_ok) standard_streaming) = [(5, 2)]
   \<and> mode_changes (issued (switchZviewMode env_none_available) standard_streaming) = []
   \<and> fst (switchZviewMode env_none_available standard_streaming)"
proof -
  have w: "g_zViewActiveConnection standard_streaming = 5" "(5 :: nat) \<noteq> NULL"
      "0 \<le> g_zViewCurrentConnectionModeIndex standard_streaming"
      "g_zViewCurrentConnectionModeIndex standard_streaming = 0"
    by (simp_all add: standard_streaming_def standard_active_def initialized_def world0_def)
  have e1: "zvError env_one_available (ZvGetConnectionState 5) = ZV_ERROR_OK"
      "out_connectionState env_one_available 5 = ZV_CONNECTION_STATE_NO_MODE \<or>
       out_connectionState env_one_available 5 = ZV_CONNECTION_STATE_MODE_ACTIVE"
      "zvError env_one_available (ZvGetNumConnectionSupportedModes 5) = ZV_ERROR_OK"
      "out_numSupportedModes env_one_available 5 = 3"
      "\<forall>i. 0 \<le> i \<and> i < 3 \<longrightarrow>
         zvError env_one_available (ZvGetConnectionSupportedMode 5 i) = ZV_ERROR_OK"
      "out_connectionState env_one_available 5 = ZV_CONNECTION_STATE_MODE_ACTIVE"
    by (simp_all add: env_one_available_def env_ok_def)
  have e2: "zvError env_ok (ZvGetConnectionState 5) = ZV_ERROR_OK"
      "out_connectionState env_ok 5 = ZV_CONNECTION_STATE_NO_MODE \<or>
       out_connectionState env_ok 5 = ZV_CONNECTION_STATE_MODE_ACTIVE"
      "zvError env_ok (ZvGetNumConnectionSupportedModes 5) = ZV_ERROR_OK"
      "out_numSupportedModes env_ok 5 = 2"
      "\<forall>i. 0 \<le> i \<and> i < 2 \<longrightarrow>
         zvError env_ok (ZvGetConnectionSupportedMode 5 i) = ZV_ERROR_OK"
    by (simp_all add: env_ok_def)
  have e3: "zvError env_none_available (ZvGetConnectionState 5) = ZV_ERROR_OK"
      "out_connectionState env_none_available 5 = ZV_CONNECTION_STATE_NO_MODE \<or>
       out_connectionState env_none_available 5 = ZV_CONNECTION_STATE_MODE_ACTIVE"
      "zvError env_none_available (ZvGetNumConnectionSupportedModes 5) = ZV_ERROR_OK"
      "out_numSupportedModes env_none_available 5 = 2"
      "\<forall>i. 0 \<le> i \<and> i < 2 \<longrightarrow>
         zvError env_none_available (ZvGetConnectionSupportedMode 5 i) = ZV_ERROR_OK"
    by (simp_all add: env_none_available_def env_ok_def)
  note t1 = switch_mode_next_available [OF w(1,2) e1(1,2,3,4) w(3) e1(5)]
  note t2 = switch_mode_next_available [OF w(1,2) e2(1,2,3,4) w(3) e2(5)]
  note t3 = switch_mode_next_available [OF w(1,2) e3(1,2,3,4) w(3) e3(5)]
  have two: "j' = 1 \<or> j' = 2" if "1 \<le> j' \<and> j' < 3" for j' :: int
    using that by presburger
  have a: "g_zViewCurrentConnectionModeIndex
             (snd (switchZviewMode env_one_available standard_streaming)) =
              (g_zViewCurrentConnectionModeIndex standard_streaming + 3) mod 3
          \<and> mode_changes (issued (switchZviewMode env_one_available) standard_streaming) =
              [(5, mode (out_supportedMode env_one_available 5
                           ((g_zViewCurrentConnectionModeIndex standard_streaming + 3) mod 3)))]
          \<and> fst (switchZviewMode env_one_available standard_streaming) =
              (zvError env_one_available (ZvSetConnectionMode 5
                 (mode (out_supportedMode env_one_available 5
                          ((g_zViewCurrentConnectionModeIndex standard_streaming + 3) mod 3)))) =
               ZV_ERROR_OK)"
  proof (rule t1 [THEN conjunct1, THEN spec, THEN mp], intro conjI allI impI)
    fix j' :: int
    assume "1 \<le> j' \<and> j' < 3"
    then have "j' = 1 \<or> j' = 2" by (rule two)
    then show "availability (out_supportedMode env_one_available 5
                 ((g_zViewCurrentConnectionModeIndex standard_streaming + j') mod 3)) \<noteq>
               ZV_MODE_AVAILABILITY_AVAILABLE"
      by (auto simp add: w(4) env_one_available_def)
  qed (simp_all add: w(4) env_one_available_def)
  have b: "g_zViewCurrentConnectionModeIndex (snd (switchZviewMode env_ok standard_streaming)) =
              (g_zViewCurrentConnectionModeIndex standard_streaming + 1) mod 2
          \<and> mode_changes (issued (switchZviewMode env_ok) standard_streaming) =
              [(5, mode (out_supportedMode env_ok 5
                           ((g_zViewCurrentConnectionModeIndex standard_streaming + 1) mod 2)))]
          \<and> fst (switchZviewMode env_ok standard_streaming) =
              (zvError env_ok (ZvSetConnectionMode 5
                 (mode (out_supportedMode env_ok 5
                          ((g_zViewCurrentConnectionModeIndex standard_streaming + 1) mod 2)))) =
               ZV_ERROR_OK)"
    by (rule t2 [THEN conjunct1, THEN spec, THEN mp]) (simp add: w(4) env_ok_def)
  have c: "mode_changes (issued (switchZviewMode env_none_available) standard_streaming) = []
          \<and> fst (switchZviewMode env_none_available standard_streaming)"
    by (rule t3 [THEN conjunct2, THEN mp]) (simp add: env_none_available_def)
  have a': "g_zViewCurrentConnectionModeIndex
             (snd (switchZviewMode env_one_available standard_streaming)) = 0"
      "mode_changes (issued (switchZviewMode env_one_available) standard_streaming) = [(5, 1)]"
      "fst (switchZviewMode env_one_available standard_streaming)"
    using a by (simp_all add: w(4) env_one_available_def env_ok_def)
  have b': "g_zViewCurrentConnectionModeIndex (snd (switchZviewMode env_ok standard_streaming)) = 1"
      "mode_changes (issued (switchZviewMode env_ok) standard_streaming) = [(5, 2)]"
    using b by (simp_all add: w(4) env_ok_def)
  show ?thesis
    by (intro conjI) (rule w(1) e1(6) e1(4) w(4) a' b' c [THEN conjunct1] c [THEN conjunct2])+
qed

section \<open>What tear-down and set-up leave alone\<close>

lemma quiet_simps [simp]:
  "quiet (ZvUpdateConnection a0)"
  "quiet (ZvGetConnectionState a1)"
  "\<not> quiet (ZvAcceptConnection a2)"
  "\<not> quiet (ZvCloseConnection a3 b3 c3 d3)"
  "quiet (ZvDestroyConnection a4)"
  "quiet (ZvSetNodeStatus a5 b5)"
  "quiet (ZvGetConnectionMode a6)"
  "\<not> quiet (ZvSetConnectionMode a7 b7)"
  "quiet (ZvGetConnectionModeSetupPhase a8)"
  "quiet (ZvCompleteModeSetupPhase a9 b9)"
  "quiet (ZvGetNumConnectionSupportedModes a10)"
  "quiet (ZvGetConnectionSupportedMode a11 b11)"
  "\<not> quiet (ZvBeginSettingsBatch a12)"
  "\<not> quiet (ZvEndSettingsBatch a13)"
  "\<not> quiet (ZvSetSettingU16 a14 b14 c14)"
  "quiet (ZvGetSettingU16 a15 b15)"
  "\<not> quiet (ZvSetSettingF32 a16 b16 c16)"
  "quiet (ZvGetSettingF32 a17 b17)"
  "quiet (ZvGetVideoRecordingState a18)"
  "quiet (ZvGetVideoRecordingError a19)"
  "quiet (ZvClearVideoRecordingError a20)"
  "quiet (ZvGetNextFrameToSend a21)"
  "quiet (ZvReceiveFrame a22)"
  "quiet (ZvReleaseReceivedFrame a23)"
  "quiet (ZvSetFrameDataU64 a24 b24 c24)"
  "quiet (ZvGetFrameDataU64 a25 b25)"
  "quiet (ZvGetFrameDataM4 a26 b26)"
  "quiet (ZvGetFrameDataF32 a27 b27)"
  "quiet (ZvGetFrameBuffer a28)"
  "quiet (ZvSendFrame a29)"
  "quiet ZcCreateViewport"
  "quiet (ZcDestroyViewport a31)"
  "quiet (ZcGetFrustum a32)"
  "quiet (ZcSetViewportPosition a33)"
  "quiet (ZcSetViewportSize a34 b34 c34)"
  "quiet (ZcGetFrustumViewMatrix a35)"
  "quiet (ZcGetFrustumProjectionMatrix a36)"
  "quiet (GlGen a37)"
  "quiet (GlDelete a38 b38)"
  "quiet (GlGetTexImage a39 b39)"
  "quiet (PrintLog a40)"
  by (simp_all add: quiet_def)

lemma issued_ext:
  assumes "calls (snd (f w)) = calls w @ xs"
  shows "issued f w = xs"
  using assms by (simp add: issued_def)

lemma quiet_deleted [simp]: "list_all quiet (deleted obj i)"
  by (simp add: deleted_def)

lemma tearDownAR_issued: "issued tearDownZviewAugmentedRealityMode w = ar_deleted w"
  by (rule issued_ext) (simp add: tearDownAR_eq)

lemma tearDownAR_calls:
  "calls (snd (tearDownZviewAugmentedRealityMode w)) =
     calls w @ issued tearDownZviewAugmentedRealityMode w"
  by (simp add: tearDownAR_issued) (simp add: tearDownAR_eq)

lemma tearDownAR_quiet: "list_all quiet (issued tearDownZviewAugmentedRealityMode w)"
  by (simp add: tearDownAR_issued ar_deleted_def)

lemma tearDownAR_kept [simp]:
  "g_zViewActiveConnection (snd (tearDownZviewAugmentedRealityMode w)) = g_zViewActiveConnection w"
  "g_zViewContext (snd (tearDownZviewAugmentedRealityMode w)) = g_zViewContext w"
  "g_zViewStandardMode (snd (tearDownZviewAugmentedRealityMode w)) = g_zViewStandardMode w"
  "g_zViewAugmentedRealityMode (snd (tearDownZviewAugmentedRealityMode w)) = g_zViewAugmentedRealityMode w"
  "g_windowWidth (snd (tearDownZviewAugmentedRealityMode w)) = g_windowWidth w"
  "g_windowHeight (snd (tearDownZviewAugmentedRealityMode w)) = g_windowHeight w"
  "g_zViewVideoRecordingLatestState (snd (tearDownZviewAugmentedRealityMode w)) = g_zViewVideoRecordingLatestState w"
  "g_zViewCurrentConnectionModeIndex (snd (tearDownZviewAugmentedRealityMode w)) = g_zViewCurrentConnectionModeIndex w"
  "g_zViewStandardModeFrameNumber (snd (tearDownZviewAugmentedRealityMode w)) = g_zViewStandardModeFrameNumber w"
  "g_zViewStandardModeImageWidth (snd (tearDownZviewAugmentedRealityMode w)) = g_zViewStandardModeImageWidth w"
  "g_zViewStandardModeImageHeight (snd (tearDownZviewAugmentedRealityMode w)) = g_zViewStandardModeImageHeight w"
  "g_zViewLatestActiveConnectionMode (snd (tearDownZviewAugmentedRealityMode w)) = g_zViewLatestActiveConnectionMode w"
  by (simp_all add: tearDownAR_eq)

lemma tearDownStd_issued:
  "issued (tearDownZviewStandardMode e) w =
     (if g_zViewStandardModeViewportHandle w \<noteq> NULL \<and>
         zcError e (ZcDestroyViewport (g_zViewStandardModeViewportHandle w)) \<noteq> ZC_ERROR_OK
      then [ZcDestroyViewport (g_zViewStandardModeViewportHandle w)]
      else std_deleted w)"
  by (rule issued_ext) (simp add: tearDownStd_eq)

lemma tearDownStd_calls:
  "calls (snd (tearDownZviewStandardMode e w)) = calls w @ issued (tearDownZviewStandardMode e) w"
  by (simp add: tearDownStd_issued) (simp add: tearDownStd_eq)

lemma tearDownStd_quiet: "list_all quiet (issued (tearDownZviewStandardMode e) w)"
  by (simp add: tearDownStd_issued std_deleted_def)

lemma tearDownStd_kept [simp]:
  "g_zViewActiveConnection (snd (tearDownZviewStandardMode e w)) = g_zViewActiveConnection w"
  "g_zViewContext (snd (tearDownZviewStandardMode e w)) = g_zViewContext w"
  "g_zViewStandardMode (snd (tearDownZviewStandardMode e w)) = g_zViewStandardMode w"
  "g_zViewAugmentedRealityMode (snd (tearDownZviewStandardMode e w)) = g_zViewAugmentedRealityMode w"
  "g_windowWidth (snd (tearDownZviewStandardMode e w)) = g_windowWidth w"
  "g_windowHeight (snd (tearDownZviewStandardMode e w)) = g_windowHeight w"
  "g_zViewVideoRecordingLatestState (snd (tearDownZviewStandardMode e w)) = g_zViewVideoRecordingLatestState w"
  "g_zViewCurrentConnectionModeIndex (snd (tearDownZviewStandardMode e w)) = g_zViewCurrentConnectionModeIndex w"
  "g_zViewStandardModeFrameNumber (snd (tearDownZviewStandardMode e w)) = g_zViewStandardModeFrameNumber w"
  "g_zViewStandardModeImageWidth (snd (tearDownZviewStandardMode e w)) = g_zViewStandardModeImageWidth w"
  "g_zViewStandardModeImageHeight (snd (tearDownZviewStandardMode e w)) = g_zViewStandardModeImageHeight w"
  "g_zViewLatestActiveConnectionMode (snd (tearDownZviewStandardMode e w)) = g_zViewLatestActiveConnectionMode w"
  by (simp_all add: tearDownStd_eq)

lemma tearDownMode_calls:
  "calls (snd (tearDownZviewMode e w)) = calls w @ issued (tearDownZviewMode e) w"
  unfolding issued_def
  by (simp add: tearDownMode_eq tearDownStd_calls tearDownAR_calls)

lemma tearDownMode_quiet: "list_all quiet (issued (tearDownZviewMode e) w)"
  unfolding issued_def
  by (simp add: tearDownMode_eq tearDownStd_calls tearDownAR_calls tearDownStd_quiet
        tearDownAR_quiet)

lemma tearDownMode_kept [simp]:
  "g_zViewActiveConnection (snd (tearDownZviewMode e w)) = g_zViewActiveConnection w"
  "g_zViewContext (snd (tearDownZviewMode e w)) = g_zViewContext w"
  "g_zViewStandardMode (snd (tearDownZviewMode e w)) = g_zViewStandardMode w"
  "g_zViewAugmentedRealityMode (snd (tearDownZviewMode e w)) = g_zViewAugmentedRealityMode w"
  "g_windowWidth (snd (tearDownZviewMode e w)) = g_windowWidth w"
  "g_windowHeight (snd (tearDownZviewMode e w)) = g_windowHeight w"
  "g_zViewVideoRecordingLatestState (snd (tearDownZviewMode e w)) = g_zViewVideoRecordingLatestState w"
  "g_zViewCurrentConnectionModeIndex (snd (tearDownZviewMode e w)) = g_zViewCurrentConnectionModeIndex w"
  "g_zViewStandardModeFrameNumber (snd (tearDownZviewMode e w)) = g_zViewStandardModeFrameNumber w"
  "g_zViewStandardModeImageWidth (snd (tearDownZviewMode e w)) = g_zViewStandardModeImageWidth w"
  "g_zViewStandardModeImageHeight (snd (tearDownZviewMode e w)) = g_zViewStandardModeImageHeight w"
  by (simp_all add: tearDownMode_eq)

lemma setUpStd_calls:
  "calls (snd (setUpZviewStandardMode e c w)) = calls w @ issued (setUpZviewStandardMode e c) w"
  unfolding issued_def
  by (simp add: setUpZviewStandardMode_def sub_def zc_def Let_def tearDownStd_calls)

lemma setUpStd_quiet: "list_all quiet (issued (setUpZviewStandardMode e c) w)"
  unfolding issued_def
  by (simp add: setUpZviewStandardMode_def sub_def zc_def Let_def tearDownStd_calls
        tearDownStd_quiet)

lemma setUpStd_kept [simp]:
  "g_zViewActiveConnection (snd (setUpZviewStandardMode e c w)) = g_zViewActiveConnection w"
  "g_zViewContext (snd (setUpZviewStandardMode e c w)) = g_zViewContext w"
  "g_zViewStandardMode (snd (setUpZviewStandardMode e c w)) = g_zViewStandardMode w"
  "g_zViewAugmentedRealityMode (snd (setUpZviewStandardMode e c w)) = g_zViewAugmentedRealityMode w"
  "g_windowWidth (snd (setUpZviewStandardMode e c w)) = g_windowWidth w"
  "g_windowHeight (snd (setUpZviewStandardMode e c w)) = g_windowHeight w"
  "g_zViewVideoRecordingLatestState (snd (setUpZviewStandardMode e c w)) = g_zViewVideoRecordingLatestState w"
  "g_zViewCurrentConnectionModeIndex (snd (setUpZviewStandardMode e c w)) = g_zViewCurrentConnectionModeIndex w"
  "g_zViewStandardModeImageWidth (snd (setUpZviewStandardMode e c w)) = g_zViewStandardModeImageWidth w"
  "g_zViewStandardModeImageHeight (snd (setUpZviewStandardMode e c w)) = g_zViewStandardModeImageHeight w"
  "g_zViewLatestActiveConnectionMode (snd (setUpZviewStandardMode e c w)) = g_zViewLatestActiveConnectionMode w"
  by (simp_all add: setUpZviewStandardMode_def sub_def zc_def Let_def)

lemma setUpStd_counter:
  "g_zViewStandardModeFrameNumber (snd (setUpZviewStandardMode e c w)) =
     (if fst (setUpZviewStandardMode e c w) then 0 else g_zViewStandardModeFrameNumber w)"
  by (simp add: setUpZviewStandardMode_def sub_def zc_def Let_def)

lemma setUpAR_calls:
  "calls (snd (setUpZviewAugmentedRealityMode e c w)) =
     calls w @ issued (setUpZviewAugmentedRealityMode e c) w"
  unfolding issued_def
  by (simp add: setUpZviewAugmentedRealityMode_def sub_def zv_def Let_def tearDownAR_calls)

lemma setUpAR_quiet: "list_all quiet (issued (setUpZviewAugmentedRealityMode e c) w)"
  unfolding issued_def
  by (simp add: setUpZviewAugmentedRealityMode_def sub_def zv_def Let_def tearDownAR_calls
        tearDownAR_quiet)

lemma setUpAR_kept [simp]:
  "g_zViewActiveConnection (snd (setUpZviewAugmentedRealityMode e c w)) = g_zViewActiveConnection w"
  "g_zViewContext (snd (setUpZviewAugmentedRealityMode e c w)) = g_zViewContext w"
  "g_zViewStandardMode (snd (setUpZviewAugmentedRealityMode e c w)) = g_zViewStandardMode w"
  "g_zViewAugmentedRealityMode (snd (setUpZviewAugmentedRealityMode e c w)) = g_zViewAugmentedRealityMode w"
  "g_windowWidth (snd (setUpZviewAugmentedRealityMode e c w)) = g_windowWidth w"
  "g_windowHeight (snd (setUpZviewAugmentedRealityMode e c w)) = g_windowHeight w"
  "g_zViewVideoRecordingLatestState (snd (setUpZviewAugmentedRealityMode e c w)) = g_zViewVideoRecordingLatestState w"
  "g_zViewCurrentConnectionModeIndex (snd (setUpZviewAugmentedRealityMode e c w)) = g_zViewCurrentConnectionModeIndex w"
  "g_zViewStandardModeFrameNumber (snd (setUpZviewAugmentedRealityMode e c w)) = g_zViewStandardModeFrameNumber w"
  "g_zViewStandardModeImageWidth (snd (setUpZviewAugmentedRealityMode e c w)) = g_zViewStandardModeImageWidth w"
  "g_zViewStandardModeImageHeight (snd (setUpZviewAugmentedRealityMode e c w)) = g_zViewStandardModeImageHeight w"
  "g_zViewLatestActiveConnectionMode (snd (setUpZviewAugmentedRealityMode e c w)) = g_zViewLatestActiveConnectionMode w"
  by (simp_all add: setUpZviewAugmentedRealityMode_def sub_def zv_def Let_def)

lemma setUpZviewMode_stages:
  "setUpZviewMode e c w =
     zv e (ZvGetConnectionMode c) w (\<lambda>w.
     zv e (ZvGetConnectionModeSetupPhase c) (mode_switch_teardown e (out_connectionMode e c) w)
       (\<lambda>w.
     if out_isAwaitingCompletion e c then (True, w)
     else (case out_modeSetupPhase e c of
             ZV_MODE_SETUP_PHASE_INITIALIZATION \<Rightarrow>
               setUp_initialization e c (out_connectionMode e c) w
           | ZV_MODE_SETUP_PHASE_COMPLETION \<Rightarrow>
               setUp_completion e c (out_connectionMode e c) w)))"
  by (simp only: setUpZviewMode_def Let_def mode_switch_teardown_def setUp_initialization_def
        setUp_completion_def)

lemma quiet_filter:
  assumes "list_all quiet xs"
  shows "filter (\<lambda>c. \<not> quiet c) xs = []"
  using assms by (simp add: filter_empty_conv list_all_iff)

lemma mode_switch_teardown_kept [simp]:
  "g_zViewActiveConnection (mode_switch_teardown e m w) = g_zViewActiveConnection w"
  "g_zViewContext (mode_switch_teardown e m w) = g_zViewContext w"
  "g_zViewStandardMode (mode_switch_teardown e m w) = g_zViewStandardMode w"
  "g_zViewAugmentedRealityMode (mode_switch_teardown e m w) = g_zViewAugmentedRealityMode w"
  "g_windowWidth (mode_switch_teardown e m w) = g_windowWidth w"
  "g_windowHeight (mode_switch_teardown e m w) = g_windowHeight w"
  "g_zViewVideoRecordingLatestState (mode_switch_teardown e m w) = g_zViewVideoRecordingLatestState w"
  "g_zViewCurrentConnectionModeIndex (mode_switch_teardown e m w) = g_zViewCurrentConnectionModeIndex w"
  "g_zViewStandardModeFrameNumber (mode_switch_teardown e m w) = g_zViewStandardModeFrameNumber w"
  "g_zViewStandardModeImageWidth (mode_switch_teardown e m w) = g_zViewStandardModeImageWidth w"
  "g_zViewStandardModeImageHeight (mode_switch_teardown e m w) = g_zViewStandardModeImageHeight w"
  by (simp_all add: mode_switch_teardown_def)

lemma mode_switch_teardown_calls:
  "calls (mode_switch_teardown e m w) =
     calls w @ (if m \<noteq> g_zViewLatestActiveConnectionMode w
                then issued (tearDownZviewMode e) w else [])"
  by (simp add: mode_switch_teardown_def tearDownMode_calls)

lemma setUp_initialization_calls:
  "calls (snd (setUp_initialization e c m w)) = calls w @ issued (setUp_initialization e c m) w"
  unfolding issued_def
  by (simp add: setUp_initialization_def zv_def)

lemma setUp_initialization_kept [simp]:
  "g_zViewActiveConnection (snd (setUp_initialization e c m w)) = g_zViewActiveConnection w"
  "g_zViewContext (snd (setUp_initialization e c m w)) = g_zViewContext w"
  "g_zViewStandardMode (snd (setUp_initialization e c m w)) = g_zViewStandardMode w"
  "g_zViewAugmentedRealityMode (snd (setUp_initialization e c m w)) = g_zViewAugmentedRealityMode w"
  "g_windowWidth (snd (setUp_initialization e c m w)) = g_windowWidth w"
  "g_windowHeight (snd (setUp_initialization e c m w)) = g_windowHeight w"
  "g_zViewVideoRecordingLatestState (snd (setUp_initialization e c m w)) = g_zViewVideoRecordingLatestState w"
  "g_zViewCurrentConnectionModeIndex (snd (setUp_initialization e c m w)) = g_zViewCurrentConnectionModeIndex w"
  "g_zViewStandardModeFrameNumber (snd (setUp_initialization e c m w)) = g_zViewStandardModeFrameNumber w"
  "g_zViewLatestActiveConnectionMode (snd (setUp_initialization e c m w)) = g_zViewLatestActiveConnectionMode w"
  by (simp_all add: setUp_initialization_def zv_def)

lemma setUp_initialization_loud:
  "filter (\<lambda>c. \<not> quiet c) (issued (setUp_initialization e c m) w) =
     (if m \<noteq> g_zViewStandardMode w then []
      else if zvError e (ZvBeginSettingsBatch c) \<noteq> ZV_ERROR_OK then [ZvBeginSettingsBatch c]
      else if zvError e (ZvSetSettingU16 c ZV_SETTING_KEY_IMAGE_WIDTH
                           (word_of_int (g_windowWidth w))) \<noteq> ZV_ERROR_OK
      then [ZvBeginSettingsBatch c,
            ZvSetSettingU16 c ZV_SETTING_KEY_IMAGE_WIDTH (word_of_int (g_windowWidth w))]
      else if zvError e (ZvSetSettingU16 c ZV_SETTING_KEY_IMAGE_HEIGHT
                           (word_of_int (g_windowHeight w))) \<noteq> ZV_ERROR_OK
      then [ZvBeginSettingsBatch c,
            ZvSetSettingU16 c ZV_SETTING_KEY_IMAGE_WIDTH (word_of_int (g_windowWidth w)),
            ZvSetSettingU16 c ZV_SETTING_KEY_IMAGE_HEIGHT (word_of_int (g_windowHeight w))]
      else [ZvBeginSettingsBatch c,
            ZvSetSettingU16 c ZV_SETTING_KEY_IMAGE_WIDTH (word_of_int (g_windowWidth w)),
            ZvSetSettingU16 c ZV_SETTING_KEY_IMAGE_HEIGHT (word_of_int (g_windowHeight w)),
            ZvEndSettingsBatch c])"
  unfolding issued_def
  by (simp add: setUp_initialization_def zv_def)

lemma setUp_completion_calls:
  "calls (snd (setUp_completion e c m w)) = calls w @ issued (setUp_completion e c m) w"
  unfolding issued_def
  by (simp add: setUp_completion_def zv_def sub_def setUpStd_calls setUpAR_calls)

lemma setUp_completion_kept [simp]:
  "g_zViewActiveConnection (snd (setUp_completion e c m w)) = g_zViewActiveConnection w"
  "g_zViewContext (snd (setUp_completion e c m w)) = g_zViewContext w"
  "g_zViewStandardMode (snd (setUp_completion e c m w)) = g_zViewStandardMode w"
  "g_zViewAugmentedRealityMode (snd (setUp_completion e c m w)) = g_zViewAugmentedRealityMode w"
  "g_windowWidth (snd (setUp_completion e c m w)) = g_windowWidth w"
  "g_windowHeight (snd (setUp_completion e c m w)) = g_windowHeight w"
  "g_zViewVideoRecordingLatestState (snd (setUp_completion e c m w)) = g_zViewVideoRecordingLatestState w"
  "g_zViewCurrentConnectionModeIndex (snd (setUp_completion e c m w)) = g_zViewCurrentConnectionModeIndex w"
  "g_zViewLatestActiveConnectionMode (snd (setUp_completion e c m w)) = g_zViewLatestActiveConnectionMode w"
  by (simp_all add: setUp_completion_def zv_def sub_def)

lemma setUp_completion_quiet: "list_all quiet (issued (setUp_completion e c m) w)"
  unfolding issued_def
  by (simp add: setUp_completion_def zv_def sub_def setUpStd_calls setUpAR_calls
        setUpStd_quiet setUpAR_quiet)

lemma setUp_completion_counter:
  "g_zViewStandardModeFrameNumber (snd (setUp_completion e c m w)) =
     (if m = g_zViewStandardMode w \<and> fst (setUpZviewStandardMode e c w) then 0
      else g_zViewStandardModeFrameNumber w)"
  by (simp add: setUp_completion_def zv_def sub_def setUpStd_counter)

lemma setUp_completion_result:
  "fst (setUp_completion e c m w) =
     (if m = g_zViewStandardMode w
      then fst (setUpZviewStandardMode e c w) \<and>
           zvError e (ZvCompleteModeSetupPhase c ZV_MODE_SETUP_PHASE_COMPLETION) = ZV_ERROR_OK
      else if m = g_zViewAugmentedRealityMode w
      then fst (setUpZviewAugmentedRealityMode e c w) \<and>
           zvError e (ZvCompleteModeSetupPhase c ZV_MODE_SETUP_PHASE_COMPLETION) = ZV_ERROR_OK
      else True)"
  by (simp add: setUp_completion_def zv_def sub_def)

lemmas setUpMode_steps = setUpZviewMode_stages zv_def mode_switch_teardown_calls
  setUp_initialization_calls setUp_completion_calls

lemma setUpMode_calls:
  "calls (snd (setUpZviewMode e c w)) = calls w @ issued (setUpZviewMode e c) w"
  unfolding issued_def
  by (simp add: setUpMode_steps split: ZVModeSetupPhase.split)

lemma setUpMode_kept [simp]:
  "g_zViewActiveConnection (snd (setUpZviewMode e c w)) = g_zViewActiveConnection w"
  "g_zViewContext (snd (setUpZviewMode e c w)) = g_zViewContext w"
  "g_zViewStandardMode (snd (setUpZviewMode e c w)) = g_zViewStandardMode w"
  "g_zViewAugmentedRealityMode (snd (setUpZviewMode e c w)) = g_zViewAugmentedRealityMode w"
  "g_windowWidth (snd (setUpZviewMode e c w)) = g_windowWidth w"
  "g_windowHeight (snd (setUpZviewMode e c w)) = g_windowHeight w"
  "g_zViewVideoRecordingLatestState (snd (setUpZviewMode e c w)) = g_zViewVideoRecordingLatestState w"
  "g_zViewCurrentConnectionModeIndex (snd (setUpZviewMode e c w)) = g_zViewCurrentConnectionModeIndex w"
  by (simp_all add: setUpZviewMode_stages zv_def split: ZVModeSetupPhase.split)

lemma setUpMode_loud:
  "filter (\<lambda>c. \<not> quiet c) (issued (setUpZviewMode e c) w) =
     (if zvError e (ZvGetConnectionMode c) = ZV_ERROR_OK \<and>
         zvError e (ZvGetConnectionModeSetupPhase c) = ZV_ERROR_OK \<and>
         \<not> out_isAwaitingCompletion e c \<and>
         out_modeSetupPhase e c = ZV_MODE_SETUP_PHASE_INITIALIZATION
      then filter (\<lambda>c. \<not> quiet c)
             (issued (setUp_initialization e c (out_connectionMode e c))
                (emit (ZvGetConnectionModeSetupPhase c)
                   (mode_switch_teardown e (out_connectionMode e c)
                      (emit (ZvGetConnectionMode c) w))))
      else [])"
  unfolding issued_def
  by (simp add: setUpMode_steps quiet_filter tearDownMode_quiet setUp_completion_quiet
        split: ZVModeSetupPhase.split)

lemma setUpMode_counter:
  assumes "zvError e (ZvGetConnectionMode c) = ZV_ERROR_OK"
    and "zvError e (ZvGetConnectionModeSetupPhase c) = ZV_ERROR_OK"
    and "\<not> out_isAwaitingCompletion e c"
    and "out_modeSetupPhase e c = ZV_MODE_SETUP_PHASE_COMPLETION"
    and "out_connectionMode e c = g_zViewStandardMode w"
    and "fst (setUpZviewMode e c w)"
  shows "g_zViewStandardModeFrameNumber (snd (setUpZviewMode e c w)) = 0"
  using assms
  by (simp add: setUpZviewMode_stages zv_def setUp_completion_counter setUp_completion_result
        split: if_splits)

lemma setUpStd_result:
  assumes "zcError e = (\<lambda>_. ZC_ERROR_OK)" and "framebufferComplete e StandardModeGlFramebuffer"
  shows "fst (setUpZviewStandardMode e c w)"
  using assms by (simp add: setUpZviewStandardMode_def sub_def zc_def Let_def tearDownStd_eq)

lemma setUpMode_completion_result:
  assumes "zvError e = (\<lambda>_. ZV_ERROR_OK)" and "zcError e = (\<lambda>_. ZC_ERROR_OK)"
    and "framebufferComplete e StandardModeGlFramebuffer"
    and "\<not> out_isAwaitingCompletion e c"
    and "out_modeSetupPhase e c = ZV_MODE_SETUP_PHASE_COMPLETION"
    and "out_connectionMode e c = g_zViewStandardMode w"
  shows "fst (setUpZviewMode e c w)"
  using assms
  by (simp add: setUpZviewMode_stages zv_def setUp_completion_result setUpStd_result)

section \<open>The frame counter after a set-up of the standard mode\<close>

text \<open>
  C10. A set-up of the standard mode that returns true leaves the frame counter at 0,
  whatever its value was before; a set-up that returns false leaves the counter as it
  was. So when \<^verbatim>\<open>setUpZviewMode\<close> runs the completion phase for a connection in
  standard mode and returns true, the counter is 0 afterwards, and the frames
  transmitted by the ticks of the frame pump that follow, in standard mode, carry the
  tags 0, 1, 2, ... : the tags start again at 0 with every completed set-up and do not
  continue the sequence of the activation before.
\<close>

theorem standard_setup_resets_counter:
  "g_zViewStandardModeFrameNumber (snd (setUpZviewStandardMode e c w)) =
     (if fst (setUpZviewStandardMode e c w) then 0 else g_zViewStandardModeFrameNumber w)
   \<and> (zvError e (ZvGetConnectionMode c) = ZV_ERROR_OK \<and>
      zvError e (ZvGetConnectionModeSetupPhase c) = ZV_ERROR_OK \<and>
      \<not> out_isAwaitingCompletion e c \<and>
      out_modeSetupPhase e c = ZV_MODE_SETUP_PHASE_COMPLETION \<and>
      out_connectionMode e c = g_zViewStandardMode w \<and>
      fst (setUpZviewMode e c w) \<longrightarrow>
        g_zViewStandardModeFrameNumber (snd (setUpZviewMode e c w)) = 0 \<and>
        ((\<forall>e' \<in> set es.
            out_connectionMode e' (g_zViewActiveConnection w) = g_zViewStandardMode w) \<longrightarrow>
         (\<forall>i < length (drawZviews es (snd (setUpZviewMode e c w))).
            snd (drawZviews es (snd (setUpZviewMode e c w)) ! i) = Some (of_nat i))))"
proof -
  let ?w = "snd (setUpZviewMode e c w)"
  have B: "g_zViewStandardModeFrameNumber ?w = 0 \<and>
        ((\<forall>e' \<in> set es.
            out_connectionMode e' (g_zViewActiveConnection w) = g_zViewStandardMode w) \<longrightarrow>
         (\<forall>i < length (drawZviews es ?w). snd (drawZviews es ?w ! i) = Some (of_nat i)))"
    if h: "zvError e (ZvGetConnectionMode c) = ZV_ERROR_OK \<and>
      zvError e (ZvGetConnectionModeSetupPhase c) = ZV_ERROR_OK \<and>
      \<not> out_isAwaitingCompletion e c \<and>
      out_modeSetupPhase e c = ZV_MODE_SETUP_PHASE_COMPLETION \<and>
      out_connectionMode e c = g_zViewStandardMode w \<and>
      fst (setUpZviewMode e c w)"
  proof -
    have z: "g_zViewStandardModeFrameNumber ?w = 0"
      by (rule setUpMode_counter) (use h in blast)+
    have d: "\<forall>i < length (drawZviews es ?w). snd (drawZviews es ?w ! i) = Some (of_nat i)"
      if m: "\<forall>e' \<in> set es.
               out_connectionMode e' (g_zViewActiveConnection w) = g_zViewStandardMode w"
    proof -
      have "\<forall>e' \<in> set es.
               out_connectionMode e' (g_zViewActiveConnection ?w) = g_zViewStandardMode ?w"
        using m by simp
      from drawZviews_standard [OF this, THEN conjunct1] show ?thesis
        by (simp add: z)
    qed
    from z d show ?thesis by blast
  qed
  from setUpStd_counter [of e c w] B show ?thesis by blast
qed

theorem standard_setup_resets_counter_witness:
  "g_zViewStandardModeFrameNumber standard_streaming = 7
   \<and> fst (setUpZviewMode env_completion 5 standard_streaming)
   \<and> g_zViewStandardModeFrameNumber (snd (setUpZviewMode env_completion 5 standard_streaming)) = 0
   \<and> drawZviews [env_ok] (snd (setUpZviewMode env_completion 5 standard_streaming)) =
       [(11, Some 0)]"
proof -
  let ?w = "snd (setUpZviewMode env_completion 5 standard_streaming)"
  have f: "g_zViewContext standard_streaming = 1" "g_zViewActiveConnection standard_streaming = 5"
    "g_zViewStandardMode standard_streaming = 1"
    "g_zViewStandardModeFrameNumber standard_streaming = 7"
    by (simp_all add: standard_streaming_def standard_active_def initialized_def world0_def)
  have k: "zvError env_ok = (\<lambda>_. ZV_ERROR_OK)" "zcError env_ok = (\<lambda>_. ZC_ERROR_OK)"
    "out_connectionMode env_ok = (\<lambda>_. 1)"
    "out_connectionState env_ok = (\<lambda>_. ZV_CONNECTION_STATE_MODE_ACTIVE)"
    "out_nextFrameToSend env_ok = (\<lambda>_. 11)"
    and q: "zvError env_completion = (\<lambda>_. ZV_ERROR_OK)"
    "zcError env_completion = (\<lambda>_. ZC_ERROR_OK)"
    "framebufferComplete env_completion StandardModeGlFramebuffer"
    "\<not> out_isAwaitingCompletion env_completion 5"
    "out_modeSetupPhase env_completion 5 = ZV_MODE_SETUP_PHASE_COMPLETION"
    "out_connectionMode env_completion 5 = 1"
    by (simp_all add: env_completion_def env_ok_def)
  have r: "fst (setUpZviewMode env_completion 5 standard_streaming)"
    by (rule setUpMode_completion_result) (simp_all add: q f)
  note t = standard_setup_resets_counter [of env_completion 5 standard_streaming "[env_ok]",
      THEN conjunct2, THEN mp]
  have h: "zvError env_completion (ZvGetConnectionMode 5) = ZV_ERROR_OK \<and>
      zvError env_completion (ZvGetConnectionModeSetupPhase 5) = ZV_ERROR_OK \<and>
      \<not> out_isAwaitingCompletion env_completion 5 \<and>
      out_modeSetupPhase env_completion 5 = ZV_MODE_SETUP_PHASE_COMPLETION \<and>
      out_connectionMode env_completion 5 = g_zViewStandardMode standard_streaming \<and>
      fst (setUpZviewMode env_completion 5 standard_streaming)"
    using r by (simp add: q f)
  have z: "g_zViewStandardModeFrameNumber ?w = 0"
    by (rule t [OF h, THEN conjunct1])
  have "transmitted env_ok Map.empty (issued (drawZview env_ok) ?w) =
          [(out_nextFrameToSend env_ok (g_zViewActiveConnection ?w),
            Some (g_zViewStandardModeFrameNumber ?w))]"
    by (rule drawZview_standard_sent) (simp_all add: f k)
  then have d: "drawZviews [env_ok] ?w = [(11, Some 0)]"
    by (simp add: z k f)
  from f(4) r z d show ?thesis by blast
qed

section \<open>The image size is written in one batch\<close>

lemma applied_quiet:
  assumes "quiet x"
  shows "applied e x s = s"
  using assms by (cases x) (simp_all add: applied_def)

lemma views_quiet:
  "set (views e c xs s) \<subseteq>
     insert (image_size s c) (set (views e c (filter (\<lambda>x. \<not> quiet x) xs) s))"
proof (induction xs arbitrary: s)
  case Nil
  then show ?case by simp
next
  case (Cons x xs)
  show ?case
  proof (cases "quiet x")
    case True
    with Cons.IH [of s] show ?thesis by (simp add: applied_quiet)
  next
    case False
    with Cons.IH [of "applied e x s"] show ?thesis by auto
  qed
qed

lemma batch_views:
  "set (views e c (attempted e (image_size_batch c wv hv)) s) \<subseteq> {image_size s c, (wv, hv)}"
  by (simp add: image_size_batch_def applied_def image_size_def commit_def)

lemma setUpMode_settings_calls:
  "filter (\<lambda>x. \<not> quiet x) (issued (setUpZviewMode e c) w) =
     (if zvError e (ZvGetConnectionMode c) = ZV_ERROR_OK \<and>
         zvError e (ZvGetConnectionModeSetupPhase c) = ZV_ERROR_OK \<and>
         \<not> out_isAwaitingCompletion e c \<and>
         out_modeSetupPhase e c = ZV_MODE_SETUP_PHASE_INITIALIZATION \<and>
         out_connectionMode e c = g_zViewStandardMode w
      then attempted e (image_size_batch c (word_of_int (g_windowWidth w))
                          (word_of_int (g_windowHeight w)))
      else [])"
  by (simp add: setUpMode_loud setUp_initialization_loud image_size_batch_def)

lemma handleRes_settings_calls:
  "issued (handleZviewStandardModeImageResolutionChange e) w =
     (if g_zViewActiveConnection w = NULL \<or>
         uint (g_zViewStandardModeImageWidth w) = g_windowWidth w \<and>
         uint (g_zViewStandardModeImageHeight w) = g_windowHeight w
      then []
      else attempted e (image_size_batch (g_zViewActiveConnection w)
                          (word_of_int (g_windowWidth w)) (word_of_int (g_windowHeight w))))"
  by (simp add: issued_def handleZviewStandardModeImageResolutionChange_def zv_def
        image_size_batch_def)

lemma setUpMode_views:
  "set (views e c (issued (setUpZviewMode e c) w) s) \<subseteq>
     {image_size s c, (word_of_int (g_windowWidth w), word_of_int (g_windowHeight w))}"
proof -
  have "set (views e c (filter (\<lambda>x. \<not> quiet x) (issued (setUpZviewMode e c) w)) s) \<subseteq>
          {image_size s c, (word_of_int (g_windowWidth w), word_of_int (g_windowHeight w))}"
    unfolding setUpMode_settings_calls using batch_views [of e c _ _ s] by simp
  with views_quiet [of e c "issued (setUpZviewMode e c) w" s] show ?thesis by blast
qed

lemma handleRes_views:
  "set (views e (g_zViewActiveConnection w)
          (issued (handleZviewStandardModeImageResolutionChange e) w) s) \<subseteq>
     {image_size s (g_zViewActiveConnection w),
      (word_of_int (g_windowWidth w), word_of_int (g_windowHeight w))}"
  unfolding handleRes_settings_calls using batch_views [of e _ _ _ s] by simp

text \<open>
  C2. The calls of \<^verbatim>\<open>setUpZviewMode\<close> that write settings are exactly the calls of one
  batch, made in the initialization phase of the standard mode: begin, width, height,
  end, up to the first call the library refuses; it makes no such call otherwise. The
  calls of \<^verbatim>\<open>handleZviewStandardModeImageResolutionChange\<close> are the calls of the same
  batch for the active connection, when the window size differs from the image size, and
  none otherwise. So the two writes are only ever made after the begin of a batch and
  before its end, and after every call of either function the remote side sees either
  the image size from before the function was called or the new width together with the
  new height.
\<close>

theorem image_size_written_in_one_batch:
  "filter (\<lambda>x. \<not> quiet x) (issued (setUpZviewMode e c) w) =
     (if zvError e (ZvGetConnectionMode c) = ZV_ERROR_OK \<and>
         zvError e (ZvGetConnectionModeSetupPhase c) = ZV_ERROR_OK \<and>
         \<not> out_isAwaitingCompletion e c \<and>
         out_modeSetupPhase e c = ZV_MODE_SETUP_PHASE_INITIALIZATION \<and>
         out_connectionMode e c = g_zViewStandardMode w
      then attempted e (image_size_batch c (word_of_int (g_windowWidth w))
                          (word_of_int (g_windowHeight w)))
      else [])
   \<and> issued (handleZviewStandardModeImageResolutionChange e) w =
     (if g_zViewActiveConnection w = NULL \<or>
         uint (g_zViewStandardModeImageWidth w) = g_windowWidth w \<and>
         uint (g_zViewStandardModeImageHeight w) = g_windowHeight w
      then []
      else attempted e (image_size_batch (g_zViewActiveConnection w)
                          (word_of_int (g_windowWidth w)) (word_of_int (g_windowHeight w))))
   \<and> set (views e c (issued (setUpZviewMode e c) w) s) \<subseteq>
       {image_size s c, (word_of_int (g_windowWidth w), word_of_int (g_windowHeight w))}
   \<and> set (views e (g_zViewActiveConnection w)
            (issued (handleZviewStandardModeImageResolutionChange e) w) s) \<subseteq>
       {image_size s (g_zViewActiveConnection w),
        (word_of_int (g_windowWidth w), word_of_int (g_windowHeight w))}"
  by (rule conjI [OF setUpMode_settings_calls conjI [OF handleRes_settings_calls
        conjI [OF setUpMode_views handleRes_views]]])

theorem image_size_written_in_one_batch_witness:
  "filter (\<lambda>x. \<not> quiet x) (issued (setUpZviewMode env_ok 5) standard_streaming) =
     [ZvBeginSettingsBatch 5,
      ZvSetSettingU16 5 ZV_SETTING_KEY_IMAGE_WIDTH 1024,
      ZvSetSettingU16 5 ZV_SETTING_KEY_IMAGE_HEIGHT 768,
      ZvEndSettingsBatch 5]
   \<and> issued (handleZviewStandardModeImageResolutionChange env_ok) resized =
     [ZvBeginSettingsBatch 5,
      ZvSetSettingU16 5 ZV_SETTING_KEY_IMAGE_WIDTH 800,
      ZvSetSettingU16 5 ZV_SETTING_KEY_IMAGE_HEIGHT 600,
      ZvEndSettingsBatch 5]
   \<and> views env_ok 5 (issued (handleZviewStandardModeImageResolutionChange env_ok) resized)
       remote0 = [(0, 0), (0, 0), (0, 0), (800, 600)]"
proof -
  have f: "g_zViewActiveConnection standard_streaming = 5"
    "g_zViewStandardMode standard_streaming = 1"
    "g_windowWidth standard_streaming = 1024" "g_windowHeight standard_streaming = 768"
    by (simp_all add: standard_streaming_def standard_active_def initialized_def world0_def)
  have g: "g_zViewActiveConnection resized = 5"
    "g_windowWidth resized = 800" "g_windowHeight resized = 600"
    "g_zViewStandardModeImageWidth resized = 1024" "g_zViewStandardModeImageHeight resized = 768"
    by (simp_all add: resized_def standard_streaming_def standard_active_def initialized_def
          world0_def)
  have k: "zvError env_ok = (\<lambda>_. ZV_ERROR_OK)" "out_connectionMode env_ok = (\<lambda>_. 1)"
    "out_isAwaitingCompletion env_ok = (\<lambda>_. False)"
    "out_modeSetupPhase env_ok = (\<lambda>_. ZV_MODE_SETUP_PHASE_INITIALIZATION)"
    by (simp_all add: env_ok_def)
  note t = image_size_written_in_one_batch
    [where e = env_ok and c = 5 and w = standard_streaming and s = remote0]
  note u = image_size_written_in_one_batch
    [where e = env_ok and c = 5 and w = resized and s = remote0]
  have a: "filter (\<lambda>x. \<not> quiet x) (issued (setUpZviewMode env_ok 5) standard_streaming) =
     [ZvBeginSettingsBatch 5,
      ZvSetSettingU16 5 ZV_SETTING_KEY_IMAGE_WIDTH 1024,
      ZvSetSettingU16 5 ZV_SETTING_KEY_IMAGE_HEIGHT 768,
      ZvEndSettingsBatch 5]"
    unfolding t [THEN conjunct1] by (simp add: f k image_size_batch_def)
  have b: "issued (handleZviewStandardModeImageResolutionChange env_ok) resized =
     [ZvBeginSettingsBatch 5,
      ZvSetSettingU16 5 ZV_SETTING_KEY_IMAGE_WIDTH 800,
      ZvSetSettingU16 5 ZV_SETTING_KEY_IMAGE_HEIGHT 600,
      ZvEndSettingsBatch 5]"
    unfolding u [THEN conjunct2, THEN conjunct1] by (simp add: g k image_size_batch_def)
  have c: "views env_ok 5 (issued (handleZviewStandardModeImageResolutionChange env_ok) resized)
       remote0 = [(0, 0), (0, 0), (0, 0), (800, 600)]"
    unfolding b by (simp add: applied_def k remote0_def image_size_def commit_def)
  from a b c show ?thesis by blast
qed

section \<open>The connection state machine, step by step\<close>

lemma updateZviewConnection_stages:
  "updateZviewConnection e c w =
     zv e (ZvUpdateConnection c) w (\<lambda>w.
     zv e (ZvGetConnectionState c) w (\<lambda>w.
     sub (connection_dispatch e c (out_connectionState e c) w) (\<lambda>w.
     processZviewVideoRecording e c w)))"
  by (simp add: updateZviewConnection_def connection_dispatch_def)

lemma processNew_calls:
  "calls (snd (processNewZviewConnection e c w)) =
     calls w @ issued (processNewZviewConnection e c) w"
  unfolding issued_def by (simp add: processNewZviewConnection_def zv_def Let_def)

lemma processNew_loud:
  "filter (\<lambda>x. \<not> quiet x) (issued (processNewZviewConnection e c) w) =
     (if c = g_zViewActiveConnection w then []
      else if g_zViewActiveConnection w = NULL then [ZvAcceptConnection c]
      else [ZvCloseConnection c ZV_CONNECTION_CLOSE_ACTION_NONE
              ZV_CONNECTION_CLOSE_REASON_CONNECTION_REJECTED
              ''Maximum number of active zView connections exceeded''])"
  unfolding issued_def by (simp add: processNewZviewConnection_def zv_def Let_def)

lemma processNew_active:
  "g_zViewActiveConnection (snd (processNewZviewConnection e c w)) =
     (if g_zViewActiveConnection w = NULL \<and> zvError e (ZvAcceptConnection c) = ZV_ERROR_OK
      then c else g_zViewActiveConnection w)"
  by (auto simp add: processNewZviewConnection_def zv_def Let_def)

lemma processVideo_calls:
  "calls (snd (processZviewVideoRecording e c w)) =
     calls w @ issued (processZviewVideoRecording e c) w"
  unfolding issued_def by (simp add: processZviewVideoRecording_def zv_def sub_def Let_def)

lemma processVideo_quiet: "list_all quiet (issued (processZviewVideoRecording e c) w)"
  unfolding issued_def by (simp add: processZviewVideoRecording_def zv_def sub_def Let_def)

lemma processVideo_kept [simp]:
  "g_zViewActiveConnection (snd (processZviewVideoRecording e c w)) = g_zViewActiveConnection w"
  "g_zViewContext (snd (processZviewVideoRecording e c w)) = g_zViewContext w"
  "g_zViewStandardMode (snd (processZviewVideoRecording e c w)) = g_zViewStandardMode w"
  "g_zViewAugmentedRealityMode (snd (processZviewVideoRecording e c w)) = g_zViewAugmentedRealityMode w"
  "g_windowWidth (snd (processZviewVideoRecording e c w)) = g_windowWidth w"
  "g_windowHeight (snd (processZviewVideoRecording e c w)) = g_windowHeight w"
  by (simp_all add: processZviewVideoRecording_def zv_def sub_def Let_def)

lemmas dispatch_steps = connection_dispatch_def sub_def zv_def Let_def processNew_calls
  tearDownMode_calls setUpMode_calls

lemma dispatch_calls:
  "calls (snd (connection_dispatch e c st w)) = calls w @ issued (connection_dispatch e c st) w"
  unfolding issued_def by (cases st) (simp_all add: dispatch_steps)

lemma dispatch_loud:
  "filter (\<lambda>x. \<not> quiet x) (issued (connection_dispatch e c st) w) =
     (if st = ZV_CONNECTION_STATE_AWAITING_CONNECTION_ACCEPTANCE
      then filter (\<lambda>x. \<not> quiet x) (issued (processNewZviewConnection e c) w)
      else if st = ZV_CONNECTION_STATE_MODE_SETUP
      then filter (\<lambda>x. \<not> quiet x) (issued (setUpZviewMode e c) w)
      else [])"
  unfolding issued_def
  by (cases st) (simp_all add: dispatch_steps quiet_filter tearDownMode_quiet)

lemma dispatch_active:
  "g_zViewActiveConnection (snd (connection_dispatch e c st w)) =
     (if st = ZV_CONNECTION_STATE_AWAITING_CONNECTION_ACCEPTANCE
      then g_zViewActiveConnection (snd (processNewZviewConnection e c w))
      else if (st = ZV_CONNECTION_STATE_CLOSED \<or> st = ZV_CONNECTION_STATE_ERROR) \<and>
              c = g_zViewActiveConnection w
      then NULL
      else g_zViewActiveConnection w)"
  by (cases st) (simp_all add: connection_dispatch_def sub_def zv_def Let_def)

lemmas update_steps = updateZviewConnection_stages zv_def sub_def dispatch_calls
  processVideo_calls

lemma update_calls:
  "calls (snd (updateZviewConnection e c w)) = calls w @ issued (updateZviewConnection e c) w"
  unfolding issued_def by (simp add: update_steps)

lemma update_loud:
  "filter (\<lambda>x. \<not> quiet x) (issued (updateZviewConnection e c) w) =
     (if zvError e (ZvUpdateConnection c) = ZV_ERROR_OK \<and>
         zvError e (ZvGetConnectionState c) = ZV_ERROR_OK
      then filter (\<lambda>x. \<not> quiet x)
             (issued (connection_dispatch e c (out_connectionState e c))
                (emit (ZvGetConnectionState c) (emit (ZvUpdateConnection c) w)))
      else [])"
  unfolding issued_def
  by (simp add: update_steps quiet_filter processVideo_quiet)

lemma update_active:
  "g_zViewActiveConnection (snd (updateZviewConnection e c w)) =
     (if zvError e (ZvUpdateConnection c) = ZV_ERROR_OK \<and>
         zvError e (ZvGetConnectionState c) = ZV_ERROR_OK
      then g_zViewActiveConnection
             (snd (connection_dispatch e c (out_connectionState e c)
                     (emit (ZvGetConnectionState c) (emit (ZvUpdateConnection c) w))))
      else g_zViewActiveConnection w)"
  by (simp add: updateZviewConnection_stages zv_def sub_def)

lemma update_settled:
  "filter (\<lambda>x. \<not> quiet x) (issued (updateZviewConnection e c) w) =
     (if zvError e (ZvUpdateConnection c) \<noteq> ZV_ERROR_OK \<or>
         zvError e (ZvGetConnectionState c) \<noteq> ZV_ERROR_OK then []
      else if out_connectionState e c = ZV_CONNECTION_STATE_AWAITING_CONNECTION_ACCEPTANCE
      then (if c = g_zViewActiveConnection w then []
            else if g_zViewActiveConnection w = NULL then [ZvAcceptConnection c]
            else [ZvCloseConnection c ZV_CONNECTION_CLOSE_ACTION_NONE
                    ZV_CONNECTION_CLOSE_REASON_CONNECTION_REJECTED
                    ''Maximum number of active zView connections exceeded''])
      else if out_connectionState e c = ZV_CONNECTION_STATE_MODE_SETUP \<and>
              zvError e (ZvGetConnectionMode c) = ZV_ERROR_OK \<and>
              zvError e (ZvGetConnectionModeSetupPhase c) = ZV_ERROR_OK \<and>
              \<not> out_isAwaitingCompletion e c \<and>
              out_modeSetupPhase e c = ZV_MODE_SETUP_PHASE_INITIALIZATION \<and>
              out_connectionMode e c = g_zViewStandardMode w
      then attempted e (image_size_batch c (word_of_int (g_windowWidth w))
                          (word_of_int (g_windowHeight w)))
      else [])"
  by (simp add: update_loud dispatch_loud processNew_loud setUpMode_settings_calls)

lemma update_pointer:
  "g_zViewActiveConnection (snd (updateZviewConnection e c w)) =
     (if zvError e (ZvUpdateConnection c) \<noteq> ZV_ERROR_OK \<or>
         zvError e (ZvGetConnectionState c) \<noteq> ZV_ERROR_OK then g_zViewActiveConnection w
      else if out_connectionState e c = ZV_CONNECTION_STATE_AWAITING_CONNECTION_ACCEPTANCE
      then (if g_zViewActiveConnection w = NULL \<and>
               zvError e (ZvAcceptConnection c) = ZV_ERROR_OK
            then c else g_zViewActiveConnection w)
      else if (out_connectionState e c = ZV_CONNECTION_STATE_CLOSED \<or>
               out_connectionState e c = ZV_CONNECTION_STATE_ERROR) \<and>
              c = g_zViewActiveConnection w
      then NULL
      else g_zViewActiveConnection w)"
proof (cases "zvError e (ZvUpdateConnection c) = ZV_ERROR_OK \<and>
              zvError e (ZvGetConnectionState c) = ZV_ERROR_OK")
  case False
  then show ?thesis by (auto simp add: update_active)
next
  case True
  then show ?thesis
    by (cases "out_connectionState e c")
       (simp_all add: update_active dispatch_active processNew_active)
qed

lemma accepted_simps [simp]:
  "accepted e [] = []"
  "accepted e (xs @ ys) = accepted e xs @ accepted e ys"
  "accepted e (ZvAcceptConnection c # xs) =
     (if zvError e (ZvAcceptConnection c) = ZV_ERROR_OK then [c] else []) @ accepted e xs"
  "accepted e (ZvCloseConnection c a r m # xs) = accepted e xs"
  by (simp_all add: accepted_def)

lemma accepted_Cons: "accepted e (x # xs) = accepted e [x] @ accepted e xs"
  by (simp add: accepted_def)

lemma accepted_quiet:
  assumes "quiet x"
  shows "accepted e [x] = []"
  using assms by (cases x) (simp_all add: accepted_def)

lemma accepted_loud: "accepted e (filter (\<lambda>x. \<not> quiet x) xs) = accepted e xs"
proof (induction xs)
  case Nil
  then show ?case by simp
next
  case (Cons x xs)
  show ?case
  proof (cases "quiet x")
    case True
    have "accepted e (x # xs) = accepted e xs"
      by (subst accepted_Cons) (simp add: accepted_quiet [OF True])
    with True Cons.IH show ?thesis by simp
  next
    case False
    have "accepted e (x # filter (\<lambda>x. \<not> quiet x) xs) =
          accepted e [x] @ accepted e (filter (\<lambda>x. \<not> quiet x) xs)"
      by (rule accepted_Cons)
    also have "\<dots> = accepted e [x] @ accepted e xs"
      by (simp only: Cons.IH)
    also have "\<dots> = accepted e (x # xs)"
      by (rule accepted_Cons [symmetric])
    finally show ?thesis using False by simp
  qed
qed

lemma accepted_batch: "accepted e (attempted e (image_size_batch c wv hv)) = []"
  by (simp add: image_size_batch_def accepted_def)

lemma update_accepted:
  "accepted e (issued (updateZviewConnection e c) w) =
     (if zvError e (ZvUpdateConnection c) = ZV_ERROR_OK \<and>
         zvError e (ZvGetConnectionState c) = ZV_ERROR_OK \<and>
         out_connectionState e c = ZV_CONNECTION_STATE_AWAITING_CONNECTION_ACCEPTANCE \<and>
         c \<noteq> g_zViewActiveConnection w \<and> g_zViewActiveConnection w = NULL \<and>
         zvError e (ZvAcceptConnection c) = ZV_ERROR_OK
      then [c] else [])"
proof -
  have "accepted e (issued (updateZviewConnection e c) w) =
        accepted e (filter (\<lambda>x. \<not> quiet x) (issued (updateZviewConnection e c) w))"
    by (rule accepted_loud [symmetric])
  also have "\<dots> =
     (if zvError e (ZvUpdateConnection c) = ZV_ERROR_OK \<and>
         zvError e (ZvGetConnectionState c) = ZV_ERROR_OK \<and>
         out_connectionState e c = ZV_CONNECTION_STATE_AWAITING_CONNECTION_ACCEPTANCE \<and>
         c \<noteq> g_zViewActiveConnection w \<and> g_zViewActiveConnection w = NULL \<and>
         zvError e (ZvAcceptConnection c) = ZV_ERROR_OK
      then [c] else [])"
    by (simp add: update_settled accepted_batch)
  finally show ?thesis .
qed

lemma update_live:
  "(if observed_end e c then removeAll c (live w) else live w) @
     accepted e (issued (updateZviewConnection e c) w) =
   live (snd (updateZviewConnection e c w))"
proof (cases "zvError e (ZvUpdateConnection c) = ZV_ERROR_OK \<and>
              zvError e (ZvGetConnectionState c) = ZV_ERROR_OK")
  case False
  then show ?thesis
    by (auto simp add: update_accepted update_pointer observed_end_def live_def)
next
  case True
  then show ?thesis
    by (cases "out_connectionState e c")
       (auto simp add: update_accepted update_pointer observed_end_def live_def)
qed

lemma active_sessions_live:
  "active_sessions rs w (live w) = live (updateZviewConnections rs w)"
proof (induction rs arbitrary: w)
  case Nil
  then show ?case by simp
next
  case (Cons r rs)
  show ?case
    by (simp only: active_sessions.simps updateZviewConnections.simps update_live Cons.IH)
qed

section \<open>At most one active session\<close>

text \<open>
  C1, as the code has it. Of the calls that accept or close a connection, write a
  setting or change the mode, an update of a connection reported as awaiting acceptance
  makes none when the connection is already the active connection, the call that accepts
  it when there is no active connection, and otherwise the call that closes it with the
  rejection reason; the connection becomes the active connection when there was none and
  the accept call succeeds, and the active connection stays as it was otherwise. An
  update of the active connection reported closed or in error clears the
  active-connection pointer. An update, whatever the state reported, accepts a
  connection only when there is no active connection. So over every sequence of reports
  the sessions accepted and not yet observed closed or in error are the one session the
  active-connection pointer holds, or none: there are never two.
\<close>

theorem one_active_session:
  "(zvError e (ZvUpdateConnection c) = ZV_ERROR_OK \<and>
    zvError e (ZvGetConnectionState c) = ZV_ERROR_OK \<and>
    out_connectionState e c = ZV_CONNECTION_STATE_AWAITING_CONNECTION_ACCEPTANCE \<longrightarrow>
      filter (\<lambda>x. \<not> quiet x) (issued (updateZviewConnection e c) w) =
        (if c = g_zViewActiveConnection w then []
         else if g_zViewActiveConnection w = NULL then [ZvAcceptConnection c]
         else [ZvCloseConnection c ZV_CONNECTION_CLOSE_ACTION_NONE
                 ZV_CONNECTION_CLOSE_REASON_CONNECTION_REJECTED
                 ''Maximum number of active zView connections exceeded'']) \<and>
      g_zViewActiveConnection (snd (updateZviewConnection e c w)) =
        (if g_zViewActiveConnection w = NULL \<and>
            zvError e (ZvAcceptConnection c) = ZV_ERROR_OK
         then c else g_zViewActiveConnection w))
   \<and> (zvError e (ZvUpdateConnection c) = ZV_ERROR_OK \<and>
      zvError e (ZvGetConnectionState c) = ZV_ERROR_OK \<and>
      (out_connectionState e c = ZV_CONNECTION_STATE_CLOSED \<or>
       out_connectionState e c = ZV_CONNECTION_STATE_ERROR) \<and>
      c = g_zViewActiveConnection w \<longrightarrow>
        g_zViewActiveConnection (snd (updateZviewConnection e c w)) = NULL)
   \<and> accepted e (issued (updateZviewConnection e c) w) =
       (if zvError e (ZvUpdateConnection c) = ZV_ERROR_OK \<and>
           zvError e (ZvGetConnectionState c) = ZV_ERROR_OK \<and>
           out_connectionState e c = ZV_CONNECTION_STATE_AWAITING_CONNECTION_ACCEPTANCE \<and>
           c \<noteq> g_zViewActiveConnection w \<and> g_zViewActiveConnection w = NULL \<and>
           zvError e (ZvAcceptConnection c) = ZV_ERROR_OK
        then [c] else [])
   \<and> active_sessions rs w (live w) = live (updateZviewConnections rs w)
   \<and> length (active_sessions rs w (live w)) \<le> 1"
proof -
  have A: "zvError e (ZvUpdateConnection c) = ZV_ERROR_OK \<and>
    zvError e (ZvGetConnectionState c) = ZV_ERROR_OK \<and>
    out_connectionState e c = ZV_CONNECTION_STATE_AWAITING_CONNECTION_ACCEPTANCE \<longrightarrow>
      filter (\<lambda>x. \<not> quiet x) (issued (updateZviewConnection e c) w) =
        (if c = g_zViewActiveConnection w then []
         else if g_zViewActiveConnection w = NULL then [ZvAcceptConnection c]
         else [ZvCloseConnection c ZV_CONNECTION_CLOSE_ACTION_NONE
                 ZV_CONNECTION_CLOSE_REASON_CONNECTION_REJECTED
                 ''Maximum number of active zView connections exceeded'']) \<and>
      g_zViewActiveConnection (snd (updateZviewConnection e c w)) =
        (if g_zViewActiveConnection w = NULL \<and>
            zvError e (ZvAcceptConnection c) = ZV_ERROR_OK
         then c else g_zViewActiveConnection w)"
    by (simp add: update_settled update_pointer)
  have B: "zvError e (ZvUpdateConnection c) = ZV_ERROR_OK \<and>
      zvError e (ZvGetConnectionState c) = ZV_ERROR_OK \<and>
      (out_connectionState e c = ZV_CONNECTION_STATE_CLOSED \<or>
       out_connectionState e c = ZV_CONNECTION_STATE_ERROR) \<and>
      c = g_zViewActiveConnection w \<longrightarrow>
        g_zViewActiveConnection (snd (updateZviewConnection e c w)) = NULL"
    by (auto simp add: update_pointer)
  have D: "length (active_sessions rs w (live w)) \<le> 1"
    unfolding active_sessions_live by (simp add: live_def)
  show ?thesis
    by (rule conjI [OF A conjI [OF B conjI [OF update_accepted
          conjI [OF active_sessions_live D]]]])
qed

theorem one_active_session_witness:
  "filter (\<lambda>x. \<not> quiet x) (issued (updateZviewConnection env_awaiting 5) initialized) =
     [ZvAcceptConnection 5]
   \<and> g_zViewActiveConnection (snd (updateZviewConnection env_awaiting 5 initialized)) = 5
   \<and> filter (\<lambda>x. \<not> quiet x) (issued (updateZviewConnection env_awaiting 6) standard_streaming) =
     [ZvCloseConnection 6 ZV_CONNECTION_CLOSE_ACTION_NONE
        ZV_CONNECTION_CLOSE_REASON_CONNECTION_REJECTED
        ''Maximum number of active zView connections exceeded'']
   \<and> g_zViewActiveConnection (snd (updateZviewConnection env_awaiting 6 standard_streaming)) = 5
   \<and> g_zViewActiveConnection (snd (updateZviewConnection env_closed 5 standard_streaming)) = NULL
   \<and> active_sessions
       [(env_awaiting, 5), (env_awaiting, 6), (env_closed, 5), (env_awaiting, 6)]
       initialized [] = [6]"
proof -
  let ?rs = "[(env_awaiting, 5), (env_awaiting, 6), (env_closed, 5), (env_awaiting, 6)]"
  have i: "g_zViewActiveConnection initialized = NULL"
    by (simp add: initialized_def world0_def)
  have f: "g_zViewActiveConnection standard_streaming = 5"
    by (simp add: standard_streaming_def standard_active_def initialized_def world0_def)
  have a: "zvError env_awaiting = (\<lambda>_. ZV_ERROR_OK)"
    "out_connectionState env_awaiting =
       (\<lambda>_. ZV_CONNECTION_STATE_AWAITING_CONNECTION_ACCEPTANCE)"
    and k: "zvError env_closed = (\<lambda>_. ZV_ERROR_OK)"
    "out_connectionState env_closed = (\<lambda>_. ZV_CONNECTION_STATE_CLOSED)"
    by (simp_all add: env_awaiting_def env_closed_def env_ok_def)
  note t1 = one_active_session [where e = env_awaiting and c = 5 and w = initialized
      and rs = ?rs]
  note t2 = one_active_session [where e = env_awaiting and c = 6 and w = standard_streaming
      and rs = ?rs]
  note t3 = one_active_session [where e = env_closed and c = 5 and w = standard_streaming
      and rs = ?rs]
  have h1: "zvError env_awaiting (ZvUpdateConnection 5) = ZV_ERROR_OK \<and>
    zvError env_awaiting (ZvGetConnectionState 5) = ZV_ERROR_OK \<and>
    out_connectionState env_awaiting 5 = ZV_CONNECTION_STATE_AWAITING_CONNECTION_ACCEPTANCE"
    and h2: "zvError env_awaiting (ZvUpdateConnection 6) = ZV_ERROR_OK \<and>
    zvError env_awaiting (ZvGetConnectionState 6) = ZV_ERROR_OK \<and>
    out_connectionState env_awaiting 6 = ZV_CONNECTION_STATE_AWAITING_CONNECTION_ACCEPTANCE"
    by (simp_all add: a)
  have h3: "zvError env_closed (ZvUpdateConnection 5) = ZV_ERROR_OK \<and>
      zvError env_closed (ZvGetConnectionState 5) = ZV_ERROR_OK \<and>
      (out_connectionState env_closed 5 = ZV_CONNECTION_STATE_CLOSED \<or>
       out_connectionState env_closed 5 = ZV_CONNECTION_STATE_ERROR) \<and>
      5 = g_zViewActiveConnection standard_streaming"
    by (simp add: k f)
  have p1: "filter (\<lambda>x. \<not> quiet x) (issued (updateZviewConnection env_awaiting 5) initialized) =
     [ZvAcceptConnection 5]"
    using t1 [THEN conjunct1, THEN mp, OF h1, THEN conjunct1] by (simp add: i)
  have p2: "g_zViewActiveConnection (snd (updateZviewConnection env_awaiting 5 initialized)) = 5"
    using t1 [THEN conjunct1, THEN mp, OF h1, THEN conjunct2] by (simp add: i a)
  have p3: "filter (\<lambda>x. \<not> quiet x)
              (issued (updateZviewConnection env_awaiting 6) standard_streaming) =
     [ZvCloseConnection 6 ZV_CONNECTION_CLOSE_ACTION_NONE
        ZV_CONNECTION_CLOSE_REASON_CONNECTION_REJECTED
        ''Maximum number of active zView connections exceeded'']"
    using t2 [THEN conjunct1, THEN mp, OF h2, THEN conjunct1] by (simp add: f)
  have p4: "g_zViewActiveConnection
              (snd (updateZviewConnection env_awaiting 6 standard_streaming)) = 5"
    using t2 [THEN conjunct1, THEN mp, OF h2, THEN conjunct2] by (simp add: f)
  have p5: "g_zViewActiveConnection
              (snd (updateZviewConnection env_closed 5 standard_streaming)) = NULL"
    by (rule t3 [THEN conjunct2, THEN conjunct1, THEN mp, OF h3])
  have e1: "active_sessions ?rs initialized (live initialized) =
          live (updateZviewConnections ?rs initialized)"
    by (rule t1 [THEN conjunct2, THEN conjunct2, THEN conjunct2, THEN conjunct1])
  have e2: "live initialized = []"
    by (simp add: live_def i)
  have q: "g_zViewActiveConnection (updateZviewConnections ?rs initialized) = 6"
    by (simp add: update_pointer a k i)
  have e3: "live (updateZviewConnections ?rs initialized) = [6]"
    unfolding live_def by (simp only: q) simp
  have p6: "active_sessions ?rs initialized [] = [6]"
    using e1 [unfolded e2 e3] .
  from p1 p2 p3 p4 p5 p6 show ?thesis by blast
qed

text \<open>
  The claim as stated, that a connection awaiting acceptance is closed with the
  rejection reason whenever an active connection exists, fails on the code. Connection 5
  is accepted by a first update; a second update still finds it reported as awaiting
  acceptance. An active connection exists then, connection 5 itself, and the update
  does not close the connection: it makes no call for it at all.
\<close>

theorem awaiting_active_connection_counterexample:
  "\<not> accepted_or_rejected env_awaiting 5
       (snd (updateZviewConnection env_awaiting 5 initialized))"
proof -
  let ?w = "snd (updateZviewConnection env_awaiting 5 initialized)"
  let ?x = "ZvCloseConnection 5 ZV_CONNECTION_CLOSE_ACTION_NONE
              ZV_CONNECTION_CLOSE_REASON_CONNECTION_REJECTED
              ''Maximum number of active zView connections exceeded''"
  have i: "g_zViewActiveConnection initialized = NULL"
    by (simp add: initialized_def world0_def)
  have a: "zvError env_awaiting = (\<lambda>_. ZV_ERROR_OK)"
    "out_connectionState env_awaiting =
       (\<lambda>_. ZV_CONNECTION_STATE_AWAITING_CONNECTION_ACCEPTANCE)"
    by (simp_all add: env_awaiting_def env_ok_def)
  have p: "g_zViewActiveConnection ?w = 5"
    by (simp add: update_pointer a i)
  have "filter (\<lambda>x. \<not> quiet x) (issued (updateZviewConnection env_awaiting 5) ?w) = []"
    unfolding update_settled by (simp add: a p)
  moreover have "?x \<in> set (filter (\<lambda>x. \<not> quiet x) (issued (updateZviewConnection env_awaiting 5) ?w))"
    if "?x \<in> set (issued (updateZviewConnection env_awaiting 5) ?w)"
    using that by simp
  ultimately have "?x \<notin> set (issued (updateZviewConnection env_awaiting 5) ?w)"
    by auto
  then show ?thesis
    by (simp add: accepted_or_rejected_def p)
qed

section \<open>The video recording poll within an update\<close>

lemma processNew_latest [simp]:
  "g_zViewVideoRecordingLatestState (snd (processNewZviewConnection e c w)) =
     g_zViewVideoRecordingLatestState w"
  by (simp add: processNewZviewConnection_def zv_def Let_def)

lemma dispatch_latest [simp]:
  "g_zViewVideoRecordingLatestState (snd (connection_dispatch e c st w)) =
     g_zViewVideoRecordingLatestState w"
  by (cases st) (simp_all add: connection_dispatch_def sub_def zv_def Let_def)







section \<open>Rounding to single precision\<close>

lemma round_half_even_int [simp]: "round_half_even (of_int n) = n"
  by (simp add: round_half_even_def)


lemma round_half_even_le:
  assumes "x \<le> of_int k"
  shows "round_half_even x \<le> k"
proof (cases "x = of_int \<lfloor>x\<rfloor>")
  case True
  then obtain n where n: "x = of_int n" ..
  with assms have "n \<le> k" by simp
  then show ?thesis by (simp add: n)
next
  case False
  then have "of_int \<lfloor>x\<rfloor> < x" using of_int_floor_le [of x] by linarith
  then have "of_int \<lfloor>x\<rfloor> < (of_int k :: real)" using assms by linarith
  then have "\<lfloor>x\<rfloor> + 1 \<le> k" by simp
  then show ?thesis by (simp add: round_half_even_def Let_def)
qed

lemma round_half_even_minus: "round_half_even (- x) = - round_half_even x"
proof (cases "x = of_int \<lfloor>x\<rfloor>")
  case True
  then obtain n where "x = of_int n" ..
  then have "- x = of_int (- n)" by simp
  with \<open>x = of_int n\<close> show ?thesis by (simp only: round_half_even_int)
next
  case False
  then have lt: "of_int \<lfloor>x\<rfloor> < x" using of_int_floor_le [of x] by linarith
  have ub: "x < of_int \<lfloor>x\<rfloor> + 1" by linarith
  have e: "of_int (- \<lfloor>x\<rfloor> - 1) = - of_int \<lfloor>x\<rfloor> - (1 :: real)"
    by simp
  have "of_int (- \<lfloor>x\<rfloor> - 1) \<le> - x" "- x < of_int (- \<lfloor>x\<rfloor> - 1) + 1"
    unfolding e using lt ub by linarith+
  then have f: "\<lfloor>- x\<rfloor> = - \<lfloor>x\<rfloor> - 1"
    by (rule floor_unique)
  show ?thesis
    using lt ub by (auto simp add: round_half_even_def Let_def f)
qed

lemma powi2_less_imp_less:
  assumes "(2 :: real) powi m < 2 powi n"
  shows "m < n"
proof (rule ccontr)
  assume "\<not> m < n"
  then have "(2 :: real) powi n \<le> 2 powi m"
    by (intro power_int_increasing) simp_all
  with assms show False by simp
qed

lemma powi2_le_less_imp_less:
  assumes "(2 :: real) powi m \<le> x" and "x < 2 powi n"
  shows "m < n"
  using assms by (intro powi2_less_imp_less) simp

lemma binade_finite:
  "finite (insert (- 126) {e \<in> {- 126 .. 127}. 2 powi e \<le> \<bar>x :: real\<bar>})"
proof -
  have "{e \<in> {- 126 .. 127}. 2 powi e \<le> \<bar>x\<bar>} \<subseteq> {- 126 .. 127 :: int}" by blast
  then have "finite {e \<in> {- 126 .. 127}. 2 powi e \<le> \<bar>x\<bar>}"
    by (rule finite_subset) simp
  then show ?thesis by (rule finite.insertI)
qed

lemma binade_in:
  "binade x \<in> insert (- 126) {e \<in> {- 126 .. 127}. 2 powi e \<le> \<bar>x\<bar>}"
  unfolding binade_def by (rule Max_in [OF binade_finite]) blast


lemma binade_bounds: "- 126 \<le> binade x" "binade x \<le> 127"
  using binade_in [of x] by auto

lemma binade_minus [simp]: "binade (- x) = binade x"
  by (simp add: binade_def)

lemma binade_lower:
  assumes "- 126 < binade x \<or> 2 powi (- 126) \<le> \<bar>x\<bar>"
  shows "2 powi (binade x) \<le> \<bar>x\<bar>"
  using binade_in [of x] assms by auto



lemma binade_small:
  assumes "\<bar>x\<bar> < 2 powi (- 125)"
  shows "binade x = - 126"
proof (rule ccontr)
  assume "binade x \<noteq> - 126"
  with binade_bounds(1) [of x] have b: "- 126 < binade x" by simp
  then have "2 powi (binade x) \<le> \<bar>x\<bar>" by (intro binade_lower) simp
  from this assms have "binade x < - 125" by (rule powi2_le_less_imp_less)
  with b show False by simp
qed

lemma round32_nearest:
  "round32 x =
     (if 2 ^ 128 \<le> nearest32 x then PlusInfinity
      else if nearest32 x \<le> - (2 ^ 128) then MinusInfinity
      else Finite (nearest32 x))"
  by (simp add: round32_def nearest32_def Let_def)

lemma nearest32_minus [simp]: "nearest32 (- x) = - nearest32 x"
  by (simp add: nearest32_def round_half_even_minus)

lemma round32_minus: "round32 (- x) = fneg (round32 x)"
  by (simp add: round32_nearest)

lemma is_float32_iff:
  "is_float32 x \<longleftrightarrow> nearest32 x = x \<and> \<bar>x\<bar> < 2 ^ 128"
  by (auto simp add: is_float32_def round32_nearest)

lemma is_float32_minus [simp]: "is_float32 (- x) = is_float32 x"
  by (simp add: is_float32_iff)

lemma powi2_split:
  assumes "m \<le> n"
  shows "(2 :: real) powi n = 2 powi m * 2 ^ nat (n - m)"
proof -
  have "(2 :: real) powi n = 2 powi (m + int (nat (n - m)))"
    using assms by simp
  also have "\<dots> = 2 powi m * 2 powi int (nat (n - m))"
    by (rule power_int_add) simp
  also have "\<dots> = 2 powi m * 2 ^ nat (n - m)"
    by (simp only: power_int_of_nat)
  finally show ?thesis .
qed




lemma is_float32_of_int:
  assumes "\<bar>i\<bar> < 2 ^ 24"
  shows "is_float32 (of_int i)"
proof -
  let ?b = "binade (of_int i)"
  have b: "?b \<le> 23"
  proof (cases "- 126 < ?b")
    case True
    then have "2 powi ?b \<le> \<bar>of_int i :: real\<bar>" by (intro binade_lower) simp
    moreover have "\<bar>of_int i :: real\<bar> < 2 powi 24"
    proof -
      have "\<bar>of_int i :: real\<bar> = of_int \<bar>i\<bar>" by simp
      also have "\<dots> < of_int (2 ^ 24)" using assms by (simp only: of_int_less_iff)
      finally show ?thesis by simp
    qed
    ultimately have "?b < 24" by (rule powi2_le_less_imp_less)
    then show ?thesis by simp
  next
    case False
    then show ?thesis by simp
  qed
  have one: "(2 :: real) powi (?b - 23) * 2 ^ nat (23 - ?b) = 1"
  proof -
    have "(2 :: real) powi 0 = 2 powi (?b - 23) * 2 ^ nat (0 - (?b - 23))"
      using b by (intro powi2_split) simp
    then show ?thesis by simp
  qed
  have q: "(0 :: real) < 2 powi (?b - 23)" by (rule zero_less_power_int) simp
  have "of_int i / 2 powi (?b - 23) = (of_int i * 2 ^ nat (23 - ?b) :: real)"
    using one q by (simp add: field_simps)
  also have "\<dots> = of_int (i * 2 ^ nat (23 - ?b))" by simp
  finally have d: "of_int i / 2 powi (?b - 23) = (of_int (i * 2 ^ nat (23 - ?b)) :: real)" .
  have n: "nearest32 (of_int i) = of_int i"
  proof -
    have "nearest32 (of_int i) = of_int (i * 2 ^ nat (23 - ?b)) * 2 powi (?b - 23)"
      unfolding nearest32_def d by (simp only: round_half_even_int)
    also have "\<dots> = of_int i * (2 powi (?b - 23) * 2 ^ nat (23 - ?b))"
      by simp
    finally show ?thesis by (simp only: one mult_1_right)
  qed
  have "\<bar>of_int i :: real\<bar> = of_int \<bar>i\<bar>" by simp
  also have "\<dots> < of_int (2 ^ 24)" using assms by (simp only: of_int_less_iff)
  also have "\<dots> < (2 :: real) ^ 128" by simp
  finally show ?thesis using n by (simp add: is_float32_iff)
qed

lemma float_of_int_exact:
  assumes "\<bar>i\<bar> < 2 ^ 24"
  shows "float_of_int i = Finite (of_int i)"
  using is_float32_of_int [OF assms] by (simp add: float_of_int_def is_float32_def)

lemma round32_of_int:
  assumes "\<bar>i\<bar> < 2 ^ 24"
  shows "round32 (of_int i) = Finite (of_int i)"
  using is_float32_of_int [OF assms] by (simp add: is_float32_def)

lemma round32_not_NaN [simp]: "round32 x \<noteq> NaN"
  by (simp add: round32_nearest)

section \<open>The clamped increment\<close>

lemma clamp32_NaN [simp]: "clamp32 NaN minv maxv = NaN"
  by (simp add: clamp32_def)

lemma fadd_NaN [simp]: "fadd NaN d = NaN"
  by (cases d) simp_all


lemma clamp32_bounds:
  assumes "lo \<le> hi" and "v \<noteq> NaN"
  shows "fle (Finite lo) (clamp32 v (Finite lo) (Finite hi))"
    and "fle (clamp32 v (Finite lo) (Finite hi)) (Finite hi)"
  using assms by (cases v; simp add: clamp32_def)+




lemma increment_eq:
  "incrementZviewSettingClampedF32 e c k d minv maxv w =
     (if zvError e (ZvGetSettingF32 c k) \<noteq> ZV_ERROR_OK
      then (False, emit (ZvGetSettingF32 c k) w)
      else (zvError e (ZvSetSettingF32 c k (clamp32 (fadd (out_settingF32 e c k) d) minv maxv))
              = ZV_ERROR_OK,
            emit (ZvSetSettingF32 c k (clamp32 (fadd (out_settingF32 e c k) d) minv maxv))
              (emit (ZvGetSettingF32 c k) w)))"
  by (simp add: incrementZviewSettingClampedF32_def zv_def Let_def clamp32_def)




section \<open>The clamped increment in single precision\<close>


lemma fadd_not_NaN_right:
  assumes "v \<noteq> NaN"
  shows "fadd v (Finite y) \<noteq> NaN"
  using assms by (cases v) simp_all




section \<open>The overlay offset commands\<close>

lemma float_of_width:
  "float_of_int (uint (x :: ZSUInt16)) = Finite (of_int (uint x))"
  "float_of_int (- uint (x :: ZSUInt16)) = Finite (- of_int (uint x))"
proof -
  have "uint x < 2 ^ 16" using uint_lt2p [of x] by simp
  moreover have "0 \<le> uint x" by simp
  ultimately have "\<bar>uint x\<bar> < 2 ^ 24" "\<bar>- uint x\<bar> < 2 ^ 24" by simp_all
  then show "float_of_int (uint x) = Finite (of_int (uint x))"
    "float_of_int (- uint x) = Finite (- of_int (uint x))"
    using float_of_int_exact [of "uint x"] float_of_int_exact [of "- uint x"] by simp_all
qed

lemma keypress_offset:
  assumes "g_zViewActiveConnection w \<noteq> NULL"
    and "zvError e (ZvGetConnectionState (g_zViewActiveConnection w)) = ZV_ERROR_OK"
    and "out_connectionState e (g_zViewActiveConnection w) = ZV_CONNECTION_STATE_MODE_ACTIVE"
    and "zvError e (ZvGetConnectionMode (g_zViewActiveConnection w)) = ZV_ERROR_OK"
    and "out_connectionMode e (g_zViewActiveConnection w) = g_zViewAugmentedRealityMode w"
    and "isControlKeyPressed e"
    and "key = CHR ''A'' \<or> key = CHR ''D'' \<or> key = CHR ''S'' \<or> key = CHR ''W''"
  shows "processZviewAugmentedRealityModeOverlayControlKeyPress e key w =
           incrementZviewSettingClampedF32 e (g_zViewActiveConnection w)
             (if key = CHR ''A'' \<or> key = CHR ''D'' then ZV_SETTING_KEY_OVERLAY_OFFSET_X
              else ZV_SETTING_KEY_OVERLAY_OFFSET_Y)
             (if key = CHR ''A'' \<or> key = CHR ''S'' then Finite (- 1) else Finite 1)
             (Finite (- of_int (uint (g_zViewAugmentedRealityModeImageWidth w))))
             (Finite (of_int (uint (g_zViewAugmentedRealityModeImageWidth w))))
             (emit (ZvGetConnectionMode (g_zViewActiveConnection w))
                (emit (ZvGetConnectionState (g_zViewActiveConnection w)) w))"
proof -
  from assms(7) show ?thesis
  proof (elim disjE)
    assume "key = CHR ''A''"
    with assms(1-6) show ?thesis
      by (simp add: processZviewAugmentedRealityModeOverlayControlKeyPress_def zv_def
            float_of_width)
  next
    assume "key = CHR ''D''"
    with assms(1-6) show ?thesis
      by (simp add: processZviewAugmentedRealityModeOverlayControlKeyPress_def zv_def
            float_of_width)
  next
    assume "key = CHR ''S''"
    with assms(1-6) show ?thesis
      by (simp add: processZviewAugmentedRealityModeOverlayControlKeyPress_def zv_def
            float_of_width)
  next
    assume "key = CHR ''W''"
    with assms(1-6) show ?thesis
      by (simp add: processZviewAugmentedRealityModeOverlayControlKeyPress_def zv_def
            float_of_width)
  qed
qed

lemma keypress_offset_issued:
  assumes "g_zViewActiveConnection w \<noteq> NULL"
    and "zvError e (ZvGetConnectionState (g_zViewActiveConnection w)) = ZV_ERROR_OK"
    and "out_connectionState e (g_zViewActiveConnection w) = ZV_CONNECTION_STATE_MODE_ACTIVE"
    and "zvError e (ZvGetConnectionMode (g_zViewActiveConnection w)) = ZV_ERROR_OK"
    and "out_connectionMode e (g_zViewActiveConnection w) = g_zViewAugmentedRealityMode w"
    and "isControlKeyPressed e"
    and "key = CHR ''A'' \<or> key = CHR ''D'' \<or> key = CHR ''S'' \<or> key = CHR ''W''"
    and "k = (if key = CHR ''A'' \<or> key = CHR ''D'' then ZV_SETTING_KEY_OVERLAY_OFFSET_X
              else ZV_SETTING_KEY_OVERLAY_OFFSET_Y)"
    and "zvError e (ZvGetSettingF32 (g_zViewActiveConnection w) k) = ZV_ERROR_OK"
  shows "issued (processZviewAugmentedRealityModeOverlayControlKeyPress e key) w =
           [ZvGetConnectionState (g_zViewActiveConnection w),
            ZvGetConnectionMode (g_zViewActiveConnection w),
            ZvGetSettingF32 (g_zViewActiveConnection w) k,
            ZvSetSettingF32 (g_zViewActiveConnection w) k
              (clamp32
                 (fadd (out_settingF32 e (g_zViewActiveConnection w) k)
                    (if key = CHR ''A'' \<or> key = CHR ''S'' then Finite (- 1) else Finite 1))
                 (Finite (- of_int (uint (g_zViewAugmentedRealityModeImageWidth w))))
                 (Finite (of_int (uint (g_zViewAugmentedRealityModeImageWidth w)))))]"
  by (rule issued_append)
     (simp add: keypress_offset [OF assms(1-7)] increment_eq assms(8) [symmetric] assms(9))

text \<open>
  C9, as the code has it. With augmented reality mode active on the active connection
  and the control key down, the commands that move the overlay down and up (keys S and
  W) read the vertical offset, add \<open>-1\<close> or \<open>1\<close> to it in single precision, clamp the sum
  with the bounds \<open>- width\<close> and \<open>width\<close>, where \<open>width\<close> is the negotiated image width
  of the augmented reality mode, and write the result; the commands that move it left
  and right (keys A and D) do the same with the horizontal offset and the same bounds.
  When the value read is not NaN the value written lies within \<open>[- width, width]\<close>; a
  NaN read is written back as NaN. The image height plays no part: the calls made are
  the same whatever the height is.
\<close>

theorem overlay_offset_bounds:
  assumes "g_zViewActiveConnection w \<noteq> NULL"
    and "zvError e (ZvGetConnectionState (g_zViewActiveConnection w)) = ZV_ERROR_OK"
    and "out_connectionState e (g_zViewActiveConnection w) = ZV_CONNECTION_STATE_MODE_ACTIVE"
    and "zvError e (ZvGetConnectionMode (g_zViewActiveConnection w)) = ZV_ERROR_OK"
    and "out_connectionMode e (g_zViewActiveConnection w) = g_zViewAugmentedRealityMode w"
    and "isControlKeyPressed e"
    and "key = CHR ''A'' \<or> key = CHR ''D'' \<or> key = CHR ''S'' \<or> key = CHR ''W''"
    and "k = (if key = CHR ''A'' \<or> key = CHR ''D'' then ZV_SETTING_KEY_OVERLAY_OFFSET_X
              else ZV_SETTING_KEY_OVERLAY_OFFSET_Y)"
    and "zvError e (ZvGetSettingF32 (g_zViewActiveConnection w) k) = ZV_ERROR_OK"
    and "width = of_int (uint (g_zViewAugmentedRealityModeImageWidth w))"
    and "v = clamp32
               (fadd (out_settingF32 e (g_zViewActiveConnection w) k)
                  (if key = CHR ''A'' \<or> key = CHR ''S'' then Finite (- 1) else Finite 1))
               (Finite (- width)) (Finite width)"
  shows "issued (processZviewAugmentedRealityModeOverlayControlKeyPress e key) w =
           [ZvGetConnectionState (g_zViewActiveConnection w),
            ZvGetConnectionMode (g_zViewActiveConnection w),
            ZvGetSettingF32 (g_zViewActiveConnection w) k,
            ZvSetSettingF32 (g_zViewActiveConnection w) k v]
       \<and> (out_settingF32 e (g_zViewActiveConnection w) k \<noteq> NaN \<longrightarrow>
            fle (Finite (- width)) v \<and> fle v (Finite width))
       \<and> (out_settingF32 e (g_zViewActiveConnection w) k = NaN \<longrightarrow> v = NaN)
       \<and> issued (processZviewAugmentedRealityModeOverlayControlKeyPress e key)
           (w\<lparr>g_zViewAugmentedRealityModeImageHeight := h\<rparr>) =
         issued (processZviewAugmentedRealityModeOverlayControlKeyPress e key) w"
proof -
  let ?w = "w\<lparr>g_zViewAugmentedRealityModeImageHeight := h\<rparr>"
  let ?d = "if key = CHR ''A'' \<or> key = CHR ''S'' then Finite (- 1) else Finite 1"
  have A: "issued (processZviewAugmentedRealityModeOverlayControlKeyPress e key) w =
           [ZvGetConnectionState (g_zViewActiveConnection w),
            ZvGetConnectionMode (g_zViewActiveConnection w),
            ZvGetSettingF32 (g_zViewActiveConnection w) k,
            ZvSetSettingF32 (g_zViewActiveConnection w) k v]"
    using keypress_offset_issued [OF assms(1-9)] by (simp add: assms(10,11))
  have "issued (processZviewAugmentedRealityModeOverlayControlKeyPress e key) ?w =
           [ZvGetConnectionState (g_zViewActiveConnection ?w),
            ZvGetConnectionMode (g_zViewActiveConnection ?w),
            ZvGetSettingF32 (g_zViewActiveConnection ?w) k,
            ZvSetSettingF32 (g_zViewActiveConnection ?w) k
              (clamp32
                 (fadd (out_settingF32 e (g_zViewActiveConnection ?w) k)
                    (if key = CHR ''A'' \<or> key = CHR ''S'' then Finite (- 1) else Finite 1))
                 (Finite (- of_int (uint (g_zViewAugmentedRealityModeImageWidth ?w))))
                 (Finite (of_int (uint (g_zViewAugmentedRealityModeImageWidth ?w)))))]"
    using assms(1-6,9) by (intro keypress_offset_issued assms(7,8)) simp_all
  then have B: "issued (processZviewAugmentedRealityModeOverlayControlKeyPress e key) ?w =
                issued (processZviewAugmentedRealityModeOverlayControlKeyPress e key) w"
    by (simp add: A assms(10,11))
  have "(0::real) \<le> of_int (uint (g_zViewAugmentedRealityModeImageWidth w))"
    by (rule iffD2 [OF of_int_0_le_iff uint_ge_0])
  then have wd: "- width \<le> width"
    unfolding assms(10) by linarith
  have C: "out_settingF32 e (g_zViewActiveConnection w) k \<noteq> NaN \<longrightarrow>
            fle (Finite (- width)) v \<and> fle v (Finite width)"
  proof
    assume "out_settingF32 e (g_zViewActiveConnection w) k \<noteq> NaN"
    then have "fadd (out_settingF32 e (g_zViewActiveConnection w) k) ?d \<noteq> NaN"
      using fadd_not_NaN_right [of "out_settingF32 e (g_zViewActiveConnection w) k"]
      by simp
    then show "fle (Finite (- width)) v \<and> fle v (Finite width)"
      unfolding assms(11) by (intro conjI clamp32_bounds [OF wd])
  qed
  have D: "out_settingF32 e (g_zViewActiveConnection w) k = NaN \<longrightarrow> v = NaN"
    by (simp add: assms(11))
  show ?thesis by (rule conjI [OF A conjI [OF C conjI [OF D B]]])
qed

theorem overlay_offset_bounds_witness:
  "issued (processZviewAugmentedRealityModeOverlayControlKeyPress
             (env_ar\<lparr>out_settingF32 := (\<lambda>_ _. Finite 640)\<rparr>) CHR ''W'') ar_active =
     [ZvGetConnectionState 5, ZvGetConnectionMode 5,
      ZvGetSettingF32 5 ZV_SETTING_KEY_OVERLAY_OFFSET_Y,
      ZvSetSettingF32 5 ZV_SETTING_KEY_OVERLAY_OFFSET_Y (Finite 640)]
   \<and> issued (processZviewAugmentedRealityModeOverlayControlKeyPress
             (env_ar\<lparr>out_settingF32 := (\<lambda>_ _. NaN)\<rparr>) CHR ''W'') ar_active =
     [ZvGetConnectionState 5, ZvGetConnectionMode 5,
      ZvGetSettingF32 5 ZV_SETTING_KEY_OVERLAY_OFFSET_Y,
      ZvSetSettingF32 5 ZV_SETTING_KEY_OVERLAY_OFFSET_Y NaN]
   \<and> uint (g_zViewAugmentedRealityModeImageHeight ar_active) = 480"
proof -
  let ?e = "env_ar\<lparr>out_settingF32 := (\<lambda>_ _. Finite 640)\<rparr>"
  let ?n = "env_ar\<lparr>out_settingF32 := (\<lambda>_ _. NaN)\<rparr>"
  let ?v = "clamp32 (fadd (Finite 640) (Finite 1)) (Finite (- 640)) (Finite 640)"
  have r: "round32 641 = Finite 641"
    using round32_of_int [of 641] by simp
  have v: "?v = Finite 640"
    by (simp add: r clamp32_def)
  have "issued (processZviewAugmentedRealityModeOverlayControlKeyPress ?e CHR ''W'') ar_active =
     [ZvGetConnectionState (g_zViewActiveConnection ar_active),
      ZvGetConnectionMode (g_zViewActiveConnection ar_active),
      ZvGetSettingF32 (g_zViewActiveConnection ar_active) ZV_SETTING_KEY_OVERLAY_OFFSET_Y,
      ZvSetSettingF32 (g_zViewActiveConnection ar_active) ZV_SETTING_KEY_OVERLAY_OFFSET_Y ?v]
    \<and> (out_settingF32 ?e (g_zViewActiveConnection ar_active) ZV_SETTING_KEY_OVERLAY_OFFSET_Y
          \<noteq> NaN \<longrightarrow> fle (Finite (- 640)) ?v \<and> fle ?v (Finite 640))
    \<and> (out_settingF32 ?e (g_zViewActiveConnection ar_active) ZV_SETTING_KEY_OVERLAY_OFFSET_Y
          = NaN \<longrightarrow> ?v = NaN)
    \<and> issued (processZviewAugmentedRealityModeOverlayControlKeyPress ?e CHR ''W'')
           (ar_active\<lparr>g_zViewAugmentedRealityModeImageHeight := 0\<rparr>) =
         issued (processZviewAugmentedRealityModeOverlayControlKeyPress ?e CHR ''W'') ar_active"
    by (rule overlay_offset_bounds [where width = 640])
       (simp_all add: ar_active_def initialized_def world0_def env_ar_def env_ok_def)
  then have a: "issued (processZviewAugmentedRealityModeOverlayControlKeyPress ?e CHR ''W'')
                  ar_active =
     [ZvGetConnectionState 5, ZvGetConnectionMode 5,
      ZvGetSettingF32 5 ZV_SETTING_KEY_OVERLAY_OFFSET_Y,
      ZvSetSettingF32 5 ZV_SETTING_KEY_OVERLAY_OFFSET_Y (Finite 640)]"
    unfolding v by (simp add: ar_active_def initialized_def world0_def)
  have "issued (processZviewAugmentedRealityModeOverlayControlKeyPress ?n CHR ''W'') ar_active =
     [ZvGetConnectionState (g_zViewActiveConnection ar_active),
      ZvGetConnectionMode (g_zViewActiveConnection ar_active),
      ZvGetSettingF32 (g_zViewActiveConnection ar_active) ZV_SETTING_KEY_OVERLAY_OFFSET_Y,
      ZvSetSettingF32 (g_zViewActiveConnection ar_active) ZV_SETTING_KEY_OVERLAY_OFFSET_Y NaN]
    \<and> (out_settingF32 ?n (g_zViewActiveConnection ar_active) ZV_SETTING_KEY_OVERLAY_OFFSET_Y
          \<noteq> NaN \<longrightarrow> fle (Finite (- 640)) NaN \<and> fle NaN (Finite 640))
    \<and> (out_settingF32 ?n (g_zViewActiveConnection ar_active) ZV_SETTING_KEY_OVERLAY_OFFSET_Y
          = NaN \<longrightarrow> NaN = NaN)
    \<and> issued (processZviewAugmentedRealityModeOverlayControlKeyPress ?n CHR ''W'')
           (ar_active\<lparr>g_zViewAugmentedRealityModeImageHeight := 0\<rparr>) =
         issued (processZviewAugmentedRealityModeOverlayControlKeyPress ?n CHR ''W'') ar_active"
    by (rule overlay_offset_bounds [where width = 640])
       (simp_all add: ar_active_def initialized_def world0_def env_ar_def env_ok_def)
  then have b: "issued (processZviewAugmentedRealityModeOverlayControlKeyPress ?n CHR ''W'')
                  ar_active =
     [ZvGetConnectionState 5, ZvGetConnectionMode 5,
      ZvGetSettingF32 5 ZV_SETTING_KEY_OVERLAY_OFFSET_Y,
      ZvSetSettingF32 5 ZV_SETTING_KEY_OVERLAY_OFFSET_Y NaN]"
    by (simp add: ar_active_def initialized_def world0_def)
  have c: "uint (g_zViewAugmentedRealityModeImageHeight ar_active) = 480"
    by (simp add: ar_active_def initialized_def world0_def)
  from a b c show ?thesis by blast
qed

text \<open>
  The claim as stated, that the offset written always lies between minus the width and
  the width, fails on the code: when the vertical offset read is NaN, the command that
  moves the overlay up writes NaN.
\<close>

theorem overlay_offset_nan_counterexample:
  "\<not> offset_within_width (env_ar\<lparr>out_settingF32 := (\<lambda>_ _. NaN)\<rparr>) CHR ''W'' ar_active"
proof -
  let ?n = "env_ar\<lparr>out_settingF32 := (\<lambda>_ _. NaN)\<rparr>"
  have "issued (processZviewAugmentedRealityModeOverlayControlKeyPress ?n CHR ''W'') ar_active =
     [ZvGetConnectionState (g_zViewActiveConnection ar_active),
      ZvGetConnectionMode (g_zViewActiveConnection ar_active),
      ZvGetSettingF32 (g_zViewActiveConnection ar_active) ZV_SETTING_KEY_OVERLAY_OFFSET_Y,
      ZvSetSettingF32 (g_zViewActiveConnection ar_active) ZV_SETTING_KEY_OVERLAY_OFFSET_Y
        (clamp32
           (fadd (out_settingF32 ?n (g_zViewActiveConnection ar_active)
                    ZV_SETTING_KEY_OVERLAY_OFFSET_Y)
              (if CHR ''W'' = CHR ''A'' \<or> CHR ''W'' = CHR ''S'' then Finite (- 1) else Finite 1))
           (Finite (- of_int (uint (g_zViewAugmentedRealityModeImageWidth ar_active))))
           (Finite (of_int (uint (g_zViewAugmentedRealityModeImageWidth ar_active)))))]"
    by (rule keypress_offset_issued)
       (simp_all add: ar_active_def initialized_def world0_def env_ar_def env_ok_def)
  then show ?thesis
    by (simp add: offset_within_width_def setting_writes_def)
qed

end
